theory Spec2Isabelle
  imports Main "HOL-Library.Word"
begin

section \<open>Common types\<close>

text \<open>
  \<open>frame_id_t\<close>, \<open>page_id_t\<close> and \<open>txn_id_t\<close> are 32-bit signed integers in the source;
  \<open>size_t\<close> is an unsigned 64-bit integer. Frame identifiers and the replacer's counter of
  evictable frames are modelled as words, because \<open>LRUKReplacer::Remove\<close> decrements the
  counter without a guard. Logical timestamps and the history depth \<open>k_\<close> are natural
  numbers: the timestamp is only ever incremented by one per access and compared.
  Field names drop the trailing underscore of the source (\<open>node_store_\<close> is
  \<open>node_store\<close>), which is not an identifier here; \<open>k_\<close> is \<open>replacer_k\<close>.
\<close>

type_synonym frame_id_t = "32 word"
type_synonym size_t = "64 word"

datatype error =
    EnsureFailed string
  | NullPointer
  | AssertFailed
  | OutOfMemory
  | TreeException string
  | WouldBlock
  | LatchNotHeld
  | BadCast
  | UninitialisedFrame
  | OutOfFuel
  | Aliased

section \<open>LRU-K replacer (src/buffer/lru\_k\_replacer.cpp)\<close>

subsection \<open>The replacer node\<close>

text \<open>
  Modelled from the spec: the class \<open>LRUKNode\<close> (declared in lru\_k\_replacer.h, which is
  not part of the sources at hand). The spec describes it as the per-frame access history,
  a bounded deque of timestamps of capacity \<open>K\<close>, plus an evictable flag. \<open>PushFront\<close>
  records a timestamp and drops the oldest one beyond \<open>K\<close>; \<open>BackK\<close> is the \<open>K\<close>-th most
  recent timestamp, and \<open>0\<close> while fewer than \<open>K\<close> accesses have been recorded (the test
  \<open>backk != 0\<close> of \<open>RecordAccess\<close> relies on this). A fresh node is not evictable:
  \<open>RecordAccess\<close> creates nodes without touching \<open>evictable_size_\<close>.
\<close>

record LRUKNode =
  history :: "nat list"
  node_k :: nat
  fid :: frame_id_t
  is_evictable :: bool

definition new_LRUKNode :: "nat \<Rightarrow> frame_id_t \<Rightarrow> LRUKNode" where
  "new_LRUKNode k f = \<lparr>history = [], node_k = k, fid = f, is_evictable = False\<rparr>"

definition PushFront :: "LRUKNode \<Rightarrow> nat \<Rightarrow> LRUKNode" where
  "PushFront n ts = n\<lparr>history := take (node_k n) (ts # history n)\<rparr>"

definition BackK :: "LRUKNode \<Rightarrow> nat" where
  "BackK n = (if 0 < node_k n \<and> node_k n \<le> length (history n)
              then history n ! (node_k n - 1) else 0)"

definition GetEvictable :: "LRUKNode \<Rightarrow> bool" where
  "GetEvictable n = is_evictable n"

definition node_SetEvictable :: "LRUKNode \<Rightarrow> bool \<Rightarrow> LRUKNode" where
  "node_SetEvictable n b = n\<lparr>is_evictable := b\<rparr>"

subsection \<open>The replacer state\<close>

text \<open>
  \<open>temp_pool_\<close> is the list of frames with fewer than \<open>K\<close> accesses, \<open>cache_pool_\<close> the list
  of pairs (frame, \<open>K\<close>-th most recent timestamp). The source also keeps
  \<open>temp_pool_map_\<close> and \<open>cache_pool_map_\<close>, which map each member of a list to the iterator
  of its list cell; their key sets are the members of the lists, so a lookup in one of them
  is membership in the list here, and an erase through the stored iterator removes that
  member's cell.
\<close>

record LRUKReplacer =
  node_store :: "frame_id_t \<rightharpoonup> LRUKNode"
  temp_pool :: "frame_id_t list"
  cache_pool :: "(frame_id_t \<times> nat) list"
  current_timestamp :: nat
  evictable_size :: size_t
  replacer_size :: size_t
  replacer_k :: nat

definition LRUKReplacer_init :: "size_t \<Rightarrow> nat \<Rightarrow> LRUKReplacer" where
  "LRUKReplacer_init num_frames k =
     \<lparr>node_store = Map.empty, temp_pool = [], cache_pool = [], current_timestamp = 0,
      evictable_size = 0, replacer_size = num_frames, replacer_k = k\<rparr>"

text \<open>
  Modelled from the spec: the macro \<open>BUSTUB_ENSURE(cond, msg)\<close> (common/macros.h is not part
  of the sources at hand). The spec names its failure an assertion violation; here the
  operation stops with \<open>EnsureFailed msg\<close> and no state is returned.
\<close>

definition BUSTUB_ENSURE :: "bool \<Rightarrow> string \<Rightarrow> (unit \<Rightarrow> error + 'a) \<Rightarrow> error + 'a" where
  "BUSTUB_ENSURE c msg rest = (if c then rest () else Inl (EnsureFailed msg))"

text \<open>\<open>static_cast<size_t>(frame_id)\<close>: sign extension of the 32-bit identifier.\<close>

definition frame_as_size_t :: "frame_id_t \<Rightarrow> size_t" where
  "frame_as_size_t f = scast f"

text \<open>
  The scan of \<open>Evict\<close> over one pool: the first member whose node is evictable. The source
  reads \<open>node_store_[f]->GetEvictable()\<close>; for a member without a node this dereferences
  a null pointer.
\<close>

fun first_evictable :: "(frame_id_t \<rightharpoonup> LRUKNode) \<Rightarrow> frame_id_t list \<Rightarrow> error + frame_id_t option" where
  "first_evictable ns [] = Inr None"
| "first_evictable ns (f # fs) =
     (case ns f of
        None \<Rightarrow> Inl NullPointer
      | Some n \<Rightarrow> if \<not> GetEvictable n then first_evictable ns fs else Inr (Some f))"

text \<open>Erasing the list cell of frame \<open>f\<close> from the mature pool.\<close>

fun cache_erase :: "frame_id_t \<Rightarrow> (frame_id_t \<times> nat) list \<Rightarrow> (frame_id_t \<times> nat) list" where
  "cache_erase f [] = []"
| "cache_erase f (p # ps) = (if fst p = f then ps else p # cache_erase f ps)"

text \<open>
  \<open>std::upper_bound\<close> with the comparator \<open>a.second < b.second\<close>, followed by
  \<open>list::insert\<close>: the new pair goes in front of the first pair whose timestamp is
  strictly greater.
\<close>

fun cache_insert :: "(frame_id_t \<times> nat) \<Rightarrow> (frame_id_t \<times> nat) list \<Rightarrow> (frame_id_t \<times> nat) list" where
  "cache_insert p [] = [p]"
| "cache_insert p (q # qs) = (if snd p < snd q then p # q # qs else q # cache_insert p qs)"

definition evict_from_temp :: "LRUKReplacer \<Rightarrow> frame_id_t \<Rightarrow> LRUKReplacer" where
  "evict_from_temp s f =
     s\<lparr>temp_pool := remove1 f (temp_pool s),
       node_store := (node_store s)(f := None),
       evictable_size := evictable_size s - 1\<rparr>"

definition evict_from_cache :: "LRUKReplacer \<Rightarrow> frame_id_t \<Rightarrow> LRUKReplacer" where
  "evict_from_cache s f =
     s\<lparr>cache_pool := cache_erase f (cache_pool s),
       node_store := (node_store s)(f := None),
       evictable_size := evictable_size s - 1\<rparr>"

definition Evict :: "LRUKReplacer \<Rightarrow> error + (frame_id_t option \<times> LRUKReplacer)" where
  "Evict s =
     (if evictable_size s = 0 then Inr (None, s)
      else case first_evictable (node_store s) (temp_pool s) of
          Inl e \<Rightarrow> Inl e
        | Inr (Some f) \<Rightarrow> Inr (Some f, evict_from_temp s f)
        | Inr None \<Rightarrow>
            (case first_evictable (node_store s) (map fst (cache_pool s)) of
               Inl e \<Rightarrow> Inl e
             | Inr (Some f) \<Rightarrow> Inr (Some f, evict_from_cache s f)
             | Inr None \<Rightarrow> Inr (None, s)))"

definition RecordAccess :: "LRUKReplacer \<Rightarrow> frame_id_t \<Rightarrow> error + LRUKReplacer" where
  "RecordAccess s f =
     BUSTUB_ENSURE (frame_as_size_t f \<le> replacer_size s)
       ''frame id is invalid(larger than replacer_size_)''
       (\<lambda>_. let ts = current_timestamp s + 1;
                s1 = s\<lparr>current_timestamp := ts\<rparr>
            in case node_store s f of
                 None \<Rightarrow>
                   Inr (s1\<lparr>node_store := (node_store s)(f \<mapsto> PushFront (new_LRUKNode (replacer_k s) f) ts),
                            temp_pool := temp_pool s @ [f]\<rparr>)
               | Some n \<Rightarrow>
                   let n' = PushFront n ts;
                       backk = BackK n';
                       s2 = s1\<lparr>node_store := (node_store s)(f \<mapsto> n')\<rparr>
                   in if f \<in> set (temp_pool s) then
                        (if backk \<noteq> 0 then
                           Inr (s2\<lparr>temp_pool := remove1 f (temp_pool s),
                                    cache_pool := cache_insert (f, backk) (cache_pool s)\<rparr>)
                         else Inr s2)
                      else if f \<in> set (map fst (cache_pool s)) then
                        Inr (s2\<lparr>cache_pool :=
                                   cache_insert (f, backk) (cache_erase f (cache_pool s))\<rparr>)
                      else Inl NullPointer)"

definition SetEvictable :: "LRUKReplacer \<Rightarrow> frame_id_t \<Rightarrow> bool \<Rightarrow> error + LRUKReplacer" where
  "SetEvictable s f set_evictable =
     BUSTUB_ENSURE (frame_as_size_t f \<le> replacer_size s)
       ''frame id is invalid(larger than replacer_size_)''
       (\<lambda>_. case node_store s f of
               None \<Rightarrow> Inr s
             | Some n \<Rightarrow>
                 if GetEvictable n \<and> \<not> set_evictable then
                   Inr (s\<lparr>node_store := (node_store s)(f \<mapsto> node_SetEvictable n set_evictable),
                          evictable_size := evictable_size s - 1\<rparr>)
                 else if \<not> GetEvictable n \<and> set_evictable then
                   Inr (s\<lparr>node_store := (node_store s)(f \<mapsto> node_SetEvictable n set_evictable),
                          evictable_size := evictable_size s + 1\<rparr>)
                 else Inr s)"

definition Remove :: "LRUKReplacer \<Rightarrow> frame_id_t \<Rightarrow> error + LRUKReplacer" where
  "Remove s f =
     (case node_store s f of
        None \<Rightarrow> Inr s
      | Some n \<Rightarrow>
          BUSTUB_ENSURE (GetEvictable n = False) ''Remove is called on a non-evictable frame''
            (\<lambda>_. Inr (s\<lparr>temp_pool := remove1 f (temp_pool s),
                         cache_pool := cache_erase f (cache_pool s),
                         node_store := (node_store s)(f := None),
                         evictable_size := evictable_size s - 1\<rparr>)))"

definition Size :: "LRUKReplacer \<Rightarrow> size_t" where
  "Size s = evictable_size s"

text \<open>Sequencing of fallible steps: the first failure ends the run.\<close>

definition ebind :: "'e + 'a \<Rightarrow> ('a \<Rightarrow> 'e + 'b) \<Rightarrow> 'e + 'b" where
  "ebind m f = (case m of Inl e \<Rightarrow> Inl e | Inr x \<Rightarrow> f x)"

fun record_all :: "LRUKReplacer \<Rightarrow> frame_id_t list \<Rightarrow> error + LRUKReplacer" where
  "record_all s [] = Inr s"
| "record_all s (f # fs) = ebind (RecordAccess s f) (\<lambda>s'. record_all s' fs)"

fun mark_all :: "LRUKReplacer \<Rightarrow> frame_id_t list \<Rightarrow> error + LRUKReplacer" where
  "mark_all s [] = Inr s"
| "mark_all s (f # fs) = ebind (SetEvictable s f True) (\<lambda>s'. mark_all s' fs)"

fun evict_n :: "nat \<Rightarrow> LRUKReplacer \<Rightarrow> error + (frame_id_t option list \<times> LRUKReplacer)" where
  "evict_n 0 s = Inr ([], s)"
| "evict_n (Suc n) s =
     ebind (Evict s) (\<lambda>(r, s'). ebind (evict_n n s') (\<lambda>(rs, s''). Inr (r # rs, s'')))"

subsection \<open>Well-formed replacer states\<close>

text \<open>
  The properties of \<open>Evict\<close> are stated for the states that the replacer reaches from its
  initial state by successful \<open>RecordAccess\<close>, \<open>SetEvictable\<close> and \<open>Evict\<close> calls. The
  predicates below describe such states: the two pools partition the tracked frames, the
  counter equals the number of evictable frames, every frame of the young pool has fewer
  than \<open>K\<close> recorded accesses and the pool is in the order of first access, every pair of
  the mature pool carries the \<open>K\<close>-th most recent timestamp of its frame and the pool is
  ascending in it.
\<close>

definition frame_evictable :: "LRUKReplacer \<Rightarrow> frame_id_t \<Rightarrow> bool" where
  "frame_evictable s f = (case node_store s f of None \<Rightarrow> False | Some n \<Rightarrow> is_evictable n)"

definition tracked :: "LRUKReplacer \<Rightarrow> frame_id_t list" where
  "tracked s = temp_pool s @ map fst (cache_pool s)"

definition first_access :: "LRUKReplacer \<Rightarrow> frame_id_t \<Rightarrow> nat" where
  "first_access s f = (case node_store s f of None \<Rightarrow> 0 | Some n \<Rightarrow> last (history n))"

definition inv_pools :: "LRUKReplacer \<Rightarrow> bool" where
  "inv_pools s \<longleftrightarrow> distinct (tracked s) \<and> set (tracked s) = dom (node_store s)"

definition inv_counter :: "LRUKReplacer \<Rightarrow> bool" where
  "inv_counter s \<longleftrightarrow> evictable_size s = of_nat (card {f. frame_evictable s f})"

definition inv_nodes :: "LRUKReplacer \<Rightarrow> bool" where
  "inv_nodes s \<longleftrightarrow>
     (\<forall>f n. node_store s f = Some n \<longrightarrow>
        node_k n = replacer_k s \<and> history n \<noteq> [] \<and>
        (\<forall>t\<in>set (history n). 0 < t \<and> t \<le> current_timestamp s))"

definition inv_young :: "LRUKReplacer \<Rightarrow> bool" where
  "inv_young s \<longleftrightarrow>
     (\<forall>f\<in>set (temp_pool s). \<forall>n. node_store s f = Some n \<longrightarrow> length (history n) < replacer_k s) \<and>
     sorted_wrt (<) (map (first_access s) (temp_pool s))"

definition inv_mature :: "LRUKReplacer \<Rightarrow> bool" where
  "inv_mature s \<longleftrightarrow>
     (\<forall>p\<in>set (cache_pool s). \<forall>n. node_store s (fst p) = Some n \<longrightarrow>
        length (history n) = replacer_k s \<and> snd p = BackK n) \<and>
     sorted (map snd (cache_pool s))"

definition replacer_inv :: "LRUKReplacer \<Rightarrow> bool" where
  "replacer_inv s \<longleftrightarrow>
     2 \<le> replacer_k s \<and> inv_pools s \<and> inv_counter s \<and> inv_nodes s \<and> inv_young s \<and> inv_mature s"

text \<open>The state after the victim's cells have been deleted.\<close>

definition forget_frame :: "LRUKReplacer \<Rightarrow> frame_id_t \<Rightarrow> LRUKReplacer" where
  "forget_frame s f =
     s\<lparr>temp_pool := removeAll f (temp_pool s),
       cache_pool := filter (\<lambda>p. fst p \<noteq> f) (cache_pool s),
       node_store := (node_store s)(f := None),
       evictable_size := evictable_size s - 1\<rparr>"

definition evict_result :: "LRUKReplacer \<Rightarrow> frame_id_t option \<times> LRUKReplacer" where
  "evict_result s =
     (case find (frame_evictable s) (temp_pool s @ map fst (cache_pool s)) of
        None \<Rightarrow> (None, s)
      | Some f \<Rightarrow> (Some f, forget_frame s f))"

inductive replacer_reachable :: "size_t \<Rightarrow> nat \<Rightarrow> LRUKReplacer \<Rightarrow> bool" for n k where
  reach_init: "replacer_reachable n k (LRUKReplacer_init n k)"
| reach_access: "replacer_reachable n k s \<Longrightarrow> RecordAccess s f = Inr s' \<Longrightarrow> replacer_reachable n k s'"
| reach_set: "replacer_reachable n k s \<Longrightarrow> SetEvictable s f b = Inr s' \<Longrightarrow> replacer_reachable n k s'"
| reach_evict: "replacer_reachable n k s \<Longrightarrow> Evict s = Inr (r, s') \<Longrightarrow> replacer_reachable n k s'"

text \<open>Observations on the outcome of a run, used to state concrete scenarios.\<close>

definition victim_of :: "error + LRUKReplacer \<Rightarrow> error + frame_id_t option" where
  "victim_of m = ebind m (\<lambda>s. map_sum id fst (Evict s))"

definition kth_timestamp_of :: "error + LRUKReplacer \<Rightarrow> frame_id_t \<Rightarrow> error + nat" where
  "kth_timestamp_of m f =
     ebind m (\<lambda>s. case node_store s f of None \<Rightarrow> Inl NullPointer | Some n \<Rightarrow> Inr (BackK n))"

definition accesses_kept :: "error + LRUKReplacer \<Rightarrow> frame_id_t \<Rightarrow> error + nat" where
  "accesses_kept m f =
     ebind m (\<lambda>s. case node_store s f of None \<Rightarrow> Inl NullPointer | Some n \<Rightarrow> Inr (length (history n)))"

definition evictable_in :: "error + LRUKReplacer \<Rightarrow> frame_id_t \<Rightarrow> error + bool" where
  "evictable_in m f = ebind m (\<lambda>s. Inr (frame_evictable s f))"

definition victims_of :: "nat \<Rightarrow> error + LRUKReplacer \<Rightarrow> error + frame_id_t option list" where
  "victims_of n m = ebind m (\<lambda>s. map_sum id fst (evict_n n s))"

text \<open>The scenario of the spec: \<open>N = 3\<close>, \<open>K = 2\<close>, accesses \<open>A, B, C, A, B, C\<close>, all marked evictable.\<close>

definition lru2_scenario :: "error + LRUKReplacer" where
  "lru2_scenario =
     ebind (record_all (LRUKReplacer_init 3 2) [1, 2, 3, 1, 2, 3]) (\<lambda>s. mark_all s [1, 2, 3])"

text \<open>A run with \<open>K = 1\<close>: accesses \<open>1, 2, 1, 2, 3\<close>, all marked evictable.\<close>

definition lru1_scenario :: "error + LRUKReplacer" where
  "lru1_scenario =
     ebind (record_all (LRUKReplacer_init 3 1) [1, 2, 1, 2, 3]) (\<lambda>s. mark_all s [1, 2, 3])"

text \<open>A run through \<open>Remove\<close>: frame 1 is accessed and marked evictable, frame 2 is accessed and removed.\<close>

definition removed_scenario :: "error + LRUKReplacer" where
  "removed_scenario =
     ebind (RecordAccess (LRUKReplacer_init 3 2) 1) (\<lambda>s.
     ebind (SetEvictable s 1 True) (\<lambda>s.
     ebind (RecordAccess s 2) (\<lambda>s. Remove s 2)))"

text \<open>Two calls of \<open>Remove\<close>: on a frame marked evictable, and on a frame never marked.\<close>

definition remove_evictable_run :: "error + LRUKReplacer" where
  "remove_evictable_run =
     ebind (RecordAccess (LRUKReplacer_init 3 2) 1) (\<lambda>s.
     ebind (SetEvictable s 1 True) (\<lambda>s. Remove s 1))"

definition remove_unevictable_run :: "error + LRUKReplacer" where
  "remove_unevictable_run =
     ebind (RecordAccess (LRUKReplacer_init 3 2) 1) (\<lambda>s. Remove s 1)"

section \<open>B+Tree pages\<close>

text \<open>
  Keys (\<open>GenericKey<N>\<close>) are compared through the comparator only and are modelled as
  integers; a record identifier (\<open>RID\<close>) is modelled by its 64-bit value. \<open>page_id_t\<close> is a
  32-bit integer that is only allocated, stored and compared; it is an \<open>int\<close> here, with
  \<open>INVALID_PAGE_ID = -1\<close>.
\<close>

type_synonym KeyType = int
type_synonym ValueType = int
type_synonym page_id_t = int
type_synonym MappingType = "KeyType \<times> ValueType"

definition INVALID_PAGE_ID :: page_id_t where
  "INVALID_PAGE_ID = -1"

text \<open>The comparator returns a negative number, zero or a positive number.\<close>

definition comparator :: "KeyType \<Rightarrow> KeyType \<Rightarrow> int" where
  "comparator a b = (if a < b then -1 else if a = b then 0 else 1)"

datatype IndexPageType = INVALID_INDEX_PAGE | LEAF_PAGE | INTERNAL_PAGE

text \<open>
  Modelled from the spec: the common page header \<open>BPlusTreePage\<close> (b\_plus\_tree\_page.h and
  b\_plus\_tree\_page.cpp are not part of the sources at hand). The spec lists the header
  fields as (page type, current size, max size) and fixes the minimum size as
  \<open>\<lceil>max_size / 2\<rceil>\<close>. The field \<open>size_\<close> is called \<open>cur_size\<close> here.
\<close>

record BPlusTreePage =
  page_type :: IndexPageType
  cur_size :: int
  max_size :: int

definition IsLeafPage :: "'a BPlusTreePage_scheme \<Rightarrow> bool" where
  "IsLeafPage p = (page_type p = LEAF_PAGE)"

definition GetSize :: "'a BPlusTreePage_scheme \<Rightarrow> int" where
  "GetSize p = cur_size p"

definition SetSize :: "'a BPlusTreePage_scheme \<Rightarrow> int \<Rightarrow> 'a BPlusTreePage_scheme" where
  "SetSize p n = p\<lparr>cur_size := n\<rparr>"

definition IncreaseSize :: "'a BPlusTreePage_scheme \<Rightarrow> int \<Rightarrow> 'a BPlusTreePage_scheme" where
  "IncreaseSize p n = p\<lparr>cur_size := cur_size p + n\<rparr>"

definition GetMaxSize :: "'a BPlusTreePage_scheme \<Rightarrow> int" where
  "GetMaxSize p = max_size p"

definition GetMinSize :: "'a BPlusTreePage_scheme \<Rightarrow> int" where
  "GetMinSize p = (max_size p + 1) div 2"

subsection \<open>Leaf page (b\_plus\_tree\_leaf\_page.cpp)\<close>

text \<open>
  The slots \<open>array_\<close> of a page are a function from the slot index to the pair stored
  there, so that a slot beyond the current size still holds what was last written to it
  (zero on a fresh page). Slot indices are the source's \<open>int\<close>.
\<close>

record LeafPage = BPlusTreePage +
  next_page_id :: page_id_t
  leaf_array :: "int \<Rightarrow> MappingType"

definition zero_LeafPage :: LeafPage where
  "zero_LeafPage = \<lparr>page_type = INVALID_INDEX_PAGE, cur_size = 0, max_size = 0,
                     next_page_id = 0, leaf_array = (\<lambda>_. (0, 0))\<rparr>"

definition leaf_Init :: "LeafPage \<Rightarrow> int \<Rightarrow> LeafPage" where
  "leaf_Init p m = p\<lparr>page_type := LEAF_PAGE, cur_size := 0, next_page_id := INVALID_PAGE_ID, max_size := m\<rparr>"

definition GetNextPageId :: "LeafPage \<Rightarrow> page_id_t" where
  "GetNextPageId p = next_page_id p"

definition SetNextPageId :: "LeafPage \<Rightarrow> page_id_t \<Rightarrow> LeafPage" where
  "SetNextPageId p n = p\<lparr>next_page_id := n\<rparr>"

definition leaf_KeyAt :: "LeafPage \<Rightarrow> int \<Rightarrow> KeyType" where
  "leaf_KeyAt p i = fst (leaf_array p i)"

definition ArrayIt :: "LeafPage \<Rightarrow> int \<Rightarrow> MappingType" where
  "ArrayIt p i = leaf_array p i"

text \<open>
  Modelled from the spec: \<open>SetKeyValueAt\<close> (defined outside the sources at hand). The spec
  describes the first insertion into an empty tree as a positional write that is equivalent
  to the sorted insert into a leaf of size zero: the pair is stored in the slot and the
  leaf then has one entry.
\<close>

definition SetKeyValueAt :: "LeafPage \<Rightarrow> int \<Rightarrow> KeyType \<Rightarrow> ValueType \<Rightarrow> LeafPage" where
  "SetKeyValueAt p i key v = p\<lparr>leaf_array := (leaf_array p)(i := (key, v)), cur_size := cur_size p + 1\<rparr>"

text \<open>
  The binary search of \<open>ValueAtKey\<close>, \<open>KetIndex\<close> and \<open>RemoveRecord\<close>: the first slot in
  \<open>[l, r]\<close> whose key is not below \<open>key\<close>, and \<open>r\<close> when there is none.
\<close>

function lower_bound_loop :: "(int \<Rightarrow> KeyType \<times> 'v) \<Rightarrow> KeyType \<Rightarrow> int \<Rightarrow> int \<Rightarrow> int" where
  "lower_bound_loop arr key l r =
     (if l < r then
        (let mid = (l + r) div 2
         in if comparator (fst (arr mid)) key > 0 \<or> comparator (fst (arr mid)) key = 0
            then lower_bound_loop arr key l mid
            else lower_bound_loop arr key (mid + 1) r)
      else l)"
  by pat_completeness auto
termination
  by (relation "measure (\<lambda>(arr, key, l, r). nat (r - l))") auto

text \<open>The binary search of the two \<open>Insert\<close> functions and of \<open>GetKeyIndex\<close>: the first slot in \<open>[l, r)\<close> whose key is above \<open>key\<close>.\<close>

function upper_bound_loop :: "(int \<Rightarrow> KeyType \<times> 'v) \<Rightarrow> KeyType \<Rightarrow> int \<Rightarrow> int \<Rightarrow> int" where
  "upper_bound_loop arr key l r =
     (if l < r then
        (let mid = (l + r) div 2
         in if comparator (fst (arr mid)) key > 0
            then upper_bound_loop arr key l mid
            else upper_bound_loop arr key (mid + 1) r)
      else l)"
  by pat_completeness auto
termination
  by (relation "measure (\<lambda>(arr, key, l, r). nat (r - l))") auto

text \<open>\<open>for (i = from; i >= index; i--) array_[i + 1] = array_[i]\<close>\<close>

function shift_right :: "(int \<Rightarrow> 'e) \<Rightarrow> int \<Rightarrow> int \<Rightarrow> (int \<Rightarrow> 'e)" where
  "shift_right arr i index =
     (if i \<ge> index then shift_right (arr(i + 1 := arr i)) (i - 1) index else arr)"
  by pat_completeness auto
termination
  by (relation "measure (\<lambda>(arr, i, index). nat (i - index + 1))") auto

text \<open>\<open>for (i = from; i < to; i++) array_[i] = array_[i + 1]\<close>\<close>

function shift_left :: "(int \<Rightarrow> 'e) \<Rightarrow> int \<Rightarrow> int \<Rightarrow> (int \<Rightarrow> 'e)" where
  "shift_left arr i to = (if i < to then shift_left (arr(i := arr (i + 1))) (i + 1) to else arr)"
  by pat_completeness auto
termination
  by (relation "measure (\<lambda>(arr, i, to). nat (to - i))") auto

text \<open>\<open>for (i = from; i < to; i++) dst[i + off] = src[i]\<close>\<close>

function copy_slots :: "(int \<Rightarrow> 'e) \<Rightarrow> (int \<Rightarrow> 'e) \<Rightarrow> int \<Rightarrow> int \<Rightarrow> int \<Rightarrow> (int \<Rightarrow> 'e)" where
  "copy_slots src dst off i to =
     (if i < to then copy_slots src (dst(i + off := src i)) off (i + 1) to else dst)"
  by pat_completeness auto
termination
  by (relation "measure (\<lambda>(src, dst, off, i, to). nat (to - i))") auto

definition ValueAtKey :: "LeafPage \<Rightarrow> KeyType \<Rightarrow> ValueType option" where
  "ValueAtKey p key =
     (let index = lower_bound_loop (leaf_array p) key 0 (GetSize p - 1)
      in if index = GetMaxSize p \<or> comparator (fst (leaf_array p index)) key \<noteq> 0 then None
         else Some (snd (leaf_array p index)))"

text \<open>
  \<open>Insert\<close> reads \<open>array_[index - 1]\<close> for the duplicate test. When \<open>index\<close> is 0 this is a
  read in front of the slots, into the bytes of the page header; which key those bytes
  spell depends on the key width and the header layout. The model takes that key as the
  parameter \<open>front_key\<close>, a function of the page.
\<close>

definition leaf_Insert ::
  "(LeafPage \<Rightarrow> KeyType) \<Rightarrow> LeafPage \<Rightarrow> KeyType \<Rightarrow> ValueType \<Rightarrow> bool \<times> LeafPage" where
  "leaf_Insert front_key p key v =
     (let index = upper_bound_loop (leaf_array p) key 0 (GetSize p);
          prev = (if index - 1 < 0 then front_key p else fst (leaf_array p (index - 1)))
      in if comparator prev key = 0 then (False, p)
         else (True,
               IncreaseSize
                 (p\<lparr>leaf_array := (shift_right (leaf_array p) (GetSize p - 1) index)(index := (key, v))\<rparr>)
                 1))"

text \<open>\<open>Split\<close> returns the risen key, the page itself and the new page.\<close>

definition leaf_Split :: "LeafPage \<Rightarrow> LeafPage \<Rightarrow> KeyType \<times> LeafPage \<times> LeafPage" where
  "leaf_Split p new_leaf_page =
     (let min_size = GetMinSize p;
          max_size = GetMaxSize p;
          n1 = new_leaf_page\<lparr>leaf_array :=
                 copy_slots (leaf_array p) (leaf_array new_leaf_page) (- min_size) min_size max_size\<rparr>;
          p' = SetSize p min_size;
          n2 = SetSize n1 (max_size - min_size)
      in (fst (leaf_array n2 0), p', n2))"

definition KetIndex :: "LeafPage \<Rightarrow> KeyType \<Rightarrow> int" where
  "KetIndex p key = lower_bound_loop (leaf_array p) key 0 (GetSize p - 1)"

definition RemoveRecord :: "LeafPage \<Rightarrow> KeyType \<Rightarrow> bool \<times> LeafPage" where
  "RemoveRecord p key =
     (let index = lower_bound_loop (leaf_array p) key 0 (GetSize p - 1)
      in if comparator (fst (leaf_array p index)) key \<noteq> 0 then (False, p)
         else (True, IncreaseSize (p\<lparr>leaf_array := shift_left (leaf_array p) index (GetSize p - 1)\<rparr>) (-1)))"

text \<open>\<open>MoveAll\<close> returns the emptied page and the recipient.\<close>

definition leaf_MoveAll :: "LeafPage \<Rightarrow> LeafPage \<Rightarrow> LeafPage \<times> LeafPage" where
  "leaf_MoveAll p recipient =
     (let start_index = GetSize recipient;
          r1 = recipient\<lparr>leaf_array :=
                 copy_slots (leaf_array p) (leaf_array recipient) start_index 0 (GetSize p)\<rparr>;
          r2 = SetNextPageId r1 (GetNextPageId p);
          r3 = IncreaseSize r2 (GetSize p)
      in (SetSize p 0, r3))"

text \<open>\<open>MoveFrontTo\<close> and \<open>MoveEndTo\<close> return the key for the parent, the page itself and the receiving page.\<close>

definition leaf_MoveFrontTo :: "LeafPage \<Rightarrow> LeafPage \<Rightarrow> KeyType \<times> LeafPage \<times> LeafPage" where
  "leaf_MoveFrontTo p page =
     (let page1 = page\<lparr>leaf_array := (leaf_array page)(GetSize page := leaf_array p 0)\<rparr>;
          p1 = p\<lparr>leaf_array := shift_left (leaf_array p) 0 (GetSize p - 1)\<rparr>;
          p2 = IncreaseSize p1 (-1);
          page2 = IncreaseSize page1 1
      in (fst (leaf_array p2 0), p2, page2))"

definition leaf_MoveEndTo :: "LeafPage \<Rightarrow> LeafPage \<Rightarrow> KeyType \<times> LeafPage \<times> LeafPage" where
  "leaf_MoveEndTo p page =
     (let page1 = page\<lparr>leaf_array := shift_right (leaf_array page) (GetSize page - 1) 0\<rparr>;
          page2 = page1\<lparr>leaf_array := (leaf_array page1)(0 := leaf_array p (GetSize p - 1))\<rparr>;
          p2 = IncreaseSize p (-1);
          page3 = IncreaseSize page2 1
      in (fst (leaf_array page3 0), p2, page3))"

subsection \<open>Internal page (b\_plus\_tree\_internal\_page.cpp)\<close>

record InternalPage = BPlusTreePage +
  internal_array :: "int \<Rightarrow> KeyType \<times> page_id_t"

definition zero_InternalPage :: InternalPage where
  "zero_InternalPage = \<lparr>page_type = INVALID_INDEX_PAGE, cur_size = 0, max_size = 0,
                         internal_array = (\<lambda>_. (0, 0))\<rparr>"

definition internal_Init :: "InternalPage \<Rightarrow> int \<Rightarrow> InternalPage" where
  "internal_Init p m = p\<lparr>page_type := INTERNAL_PAGE, cur_size := 0, max_size := m\<rparr>"

definition internal_KeyAt :: "InternalPage \<Rightarrow> int \<Rightarrow> KeyType" where
  "internal_KeyAt p i = fst (internal_array p i)"

definition SetKeyAt :: "InternalPage \<Rightarrow> int \<Rightarrow> KeyType \<Rightarrow> InternalPage" where
  "SetKeyAt p i key = p\<lparr>internal_array := (internal_array p)(i := (key, snd (internal_array p i)))\<rparr>"

definition GetKeyIndex :: "InternalPage \<Rightarrow> KeyType \<Rightarrow> int" where
  "GetKeyIndex p key = upper_bound_loop (internal_array p) key 1 (GetSize p) - 1"

definition ValueAt :: "InternalPage \<Rightarrow> int \<Rightarrow> page_id_t" where
  "ValueAt p i = snd (internal_array p i)"

definition internal_Split :: "InternalPage \<Rightarrow> InternalPage \<Rightarrow> KeyType \<times> InternalPage \<times> InternalPage" where
  "internal_Split p new_page =
     (let min_size = GetMinSize p;
          n1 = new_page\<lparr>internal_array :=
                 copy_slots (internal_array p) (internal_array new_page) (- min_size) min_size (GetMaxSize p + 1)\<rparr>;
          n2 = SetSize n1 (GetMaxSize p - min_size + 1);
          p' = SetSize p min_size
      in (internal_KeyAt n2 0, p', n2))"

definition CreatNewRoot :: "InternalPage \<Rightarrow> KeyType \<Rightarrow> page_id_t \<Rightarrow> page_id_t \<Rightarrow> InternalPage" where
  "CreatNewRoot p key left_id right_id =
     SetSize (p\<lparr>internal_array := (internal_array p)(0 := (key, left_id), 1 := (key, right_id))\<rparr>) 2"

definition internal_Insert :: "InternalPage \<Rightarrow> KeyType \<Rightarrow> page_id_t \<Rightarrow> InternalPage" where
  "internal_Insert p key right_id =
     (let index = upper_bound_loop (internal_array p) key 1 (GetSize p)
      in IncreaseSize
           (p\<lparr>internal_array :=
                (shift_right (internal_array p) (GetSize p - 1) index)(index := (key, right_id))\<rparr>)
           1)"

text \<open>\<open>for (i = from; i < to; i++) if (array_[i].second == value) return i; return -1\<close>\<close>

function value_index_loop :: "(int \<Rightarrow> KeyType \<times> page_id_t) \<Rightarrow> page_id_t \<Rightarrow> int \<Rightarrow> int \<Rightarrow> int" where
  "value_index_loop arr v i to =
     (if i < to then (if snd (arr i) = v then i else value_index_loop arr v (i + 1) to) else -1)"
  by pat_completeness auto
termination
  by (relation "measure (\<lambda>(arr, v, i, to). nat (to - i))") auto

definition ValueIndex :: "InternalPage \<Rightarrow> page_id_t \<Rightarrow> int" where
  "ValueIndex p v = value_index_loop (internal_array p) v 0 (GetSize p)"

text \<open>
  \<open>MoveAll(recipient, index, parent_page)\<close> returns the emptied page and the recipient, or
  the failure of its assertion.
\<close>

definition internal_MoveAll ::
  "InternalPage \<Rightarrow> InternalPage \<Rightarrow> int \<Rightarrow> InternalPage \<Rightarrow> error + (InternalPage \<times> InternalPage)" where
  "internal_MoveAll p recipient index parent_page =
     (let start_index = GetSize recipient;
          p1 = SetKeyAt p 0 (internal_KeyAt parent_page index);
          r1 = recipient\<lparr>internal_array :=
                 copy_slots (internal_array p1) (internal_array recipient) start_index 0 (GetSize p1)\<rparr>;
          r2 = IncreaseSize r1 (GetSize p1)
      in if GetSize r2 \<le> GetMaxSize p1 then Inr (SetSize p1 0, r2) else Inl AssertFailed)"

definition internal_Remove :: "InternalPage \<Rightarrow> int \<Rightarrow> InternalPage" where
  "internal_Remove p index =
     IncreaseSize (p\<lparr>internal_array := shift_left (internal_array p) index (GetSize p - 1)\<rparr>) (-1)"

definition internal_MoveFrontTo ::
  "InternalPage \<Rightarrow> InternalPage \<Rightarrow> KeyType \<Rightarrow> KeyType \<times> InternalPage \<times> InternalPage" where
  "internal_MoveFrontTo p page parent_key =
     (let page1 = page\<lparr>internal_array := (internal_array page)(GetSize page := internal_array p 0)\<rparr>;
          page2 = page1\<lparr>internal_array :=
                    (internal_array page1)(GetSize page1 := (parent_key, snd (internal_array page1 (GetSize page1))))\<rparr>;
          p1 = p\<lparr>internal_array := shift_left (internal_array p) 0 (GetSize p - 1)\<rparr>;
          p2 = IncreaseSize p1 (-1);
          page3 = IncreaseSize page2 1
      in (fst (internal_array p2 0), p2, page3))"

definition internal_MoveEndTo ::
  "InternalPage \<Rightarrow> InternalPage \<Rightarrow> KeyType \<Rightarrow> KeyType \<times> InternalPage \<times> InternalPage" where
  "internal_MoveEndTo p page parent_key =
     (let page1 = page\<lparr>internal_array := shift_right (internal_array page) (GetSize page - 1) 0\<rparr>;
          page2 = page1\<lparr>internal_array := (internal_array page1)(0 := internal_array p (GetSize p - 1))\<rparr>;
          page3 = page2\<lparr>internal_array :=
                    (internal_array page2)(1 := (parent_key, snd (internal_array page2 1)))\<rparr>;
          p2 = IncreaseSize p (-1);
          page4 = IncreaseSize page3 1
      in (fst (internal_array page4 0), p2, page4))"

subsection \<open>Page contents\<close>

text \<open>
  A page buffer is read through a \<open>reinterpret_cast\<close> as a header page, a leaf page or an
  internal page. The model tags the buffer with what it holds; \<open>Blank\<close> is the zeroed
  buffer, which reads as a page whose fields are all zero. Reading a buffer as a kind of
  page it does not hold is outside the model (\<open>BadCast\<close>).
\<close>

datatype page_content =
    Blank
  | Header page_id_t
  | Leaf LeafPage
  | Internal InternalPage

section \<open>Buffer pool manager (src/buffer/buffer\_pool\_manager.cpp)\<close>

text \<open>
  Modelled from the spec: the class \<open>Page\<close> (page.h is not part of the sources at hand). The
  spec gives each frame the page id, the dirty flag, the pin count and a reader-writer
  latch, besides the buffer. The latch is the number of readers and a writer flag; an
  acquisition that would have to wait is the outcome \<open>WouldBlock\<close>, since the model runs
  one thread. A fresh page has a zeroed buffer, id \<open>INVALID_PAGE_ID\<close>, pin count 0 and a
  clean flag.
\<close>

record Page =
  data :: page_content
  page_id :: page_id_t
  pin_count :: int
  is_dirty :: bool
  readers :: nat
  writer :: bool

definition new_Page :: Page where
  "new_Page = \<lparr>data = Blank, page_id = INVALID_PAGE_ID, pin_count = 0, is_dirty = False,
               readers = 0, writer = False\<rparr>"

definition ResetMemory :: "Page \<Rightarrow> Page" where
  "ResetMemory p = p\<lparr>data := Blank\<rparr>"

definition RLatch :: "Page \<Rightarrow> error + Page" where
  "RLatch p = (if writer p then Inl WouldBlock else Inr (p\<lparr>readers := readers p + 1\<rparr>))"

definition RUnlatch :: "Page \<Rightarrow> error + Page" where
  "RUnlatch p = (if readers p = 0 then Inl LatchNotHeld else Inr (p\<lparr>readers := readers p - 1\<rparr>))"

definition WLatch :: "Page \<Rightarrow> error + Page" where
  "WLatch p = (if writer p \<or> readers p \<noteq> 0 then Inl WouldBlock else Inr (p\<lparr>writer := True\<rparr>))"

definition WUnlatch :: "Page \<Rightarrow> error + Page" where
  "WUnlatch p = (if \<not> writer p then Inl LatchNotHeld else Inr (p\<lparr>writer := False\<rparr>))"

text \<open>
  The block device of the spec: \<open>WritePage\<close> stores a buffer under a page id, \<open>ReadPage\<close>
  returns what was stored there, and a zeroed buffer for a page never written.
  \<open>pages_\<close> is the array of frames, indexed by frame id; a \<open>Page *\<close> is the frame id of the
  page it points to, and \<open>nullptr\<close> is \<open>None\<close>.
\<close>

record BufferPoolManager =
  pool_size :: size_t
  pages :: "frame_id_t \<Rightarrow> Page"
  page_table :: "page_id_t \<rightharpoonup> frame_id_t"
  free_list :: "frame_id_t list"
  replacer :: LRUKReplacer
  bpm_next_page_id :: page_id_t
  disk :: "page_id_t \<Rightarrow> page_content"

definition BufferPoolManager_init :: "nat \<Rightarrow> nat \<Rightarrow> BufferPoolManager" where
  "BufferPoolManager_init n replacer_k' =
     \<lparr>pool_size = of_nat n, pages = (\<lambda>_. new_Page), page_table = Map.empty,
      free_list = map of_nat [0..<n],
      replacer = LRUKReplacer_init (of_nat n) replacer_k', bpm_next_page_id = 0,
      disk = (\<lambda>_. Blank)\<rparr>"

definition AllocatePage :: "BufferPoolManager \<Rightarrow> page_id_t \<times> BufferPoolManager" where
  "AllocatePage b = (bpm_next_page_id b, b\<lparr>bpm_next_page_id := bpm_next_page_id b + 1\<rparr>)"

definition update_page :: "BufferPoolManager \<Rightarrow> frame_id_t \<Rightarrow> (Page \<Rightarrow> Page) \<Rightarrow> BufferPoolManager" where
  "update_page b f g = b\<lparr>pages := (pages b)(f := g (pages b f))\<rparr>"

text \<open>
  The part shared by \<open>NewPage\<close> and \<open>FetchPage\<close> once a frame is known to be available: the
  front of the free list, or else the replacer's victim, whose buffer is written back when
  dirty, zeroed, and dropped from the page table. When \<open>Evict\<close> returns false the source
  goes on with an uninitialised frame id.
\<close>

definition take_frame :: "BufferPoolManager \<Rightarrow> error + (frame_id_t \<times> BufferPoolManager)" where
  "take_frame b =
     (if free_list b \<noteq> [] then
        Inr (hd (free_list b), b\<lparr>free_list := tl (free_list b)\<rparr>)
      else
        ebind (Evict (replacer b)) (\<lambda>(r, rep).
          case r of
            None \<Rightarrow> Inl UninitialisedFrame
          | Some f \<Rightarrow>
              let b1 = b\<lparr>replacer := rep\<rparr>;
                  pg = pages b1 f;
                  old_page_id = page_id pg;
                  b2 = (if is_dirty pg
                        then (update_page b1 f (\<lambda>p. p\<lparr>is_dirty := False\<rparr>))
                               \<lparr>disk := (disk b1)(old_page_id := data pg)\<rparr>
                        else b1);
                  b3 = update_page b2 f ResetMemory
              in Inr (f, b3\<lparr>page_table := (page_table b3)(old_page_id := None)\<rparr>)))"

text \<open>The end of \<open>NewPage\<close> and \<open>FetchPage\<close>: pin, record the access, mark not evictable.\<close>

definition pin_new :: "BufferPoolManager \<Rightarrow> frame_id_t \<Rightarrow> error + BufferPoolManager" where
  "pin_new b f =
     (let b1 = update_page b f (\<lambda>p. p\<lparr>pin_count := pin_count p + 1\<rparr>)
      in ebind (RecordAccess (replacer b1) f) (\<lambda>rep.
         ebind (SetEvictable rep f False) (\<lambda>rep'. Inr (b1\<lparr>replacer := rep'\<rparr>))))"

text \<open>\<open>NewPage\<close> returns the new page id and the frame, or \<open>None\<close> for \<open>nullptr\<close>.\<close>

definition NewPage :: "BufferPoolManager \<Rightarrow> error + ((page_id_t \<times> frame_id_t) option \<times> BufferPoolManager)" where
  "NewPage b =
     (if free_list b = [] \<and> Size (replacer b) = 0 then Inr (None, b)
      else ebind (take_frame b) (\<lambda>(f, b1).
        let (new_page_id, b2) = AllocatePage b1;
            b3 = update_page b2 f (\<lambda>p. p\<lparr>page_id := new_page_id\<rparr>);
            b4 = b3\<lparr>page_table := (page_table b3)(new_page_id \<mapsto> f)\<rparr>
        in ebind (pin_new b4 f) (\<lambda>b5. Inr (Some (new_page_id, f), b5))))"

definition FetchPage :: "BufferPoolManager \<Rightarrow> page_id_t \<Rightarrow> error + (frame_id_t option \<times> BufferPoolManager)" where
  "FetchPage b pid =
     (case page_table b pid of
        Some f \<Rightarrow> Inr (Some f, update_page b f (\<lambda>p. p\<lparr>pin_count := pin_count p + 1\<rparr>))
      | None \<Rightarrow>
          if free_list b = [] \<and> Size (replacer b) = 0 then Inr (None, b)
          else ebind (take_frame b) (\<lambda>(f, b1).
            let b2 = update_page b1 f (\<lambda>p. p\<lparr>page_id := pid\<rparr>);
                b3 = b2\<lparr>page_table := (page_table b2)(pid \<mapsto> f)\<rparr>;
                b4 = update_page b3 f (\<lambda>p. p\<lparr>data := disk b3 pid\<rparr>)
            in ebind (pin_new b4 f) (\<lambda>b5. Inr (Some f, b5))))"

definition UnpinPage :: "BufferPoolManager \<Rightarrow> page_id_t \<Rightarrow> bool \<Rightarrow> error + (bool \<times> BufferPoolManager)" where
  "UnpinPage b pid dirty =
     (case page_table b pid of
        None \<Rightarrow> Inr (False, b)
      | Some f \<Rightarrow>
          if pin_count (pages b f) \<le> 0 then Inr (False, b)
          else
            let b1 = update_page b f (\<lambda>p. p\<lparr>pin_count := pin_count p - 1\<rparr>)
            in ebind (if pin_count (pages b1 f) = 0
                      then ebind (SetEvictable (replacer b1) f True) (\<lambda>rep. Inr (b1\<lparr>replacer := rep\<rparr>))
                      else Inr b1)
                 (\<lambda>b2. Inr (True, update_page b2 f (\<lambda>p. p\<lparr>is_dirty := dirty\<rparr>))))"

definition FlushPage :: "BufferPoolManager \<Rightarrow> page_id_t \<Rightarrow> bool \<times> BufferPoolManager" where
  "FlushPage b pid =
     (case page_table b pid of
        None \<Rightarrow> (False, b)
      | Some f \<Rightarrow>
          (True, (update_page b f (\<lambda>p. p\<lparr>is_dirty := False\<rparr>))
                   \<lparr>disk := (disk b)(pid := data (pages b f))\<rparr>))"

text \<open>\<open>DeallocatePage\<close> is a no-op of the block device.\<close>

definition DeletePage :: "BufferPoolManager \<Rightarrow> page_id_t \<Rightarrow> error + (bool \<times> BufferPoolManager)" where
  "DeletePage b pid =
     (case page_table b pid of
        None \<Rightarrow> Inr (True, b)
      | Some f \<Rightarrow>
          if pin_count (pages b f) > 0 then Inr (False, b)
          else
            let b1 = b\<lparr>page_table := (page_table b)(pid := None)\<rparr>
            in ebind (Remove (replacer b1) f) (\<lambda>rep.
                 let b2 = b1\<lparr>replacer := rep, free_list := free_list b1 @ [f]\<rparr>;
                     b3 = update_page b2 f
                            (\<lambda>p. (ResetMemory p)\<lparr>pin_count := 0, is_dirty := False, page_id := INVALID_PAGE_ID\<rparr>)
                 in Inr (True, b3)))"

subsection \<open>Page guards (src/storage/page/page\_guard.cpp)\<close>

text \<open>
  Modelled from the spec: the guard classes' data members and inline accessors
  (page\_guard.h is not part of the sources at hand). A guard holds the pointer to the
  buffer pool (\<open>has_bpm\<close> tells whether it is non-null), the pointer to the page and its own
  dirty flag, initially false; \<open>AsMut\<close> and \<open>GetDataMut\<close> set the flag before they hand out
  the buffer, \<open>As\<close> and \<open>GetData\<close> do not.
\<close>

record BasicPageGuard =
  has_bpm :: bool
  guard_page :: "frame_id_t option"
  guard_is_dirty :: bool

definition mk_guard :: "frame_id_t option \<Rightarrow> BasicPageGuard" where
  "mk_guard p = \<lparr>has_bpm = True, guard_page = p, guard_is_dirty = False\<rparr>"

definition empty_guard :: BasicPageGuard where
  "empty_guard = \<lparr>has_bpm = False, guard_page = None, guard_is_dirty = False\<rparr>"

definition inert :: "BasicPageGuard \<Rightarrow> BasicPageGuard" where
  "inert g = g\<lparr>has_bpm := False, guard_page := None\<rparr>"

definition guard_PageId :: "BufferPoolManager \<Rightarrow> BasicPageGuard \<Rightarrow> error + page_id_t" where
  "guard_PageId b g = (case guard_page g of None \<Rightarrow> Inl NullPointer | Some f \<Rightarrow> Inr (page_id (pages b f)))"

definition guard_GetData :: "BufferPoolManager \<Rightarrow> BasicPageGuard \<Rightarrow> error + page_content" where
  "guard_GetData b g = (case guard_page g of None \<Rightarrow> Inl NullPointer | Some f \<Rightarrow> Inr (data (pages b f)))"

definition guard_GetDataMut :: "BasicPageGuard \<Rightarrow> BasicPageGuard" where
  "guard_GetDataMut g = g\<lparr>guard_is_dirty := True\<rparr>"

definition guard_write :: "BufferPoolManager \<Rightarrow> BasicPageGuard \<Rightarrow> page_content \<Rightarrow> error + BufferPoolManager" where
  "guard_write b g c =
     (case guard_page g of None \<Rightarrow> Inl NullPointer | Some f \<Rightarrow> Inr (update_page b f (\<lambda>p. p\<lparr>data := c\<rparr>)))"

definition BasicPageGuard_Drop :: "BufferPoolManager \<Rightarrow> BasicPageGuard \<Rightarrow> error + (BasicPageGuard \<times> BufferPoolManager)" where
  "BasicPageGuard_Drop b g =
     ebind (case guard_page g of
              Some f \<Rightarrow> if has_bpm g
                        then ebind (UnpinPage b (page_id (pages b f)) (guard_is_dirty g)) (\<lambda>(_, b'). Inr b')
                        else Inr b
            | None \<Rightarrow> Inr b)
       (\<lambda>b'. Inr (inert g, b'))"

definition ReadPageGuard_Drop :: "BufferPoolManager \<Rightarrow> BasicPageGuard \<Rightarrow> error + (BasicPageGuard \<times> BufferPoolManager)" where
  "ReadPageGuard_Drop b g =
     ebind (case guard_page g of
              Some f \<Rightarrow> ebind (RUnlatch (pages b f)) (\<lambda>p. Inr (update_page b f (\<lambda>_. p)))
            | None \<Rightarrow> Inr b)
       (\<lambda>b1. BasicPageGuard_Drop b1 g)"

definition WritePageGuard_Drop :: "BufferPoolManager \<Rightarrow> BasicPageGuard \<Rightarrow> error + (BasicPageGuard \<times> BufferPoolManager)" where
  "WritePageGuard_Drop b g =
     ebind (case guard_page g of
              Some f \<Rightarrow> ebind (WUnlatch (pages b f)) (\<lambda>p. Inr (update_page b f (\<lambda>_. p)))
            | None \<Rightarrow> Inr b)
       (\<lambda>b1. BasicPageGuard_Drop b1 g)"

definition FetchPageBasic :: "BufferPoolManager \<Rightarrow> page_id_t \<Rightarrow> error + (BasicPageGuard \<times> BufferPoolManager)" where
  "FetchPageBasic b pid = ebind (FetchPage b pid) (\<lambda>(p, b'). Inr (mk_guard p, b'))"

definition FetchPageRead :: "BufferPoolManager \<Rightarrow> page_id_t \<Rightarrow> error + (BasicPageGuard \<times> BufferPoolManager)" where
  "FetchPageRead b pid =
     (case page_table b pid of
        None \<Rightarrow> Inr (mk_guard None, b)
      | Some f \<Rightarrow>
          ebind (RLatch (pages b f)) (\<lambda>p.
          ebind (FetchPage (update_page b f (\<lambda>_. p)) pid) (\<lambda>(_, b').
          Inr (mk_guard (Some f), b'))))"

definition FetchPageWrite :: "BufferPoolManager \<Rightarrow> page_id_t \<Rightarrow> error + (BasicPageGuard \<times> BufferPoolManager)" where
  "FetchPageWrite b pid =
     (case page_table b pid of
        None \<Rightarrow> Inr (mk_guard None, b)
      | Some f \<Rightarrow>
          ebind (WLatch (pages b f)) (\<lambda>p.
          ebind (FetchPage (update_page b f (\<lambda>_. p)) pid) (\<lambda>(_, b').
          Inr (mk_guard (Some f), b'))))"

subsection \<open>Runs of the buffer pool\<close>

text \<open>A caller's write into the buffer of a resident page.\<close>

definition write_data :: "BufferPoolManager \<Rightarrow> page_id_t \<Rightarrow> page_content \<Rightarrow> BufferPoolManager" where
  "write_data b pid c =
     (case page_table b pid of None \<Rightarrow> b | Some f \<Rightarrow> update_page b f (\<lambda>p. p\<lparr>data := c\<rparr>))"

text \<open>What the pool holds for a page id: buffer, pin count and dirty flag.\<close>

definition page_of :: "error + BufferPoolManager \<Rightarrow> page_id_t \<Rightarrow> error + (page_content \<times> int \<times> bool) option" where
  "page_of m pid =
     ebind m (\<lambda>b. Inr (case page_table b pid of
                         None \<Rightarrow> None
                       | Some f \<Rightarrow> Some (data (pages b f), pin_count (pages b f), is_dirty (pages b f))))"

text \<open>
  A pool of one frame. Page 0 is created, written and unpinned as dirty; then it is
  fetched again (\<open>unpin_run1\<close>) and unpinned as clean (\<open>unpin_run2\<close>); then page 1 is
  created, which evicts page 0, and page 0 is fetched back (\<open>unpin_run3\<close>).
\<close>

definition unpin_run1 :: "error + BufferPoolManager" where
  "unpin_run1 =
     ebind (NewPage (BufferPoolManager_init 1 2)) (\<lambda>(_, b).
     ebind (UnpinPage (write_data b 0 (Header 42)) 0 True) (\<lambda>(_, b).
     ebind (FetchPage b 0) (\<lambda>(_, b). Inr b)))"

definition unpin_run2 :: "error + BufferPoolManager" where
  "unpin_run2 = ebind unpin_run1 (\<lambda>b. ebind (UnpinPage b 0 False) (\<lambda>(_, b). Inr b))"

definition unpin_run3 :: "error + BufferPoolManager" where
  "unpin_run3 =
     ebind unpin_run2 (\<lambda>b.
     ebind (NewPage b) (\<lambda>(_, b).
     ebind (UnpinPage b 1 False) (\<lambda>(_, b).
     ebind (FetchPage b 0) (\<lambda>(_, b). Inr b))))"



section \<open>Lock manager (src/concurrency/lock\_manager.cpp)\<close>

type_synonym txn_id_t = int
type_synonym table_oid_t = nat
type_synonym RID = int

definition INVALID_TXN_ID :: txn_id_t where
  "INVALID_TXN_ID = -1"

datatype LockMode =
  SHARED | EXCLUSIVE | INTENTION_SHARED | INTENTION_EXCLUSIVE | SHARED_INTENTION_EXCLUSIVE

datatype TransactionState = GROWING | SHRINKING | COMMITTED | ABORTED

datatype IsolationLevel = READ_UNCOMMITTED | REPEATABLE_READ | READ_COMMITTED

datatype AbortReason =
    LOCK_ON_SHRINKING
  | UPGRADE_CONFLICT
  | LOCK_SHARED_ON_READ_UNCOMMITTED
  | TABLE_LOCK_NOT_PRESENT
  | ATTEMPTED_INTENTION_LOCK_ON_ROW
  | TABLE_UNLOCKED_BEFORE_UNLOCKING_ROWS
  | INCOMPATIBLE_UPGRADE
  | ATTEMPTED_UNLOCK_BUT_NO_LOCK_HELD

text \<open>
  Modelled from the spec: the class \<open>Transaction\<close> (transaction.h is not part of the sources
  at hand). The spec gives it an identifier, an isolation level, a state and the locks
  currently held, per table and per row, indexed by mode.
\<close>

record Transaction =
  txn_id :: txn_id_t
  isolation_level :: IsolationLevel
  txn_state :: TransactionState
  table_lock_set :: "LockMode \<Rightarrow> table_oid_t set"
  row_lock_set :: "LockMode \<Rightarrow> table_oid_t \<Rightarrow> RID set"

definition GetState :: "Transaction \<Rightarrow> TransactionState" where
  "GetState txn = txn_state txn"

definition SetState :: "Transaction \<Rightarrow> TransactionState \<Rightarrow> Transaction" where
  "SetState txn s = txn\<lparr>txn_state := s\<rparr>"

definition GetIsolationLevel :: "Transaction \<Rightarrow> IsolationLevel" where
  "GetIsolationLevel txn = isolation_level txn"

definition GetTransactionId :: "Transaction \<Rightarrow> txn_id_t" where
  "GetTransactionId txn = txn_id txn"

text \<open>
  Modelled from the spec: the helpers of \<open>LockManager\<close> that are declared in lock\_manager.h
  and defined outside the sources at hand. \<open>TxnTableLockInsert\<close>, \<open>TxnTableLockDelete\<close>,
  \<open>TxnRowLockInsert\<close> and \<open>TxnRowLockDelete\<close> record a lock in, or remove it from, the
  transaction's held set of that mode. \<open>CanLockUpgrade\<close> is the upgrade lattice of the spec:
  \<open>IS \<rightarrow> {S, X, IX, SIX}\<close>, \<open>S \<rightarrow> {X, SIX}\<close>, \<open>IX \<rightarrow> {X, SIX}\<close>, \<open>SIX \<rightarrow> X\<close>.
  \<open>CheckAppropriateLockOnTable\<close> is the spec's requirement on the table lock held for a
  row lock: \<open>IX\<close> or \<open>X\<close> for a row \<open>X\<close>; any of \<open>IS\<close>, \<open>IX\<close>, \<open>S\<close>, \<open>SIX\<close>, \<open>X\<close> for a row \<open>S\<close>.
\<close>

definition TxnTableLockInsert :: "Transaction \<Rightarrow> LockMode \<Rightarrow> table_oid_t \<Rightarrow> Transaction" where
  "TxnTableLockInsert txn m oid =
     txn\<lparr>table_lock_set := (table_lock_set txn)(m := insert oid (table_lock_set txn m))\<rparr>"

definition TxnTableLockDelete :: "Transaction \<Rightarrow> LockMode \<Rightarrow> table_oid_t \<Rightarrow> Transaction" where
  "TxnTableLockDelete txn m oid =
     txn\<lparr>table_lock_set := (table_lock_set txn)(m := table_lock_set txn m - {oid})\<rparr>"

definition TxnRowLockInsert :: "Transaction \<Rightarrow> LockMode \<Rightarrow> table_oid_t \<Rightarrow> RID \<Rightarrow> Transaction" where
  "TxnRowLockInsert txn m oid rid =
     txn\<lparr>row_lock_set :=
           (row_lock_set txn)(m := (row_lock_set txn m)(oid := insert rid (row_lock_set txn m oid)))\<rparr>"

definition TxnRowLockDelete :: "Transaction \<Rightarrow> LockMode \<Rightarrow> table_oid_t \<Rightarrow> RID \<Rightarrow> Transaction" where
  "TxnRowLockDelete txn m oid rid =
     txn\<lparr>row_lock_set :=
           (row_lock_set txn)(m := (row_lock_set txn m)(oid := row_lock_set txn m oid - {rid}))\<rparr>"

fun CanLockUpgrade :: "LockMode \<Rightarrow> LockMode \<Rightarrow> bool" where
  "CanLockUpgrade INTENTION_SHARED m =
     (m = SHARED \<or> m = EXCLUSIVE \<or> m = INTENTION_EXCLUSIVE \<or> m = SHARED_INTENTION_EXCLUSIVE)"
| "CanLockUpgrade SHARED m = (m = EXCLUSIVE \<or> m = SHARED_INTENTION_EXCLUSIVE)"
| "CanLockUpgrade INTENTION_EXCLUSIVE m = (m = EXCLUSIVE \<or> m = SHARED_INTENTION_EXCLUSIVE)"
| "CanLockUpgrade SHARED_INTENTION_EXCLUSIVE m = (m = EXCLUSIVE)"
| "CanLockUpgrade EXCLUSIVE m = False"

definition CheckAppropriateLockOnTable :: "Transaction \<Rightarrow> table_oid_t \<Rightarrow> LockMode \<Rightarrow> bool" where
  "CheckAppropriateLockOnTable txn oid row_mode =
     (if row_mode = EXCLUSIVE then
        oid \<in> table_lock_set txn INTENTION_EXCLUSIVE \<or> oid \<in> table_lock_set txn EXCLUSIVE
      else
        oid \<in> table_lock_set txn INTENTION_SHARED \<or> oid \<in> table_lock_set txn INTENTION_EXCLUSIVE \<or>
        oid \<in> table_lock_set txn SHARED \<or> oid \<in> table_lock_set txn SHARED_INTENTION_EXCLUSIVE \<or>
        oid \<in> table_lock_set txn EXCLUSIVE)"

record LockRequest =
  lr_txn_id :: txn_id_t
  lr_lock_mode :: LockMode
  lr_oid :: table_oid_t
  lr_rid :: "RID option"
  granted :: bool

definition new_LockRequest :: "txn_id_t \<Rightarrow> LockMode \<Rightarrow> table_oid_t \<Rightarrow> RID option \<Rightarrow> LockRequest" where
  "new_LockRequest t m oid rid =
     \<lparr>lr_txn_id = t, lr_lock_mode = m, lr_oid = oid, lr_rid = rid, granted = False\<rparr>"

record LockRequestQueue =
  request_queue :: "LockRequest list"
  upgrading :: txn_id_t

record LockManager =
  table_lock_map :: "table_oid_t \<rightharpoonup> LockRequestQueue"
  row_lock_map :: "RID \<rightharpoonup> LockRequestQueue"

text \<open>
  The outcome of a lock call up to the point where the thread starts to wait for the
  grant: the call throws a \<open>TransactionAbortException\<close> with a reason (\<open>Aborted\<close>), returns a
  value (\<open>Returned\<close>), fails its \<open>assert\<close> (\<open>AssertionFailure\<close>), or has put its request into
  the queue and enters the loop \<open>while (!GrantLock(...)) cv_.wait(...)\<close> (\<open>Enqueued\<close>). The
  loop itself, a wait on a condition variable for other threads, is not modelled.
\<close>

datatype lock_outcome =
    Aborted AbortReason
  | Returned bool
  | AssertionFailure
  | Enqueued

type_synonym lock_result = "lock_outcome \<times> Transaction \<times> LockManager"

text \<open>\<open>txn->SetState(TransactionState::ABORTED); throw TransactionAbortException(..., reason)\<close>\<close>

definition abort_with :: "Transaction \<Rightarrow> LockManager \<Rightarrow> AbortReason \<Rightarrow> lock_result" where
  "abort_with txn lm r = (Aborted r, SetState txn ABORTED, lm)"

text \<open>
  The checks at the head of \<open>LockTable\<close> (lines 225 to 257 of the lock manager's part of
  the file): the reason of the abort, or \<open>None\<close> when the request passes.
\<close>

definition LockTable_check :: "Transaction \<Rightarrow> LockMode \<Rightarrow> AbortReason option" where
  "LockTable_check txn lock_mode =
     (if GetState txn = SHRINKING then
        (if GetIsolationLevel txn = REPEATABLE_READ then Some LOCK_ON_SHRINKING
         else if GetIsolationLevel txn = READ_COMMITTED \<and>
                 (lock_mode = EXCLUSIVE \<or> lock_mode = INTENTION_EXCLUSIVE \<or>
                  lock_mode = SHARED_INTENTION_EXCLUSIVE) then Some LOCK_ON_SHRINKING
         else if GetIsolationLevel txn = READ_UNCOMMITTED then
           (if lock_mode = EXCLUSIVE \<or> lock_mode = INTENTION_EXCLUSIVE then Some LOCK_ON_SHRINKING
            else Some LOCK_SHARED_ON_READ_UNCOMMITTED)
         else None)
      else if GetState txn = GROWING then
        (if GetIsolationLevel txn = READ_UNCOMMITTED \<and>
            (lock_mode = SHARED \<or> lock_mode = INTENTION_SHARED \<or>
             lock_mode = SHARED_INTENTION_EXCLUSIVE) then Some LOCK_SHARED_ON_READ_UNCOMMITTED
         else None)
      else None)"

text \<open>The checks at the head of \<open>LockRow\<close> (lines 388 to 427).\<close>

definition LockRow_check :: "Transaction \<Rightarrow> LockMode \<Rightarrow> table_oid_t \<Rightarrow> AbortReason option" where
  "LockRow_check txn lock_mode oid =
     (if lock_mode = INTENTION_SHARED \<or> lock_mode = SHARED_INTENTION_EXCLUSIVE \<or>
         lock_mode = INTENTION_EXCLUSIVE then Some ATTEMPTED_INTENTION_LOCK_ON_ROW
      else
        (case (if GetState txn = SHRINKING then
                 (if GetIsolationLevel txn = REPEATABLE_READ then Some LOCK_ON_SHRINKING
                  else if GetIsolationLevel txn = READ_COMMITTED \<and> lock_mode = EXCLUSIVE
                    then Some LOCK_ON_SHRINKING
                  else if GetIsolationLevel txn = READ_UNCOMMITTED then
                    (if lock_mode = EXCLUSIVE then Some LOCK_ON_SHRINKING
                     else Some LOCK_SHARED_ON_READ_UNCOMMITTED)
                  else None)
               else if GetState txn = GROWING then
                 (if GetIsolationLevel txn = READ_UNCOMMITTED \<and> lock_mode = SHARED
                  then Some LOCK_SHARED_ON_READ_UNCOMMITTED
                  else None)
               else None) of
           Some reason \<Rightarrow> Some reason
         | None \<Rightarrow>
             if \<not> CheckAppropriateLockOnTable txn oid lock_mode then Some TABLE_LOCK_NOT_PRESENT
             else None))"

text \<open>The first request of the transaction in the queue, as the \<open>for\<close> loop finds it.\<close>

fun own_request :: "txn_id_t \<Rightarrow> LockRequest list \<Rightarrow> LockRequest option" where
  "own_request t [] = None"
| "own_request t (r # rs) = (if lr_txn_id r = t then Some r else own_request t rs)"

text \<open>\<open>request_queue_.erase(it)\<close> at that request.\<close>

fun erase_own :: "txn_id_t \<Rightarrow> LockRequest list \<Rightarrow> LockRequest list" where
  "erase_own t [] = []"
| "erase_own t (r # rs) = (if lr_txn_id r = t then rs else r # erase_own t rs)"

text \<open>
  The insertion of an upgrade: in front of the first request that is not granted, and at
  the end when all are granted or the queue is empty.
\<close>

fun insert_upgrade :: "LockRequest \<Rightarrow> LockRequest list \<Rightarrow> LockRequest list" where
  "insert_upgrade n [] = [n]"
| "insert_upgrade n (r # rs) = (if \<not> granted r then n # r # rs else r # insert_upgrade n rs)"

text \<open>
  The upgrade test and the enqueueing, which \<open>LockTable\<close> (lines 277 to 329) and \<open>LockRow\<close>
  (lines 447 to 498) spell out in the same way; \<open>del\<close> is \<open>TxnTableLockDelete\<close> or
  \<open>TxnRowLockDelete\<close> of the resource. The result is the outcome, the transaction and the
  queue.
\<close>

definition enqueue_request ::
  "(Transaction \<Rightarrow> LockMode \<Rightarrow> Transaction) \<Rightarrow> Transaction \<Rightarrow> LockRequest \<Rightarrow> LockRequestQueue
     \<Rightarrow> lock_outcome \<times> Transaction \<times> LockRequestQueue" where
  "enqueue_request del txn new_lock_request q =
     (case own_request (GetTransactionId txn) (request_queue q) of
        Some lock_request \<Rightarrow>
          if \<not> granted lock_request then (AssertionFailure, txn, q)
          else if lr_lock_mode lock_request = lr_lock_mode new_lock_request then (Returned False, txn, q)
          else if upgrading q \<noteq> INVALID_TXN_ID then
            (Aborted UPGRADE_CONFLICT, SetState txn ABORTED, q)
          else if \<not> CanLockUpgrade (lr_lock_mode lock_request) (lr_lock_mode new_lock_request) then
            (Aborted INCOMPATIBLE_UPGRADE, SetState txn ABORTED, q)
          else
            (Enqueued, del txn (lr_lock_mode lock_request),
             q\<lparr>request_queue :=
                  insert_upgrade new_lock_request (erase_own (GetTransactionId txn) (request_queue q)),
               upgrading := GetTransactionId txn\<rparr>)
      | None \<Rightarrow> (Enqueued, txn, q\<lparr>request_queue := request_queue q @ [new_lock_request]\<rparr>))"

definition LockTable :: "LockManager \<Rightarrow> Transaction \<Rightarrow> LockMode \<Rightarrow> table_oid_t \<Rightarrow> lock_result" where
  "LockTable lm txn lock_mode oid =
     (case LockTable_check txn lock_mode of
        Some reason \<Rightarrow> abort_with txn lm reason
      | None \<Rightarrow>
          (case table_lock_map lm oid of
             None \<Rightarrow>
               (Returned True, TxnTableLockInsert txn lock_mode oid,
                lm\<lparr>table_lock_map := (table_lock_map lm)(oid \<mapsto>
                      \<lparr>request_queue =
                          [(new_LockRequest (GetTransactionId txn) lock_mode oid None)\<lparr>granted := True\<rparr>],
                       upgrading = INVALID_TXN_ID\<rparr>)\<rparr>)
           | Some q \<Rightarrow>
               (case enqueue_request (\<lambda>t m. TxnTableLockDelete t m oid) txn
                       (new_LockRequest (GetTransactionId txn) lock_mode oid None) q of
                  (out, txn', q') \<Rightarrow>
                    (out, txn', lm\<lparr>table_lock_map := (table_lock_map lm)(oid \<mapsto> q')\<rparr>))))"

definition LockRow :: "LockManager \<Rightarrow> Transaction \<Rightarrow> LockMode \<Rightarrow> table_oid_t \<Rightarrow> RID \<Rightarrow> lock_result" where
  "LockRow lm txn lock_mode oid rid =
     (case LockRow_check txn lock_mode oid of
        Some reason \<Rightarrow> abort_with txn lm reason
      | None \<Rightarrow>
          (case row_lock_map lm rid of
             None \<Rightarrow>
               (Returned True, TxnRowLockInsert txn lock_mode oid rid,
                lm\<lparr>row_lock_map := (row_lock_map lm)(rid \<mapsto>
                      \<lparr>request_queue =
                          [(new_LockRequest (GetTransactionId txn) lock_mode oid (Some rid))\<lparr>granted := True\<rparr>],
                       upgrading = INVALID_TXN_ID\<rparr>)\<rparr>)
           | Some q \<Rightarrow>
               (case enqueue_request (\<lambda>t m. TxnRowLockDelete t m oid rid) txn
                       (new_LockRequest (GetTransactionId txn) lock_mode oid (Some rid)) q of
                  (out, txn', q') \<Rightarrow>
                    (out, txn', lm\<lparr>row_lock_map := (row_lock_map lm)(rid \<mapsto> q')\<rparr>))))"

subsection \<open>Transactions and lock tables used in examples\<close>

definition txn_of :: "txn_id_t \<Rightarrow> IsolationLevel \<Rightarrow> TransactionState \<Rightarrow> Transaction" where
  "txn_of t lvl st =
     \<lparr>txn_id = t, isolation_level = lvl, txn_state = st,
      table_lock_set = (\<lambda>_. {}), row_lock_set = (\<lambda>_ _. {})\<rparr>"

definition empty_LockManager :: LockManager where
  "empty_LockManager = \<lparr>table_lock_map = Map.empty, row_lock_map = Map.empty\<rparr>"

text \<open>A lock manager in which transaction \<open>t\<close> holds the only, granted lock of mode \<open>m\<close> on table 0 and on row 0.\<close>

definition held_LockManager :: "txn_id_t \<Rightarrow> LockMode \<Rightarrow> txn_id_t \<Rightarrow> LockManager" where
  "held_LockManager t m u =
     \<lparr>table_lock_map = [0 \<mapsto> \<lparr>request_queue = [(new_LockRequest t m 0 None)\<lparr>granted := True\<rparr>],
                               upgrading = u\<rparr>],
      row_lock_map = [0 \<mapsto> \<lparr>request_queue = [(new_LockRequest t m 0 (Some 0))\<lparr>granted := True\<rparr>],
                             upgrading = u\<rparr>]\<rparr>"

text \<open>Table 0 with granted \<open>S\<close> locks of transactions 1 and 2 and a waiting \<open>X\<close> request of transaction 3.\<close>

definition waiting_queue :: LockRequestQueue where
  "waiting_queue =
     \<lparr>request_queue =
        [(new_LockRequest 1 SHARED 0 None)\<lparr>granted := True\<rparr>,
         (new_LockRequest 2 SHARED 0 None)\<lparr>granted := True\<rparr>,
         new_LockRequest 3 EXCLUSIVE 0 None],
      upgrading = INVALID_TXN_ID\<rparr>"

definition waiting_LockManager :: LockManager where
  "waiting_LockManager = \<lparr>table_lock_map = [0 \<mapsto> waiting_queue], row_lock_map = Map.empty\<rparr>"

section \<open>B+Tree (src/storage/index/b\_plus\_tree.cpp)\<close>

subsection \<open>Typed views of a page buffer\<close>

definition as_header :: "page_content \<Rightarrow> error + page_id_t" where
  "as_header c = (case c of Header r \<Rightarrow> Inr r | Blank \<Rightarrow> Inr 0 | _ \<Rightarrow> Inl BadCast)"

definition as_leaf :: "page_content \<Rightarrow> error + LeafPage" where
  "as_leaf c = (case c of Leaf l \<Rightarrow> Inr l | Blank \<Rightarrow> Inr zero_LeafPage | _ \<Rightarrow> Inl BadCast)"

definition as_internal :: "page_content \<Rightarrow> error + InternalPage" where
  "as_internal c = (case c of Internal i \<Rightarrow> Inr i | Blank \<Rightarrow> Inr zero_InternalPage | _ \<Rightarrow> Inl BadCast)"

definition as_tree_page :: "page_content \<Rightarrow> error + BPlusTreePage" where
  "as_tree_page c =
     (case c of
        Leaf l \<Rightarrow> Inr (BPlusTreePage.truncate l)
      | Internal i \<Rightarrow> Inr (BPlusTreePage.truncate i)
      | Blank \<Rightarrow> Inr \<lparr>page_type = INVALID_INDEX_PAGE, cur_size = 0, max_size = 0\<rparr>
      | Header _ \<Rightarrow> Inl BadCast)"

text \<open>\<open>guard.As<T>()\<close>: the view of the buffer behind a guard; a guard without a page fails.\<close>

definition read_header :: "BufferPoolManager \<Rightarrow> BasicPageGuard \<Rightarrow> error + page_id_t" where
  "read_header b g = ebind (guard_GetData b g) as_header"

definition read_leaf :: "BufferPoolManager \<Rightarrow> BasicPageGuard \<Rightarrow> error + LeafPage" where
  "read_leaf b g = ebind (guard_GetData b g) as_leaf"

definition read_internal :: "BufferPoolManager \<Rightarrow> BasicPageGuard \<Rightarrow> error + InternalPage" where
  "read_internal b g = ebind (guard_GetData b g) as_internal"

definition read_tree_page :: "BufferPoolManager \<Rightarrow> BasicPageGuard \<Rightarrow> error + BPlusTreePage" where
  "read_tree_page b g = ebind (guard_GetData b g) as_tree_page"

text \<open>\<open>header_page->root_page_id_ = r\<close> through a guard.\<close>

definition set_root :: "BufferPoolManager \<Rightarrow> BasicPageGuard \<Rightarrow> page_id_t \<Rightarrow> error + BufferPoolManager" where
  "set_root b g r = ebind (read_header b g) (\<lambda>_. guard_write b g (Header r))"

text \<open>\<open>new_page->WLatch()\<close> and \<open>new_page->WUnlatch()\<close> on the page in a frame.\<close>

definition frame_WLatch :: "BufferPoolManager \<Rightarrow> frame_id_t \<Rightarrow> error + BufferPoolManager" where
  "frame_WLatch b f = ebind (WLatch (pages b f)) (\<lambda>p. Inr (update_page b f (\<lambda>_. p)))"

definition frame_WUnlatch :: "BufferPoolManager \<Rightarrow> frame_id_t \<Rightarrow> error + BufferPoolManager" where
  "frame_WUnlatch b f = ebind (WUnlatch (pages b f)) (\<lambda>p. Inr (update_page b f (\<lambda>_. p)))"

definition frame_write :: "BufferPoolManager \<Rightarrow> frame_id_t \<Rightarrow> page_content \<Rightarrow> BufferPoolManager" where
  "frame_write b f c = update_page b f (\<lambda>p. p\<lparr>data := c\<rparr>)"

text \<open>
  Two page objects that one step reads and writes together are taken to lie in different
  frames; the model stops with \<open>Aliased\<close> otherwise.
\<close>

definition guard_frame :: "BasicPageGuard \<Rightarrow> error + frame_id_t" where
  "guard_frame g = (case guard_page g of None \<Rightarrow> Inl NullPointer | Some f \<Rightarrow> Inr f)"

definition distinct_frames :: "frame_id_t \<Rightarrow> frame_id_t \<Rightarrow> error + unit" where
  "distinct_frames f g = (if f = g then Inl Aliased else Inr ())"

subsection \<open>The tree and its context\<close>

record BPlusTree =
  leaf_max_size :: int
  internal_max_size :: int
  header_page_id :: page_id_t

text \<open>
  Modelled from the spec: the class \<open>Context\<close> (b\_plus\_tree.h is not part of the sources at
  hand). The spec keeps the parent links of a descent as a stack of owned guards; the
  source reads and writes the members \<open>header_page_\<close> (an optional write guard),
  \<open>root_page_id_\<close>, \<open>write_set_\<close>, \<open>page_id_\<close> and \<open>sibling_id_\<close>, and \<open>IsRootPage\<close> compares a
  page id with \<open>root_page_id_\<close>. The deque \<open>write_set_\<close> is passed beside the context, as a
  list whose head is \<open>write_set_.back()\<close>: \<open>push_back\<close> is \<open>#\<close>, \<open>pop_back\<close> is \<open>tl\<close> and the
  front is the last element. \<open>header_page_->Drop()\<close> on the empty optional acts on a guard
  that has been dropped and does nothing.
\<close>

record Context =
  header_page :: "BasicPageGuard option"
  root_page_id :: page_id_t
  ctx_page_id :: page_id_t
  sibling_id :: page_id_t

definition IsRootPage :: "Context \<Rightarrow> page_id_t \<Rightarrow> bool" where
  "IsRootPage ctx pid = (pid = root_page_id ctx)"

definition BPlusTree_construct :: "BPlusTree \<Rightarrow> BufferPoolManager \<Rightarrow> error + BufferPoolManager" where
  "BPlusTree_construct t b =
     ebind (FetchPageWrite b (header_page_id t)) (\<lambda>(guard0, b1).
     let guard = guard_GetDataMut guard0 in
     ebind (set_root b1 guard INVALID_PAGE_ID) (\<lambda>b2.
     ebind (WritePageGuard_Drop b2 guard) (\<lambda>(_, b3). Inr b3)))"

text \<open>\<open>while (!write_set_.empty()) { write_set_.front().Drop(); write_set_.pop_front(); }\<close>\<close>

fun drop_from_front :: "BufferPoolManager \<Rightarrow> BasicPageGuard list \<Rightarrow> error + BufferPoolManager" where
  "drop_from_front b [] = Inr b"
| "drop_from_front b (g # gs) =
     ebind (drop_from_front b gs) (\<lambda>b1. ebind (WritePageGuard_Drop b1 g) (\<lambda>(_, b2). Inr b2))"

text \<open>\<open>while (!write_set_.empty()) { write_set_.back().Drop(); write_set_.pop_back(); }\<close>\<close>

fun drop_from_back :: "BufferPoolManager \<Rightarrow> BasicPageGuard list \<Rightarrow> error + BufferPoolManager" where
  "drop_from_back b [] = Inr b"
| "drop_from_back b (g # gs) =
     ebind (WritePageGuard_Drop b g) (\<lambda>(_, b1). drop_from_back b1 gs)"

text \<open>\<open>ctx.header_page_->Drop(); ctx.header_page_ = std::nullopt;\<close>\<close>

definition drop_header :: "BufferPoolManager \<Rightarrow> Context \<Rightarrow> error + (Context \<times> BufferPoolManager)" where
  "drop_header b ctx =
     (case header_page ctx of
        None \<Rightarrow> Inr (ctx, b)
      | Some g \<Rightarrow> ebind (WritePageGuard_Drop b g) (\<lambda>(_, b1). Inr (ctx\<lparr>header_page := None\<rparr>, b1)))"

text \<open>The destructors at an early return: the guard at hand, then the context.\<close>

definition destroy_all ::
  "BufferPoolManager \<Rightarrow> BasicPageGuard \<Rightarrow> BasicPageGuard list \<Rightarrow> Context \<Rightarrow> error + BufferPoolManager" where
  "destroy_all b g ws ctx =
     ebind (WritePageGuard_Drop b g) (\<lambda>(_, b1).
     ebind (drop_from_front b1 ws) (\<lambda>b2.
     ebind (drop_header b2 ctx) (\<lambda>(_, b3). Inr b3)))"

subsection \<open>Search\<close>

text \<open>
  The descents are loops over page ids read from pages; they carry a bound \<open>n\<close> on the
  number of levels and stop with \<open>OutOfFuel\<close> beyond it.
\<close>

fun FindLeafPage_loop ::
  "nat \<Rightarrow> BufferPoolManager \<Rightarrow> KeyType \<Rightarrow> BasicPageGuard \<Rightarrow> error + (BasicPageGuard \<times> BufferPoolManager)" where
  "FindLeafPage_loop 0 b key node_guard = Inl OutOfFuel"
| "FindLeafPage_loop (Suc n) b key node_guard =
     ebind (read_tree_page b node_guard) (\<lambda>node.
     if IsLeafPage node then Inr (node_guard, b)
     else
       ebind (read_internal b node_guard) (\<lambda>internal_node.
       let index = GetKeyIndex internal_node key;
           next_page_id = ValueAt internal_node index
       in ebind (FetchPageRead b next_page_id) (\<lambda>(next_node_guard, b1).
          ebind (read_tree_page b1 next_node_guard) (\<lambda>_.
          ebind (ReadPageGuard_Drop b1 node_guard) (\<lambda>(_, b2).
          FindLeafPage_loop n b2 key next_node_guard)))))"

definition FindLeafPage ::
  "nat \<Rightarrow> BPlusTree \<Rightarrow> BufferPoolManager \<Rightarrow> KeyType \<Rightarrow> error + (BasicPageGuard \<times> BufferPoolManager)" where
  "FindLeafPage n t b key =
     ebind (FetchPageRead b (header_page_id t)) (\<lambda>(head_guard, b1).
     ebind (read_header b1 head_guard) (\<lambda>root.
     ebind (FetchPageRead b1 root) (\<lambda>(node_guard, b2).
     ebind (read_tree_page b2 node_guard) (\<lambda>_.
     ebind (FindLeafPage_loop n b2 key node_guard) (\<lambda>(leaf_page_guard, b3).
     ebind (ReadPageGuard_Drop b3 head_guard) (\<lambda>(_, b4). Inr (leaf_page_guard, b4)))))))"

text \<open>\<open>GetValue\<close> returns the value pushed to \<open>result\<close>, or \<open>None\<close> when it returns false.\<close>

definition GetValue ::
  "nat \<Rightarrow> BPlusTree \<Rightarrow> BufferPoolManager \<Rightarrow> KeyType \<Rightarrow> error + (ValueType option \<times> BufferPoolManager)" where
  "GetValue n t b key =
     ebind (FetchPageRead b (header_page_id t)) (\<lambda>(header_guard, b1).
     ebind (read_header b1 header_guard) (\<lambda>root.
     ebind (ReadPageGuard_Drop b1 header_guard) (\<lambda>(_, b2).
     if root = INVALID_PAGE_ID then Inr (None, b2)
     else
       ebind (FindLeafPage n t b2 key) (\<lambda>(leaf_page_guard, b3).
       ebind (read_leaf b3 leaf_page_guard) (\<lambda>leaf_page.
       ebind (ReadPageGuard_Drop b3 leaf_page_guard) (\<lambda>(_, b4).
       Inr (ValueAtKey leaf_page key, b4)))))))"

subsection \<open>Descent for insertion and deletion\<close>

definition safe_for :: "bool \<Rightarrow> BPlusTreePage \<Rightarrow> bool" where
  "safe_for is_insert cur_page =
     (if is_insert then
        (\<not> IsLeafPage cur_page \<and> GetSize cur_page < GetMaxSize cur_page) \<or>
        (IsLeafPage cur_page \<and> GetSize cur_page < GetMaxSize cur_page - 1)
      else GetSize cur_page > GetMinSize cur_page)"

fun descend_write ::
  "nat \<Rightarrow> KeyType \<Rightarrow> bool \<Rightarrow> BasicPageGuard list \<Rightarrow> BufferPoolManager
     \<Rightarrow> error + (BasicPageGuard list \<times> BufferPoolManager)" where
  "descend_write 0 key is_insert ws b = Inl OutOfFuel"
| "descend_write (Suc n) key is_insert ws b =
     (case ws of
        [] \<Rightarrow> Inl NullPointer
      | cur_guard # _ \<Rightarrow>
          ebind (read_tree_page b cur_guard) (\<lambda>cur_page.
          if IsLeafPage cur_page then Inr (ws, b)
          else
            ebind (read_internal b cur_guard) (\<lambda>internal_node.
            let index = GetKeyIndex internal_node key;
                next_page_id = ValueAt internal_node index
            in ebind (FetchPageWrite b next_page_id) (\<lambda>(next0, b1).
               let next_node_guard = guard_GetDataMut next0 in
               ebind (read_tree_page b1 next_node_guard) (\<lambda>child.
               ebind (if safe_for is_insert child
                      then ebind (drop_from_front b1 ws) (\<lambda>b2. Inr ([], b2))
                      else Inr (ws, b1)) (\<lambda>(ws1, b2).
               descend_write n key is_insert (next_node_guard # ws1) b2))))))"

text \<open>
  \<open>FindLeafPageWriteInsertOrDelete\<close> returns the write set, whose head guards the leaf, and
  the context.
\<close>

definition FindLeafPageWriteInsertOrDelete ::
  "nat \<Rightarrow> BPlusTree \<Rightarrow> BufferPoolManager \<Rightarrow> KeyType \<Rightarrow> bool
     \<Rightarrow> error + (BasicPageGuard list \<times> Context \<times> BufferPoolManager)" where
  "FindLeafPageWriteInsertOrDelete n t b key is_insert =
     ebind (FetchPageWrite b (header_page_id t)) (\<lambda>(header0, b1).
     let header_page_guard = guard_GetDataMut header0 in
     ebind (read_header b1 header_page_guard) (\<lambda>root.
     let ctx = \<lparr>header_page = Some header_page_guard, root_page_id = root,
                ctx_page_id = INVALID_PAGE_ID, sibling_id = INVALID_PAGE_ID\<rparr>
     in ebind (FetchPageWrite b1 root) (\<lambda>(root_page_guard, b2).
        ebind (read_tree_page b2 root_page_guard) (\<lambda>_.
        ebind (descend_write n key is_insert [guard_GetDataMut root_page_guard] b2) (\<lambda>(ws, b3).
        Inr (ws, ctx, b3))))))"

subsection \<open>Insertion\<close>

text \<open>
  Lines 142 to 149 of \<open>Insert\<close> on the two page objects: the fresh page is initialised as a
  leaf, the upper entries are moved to it, and the next-pointers are linked.
\<close>

definition split_leaf :: "BPlusTree \<Rightarrow> LeafPage \<Rightarrow> LeafPage \<Rightarrow> page_id_t \<Rightarrow> KeyType \<times> LeafPage \<times> LeafPage" where
  "split_leaf t leaf_page new_page new_page_id =
     (let new_leaf_page = leaf_Init new_page (leaf_max_size t);
          (risen_key, leaf_page1, new_leaf_page1) = leaf_Split leaf_page new_leaf_page;
          new_leaf_page2 = SetNextPageId new_leaf_page1 (GetNextPageId leaf_page1);
          leaf_page2 = SetNextPageId leaf_page1 new_page_id
      in (risen_key, leaf_page2, new_leaf_page2))"

text \<open>
  The copy back of \<open>InsertIntoParent\<close>: the header and the first \<open>min_size\<close> slots of the
  temporary copy overwrite the parent; the other slots of the parent stay.
\<close>

definition copy_back :: "InternalPage \<Rightarrow> InternalPage \<Rightarrow> InternalPage" where
  "copy_back parent_page copy_page =
     copy_page\<lparr>internal_array :=
       (\<lambda>i. if 0 \<le> i \<and> i < GetMinSize copy_page then internal_array copy_page i
            else internal_array parent_page i)\<rparr>"

fun InsertIntoParent ::
  "BPlusTree \<Rightarrow> KeyType \<Rightarrow> BasicPageGuard list \<Rightarrow> Context \<Rightarrow> BufferPoolManager
     \<Rightarrow> error + (BasicPageGuard list \<times> Context \<times> BufferPoolManager)" where
  "InsertIntoParent t risenkey ws ctx b =
     (if IsRootPage ctx (ctx_page_id ctx) then
        ebind (NewPage b) (\<lambda>(np, b1).
        case np of
          None \<Rightarrow> Inl OutOfMemory
        | Some (new_page_id, nf) \<Rightarrow>
            ebind (frame_WLatch b1 nf) (\<lambda>b2.
            ebind (as_internal (data (pages b2 nf))) (\<lambda>new_root_page0.
            let new_root_page = CreatNewRoot (internal_Init new_root_page0 (internal_max_size t))
                                  risenkey (ctx_page_id ctx) (sibling_id ctx);
                b3 = frame_write b2 nf (Internal new_root_page)
            in case header_page ctx of
                 None \<Rightarrow> Inl NullPointer
               | Some hg0 \<Rightarrow>
                   let hg = guard_GetDataMut hg0 in
                   ebind (set_root b3 hg new_page_id) (\<lambda>b4.
                   ebind (WritePageGuard_Drop b4 hg) (\<lambda>(_, b5).
                   let ctx1 = ctx\<lparr>header_page := None, root_page_id := new_page_id\<rparr> in
                   ebind (frame_WUnlatch b5 nf) (\<lambda>b6.
                   ebind (UnpinPage b6 new_page_id True) (\<lambda>(_, b7).
                   Inr (ws, ctx1, b7))))))))
      else
        (case ws of
           [] \<Rightarrow> Inl (TreeException ''error 1'')
         | parent0 # rest \<Rightarrow>
             let parent_page_guard = guard_GetDataMut parent0 in
             ebind (read_internal b parent_page_guard) (\<lambda>parent_page.
             if GetSize parent_page < GetMaxSize parent_page then
               ebind (guard_write b parent_page_guard
                        (Internal (internal_Insert parent_page risenkey (sibling_id ctx)))) (\<lambda>b1.
               ebind (WritePageGuard_Drop b1 parent_page_guard) (\<lambda>(_, b2).
               Inr (rest, ctx, b2)))
             else
               let copy_page = internal_Insert parent_page risenkey (sibling_id ctx) in
               ebind (NewPage b) (\<lambda>(np, b1).
               case np of
                 None \<Rightarrow> Inl OutOfMemory
               | Some (new_page_id, nf) \<Rightarrow>
                   ebind (frame_WLatch b1 nf) (\<lambda>b2.
                   ebind (as_internal (data (pages b2 nf))) (\<lambda>new_internal_page0.
                   ebind (guard_PageId b2 parent_page_guard) (\<lambda>parent_page_id.
                   let ctx1 = ctx\<lparr>sibling_id := new_page_id, ctx_page_id := parent_page_id\<rparr>;
                       (risen_key, copy_page1, new_internal_page) =
                          internal_Split copy_page
                            (internal_Init new_internal_page0 (internal_max_size t));
                       b3 = frame_write b2 nf (Internal new_internal_page)
                   in ebind (read_internal b3 parent_page_guard) (\<lambda>parent_now.
                      ebind (guard_write b3 parent_page_guard
                               (Internal (copy_back parent_now copy_page1))) (\<lambda>b4.
                      ebind (InsertIntoParent t risen_key rest ctx1 b4) (\<lambda>(ws2, ctx2, b5).
                      ebind (frame_WUnlatch b5 nf) (\<lambda>b6.
                      ebind (UnpinPage b6 new_page_id True) (\<lambda>(_, b7).
                      ebind (WritePageGuard_Drop b7 parent_page_guard) (\<lambda>(_, b8).
                      Inr (ws2, ctx2, b8))))))))))))))"

declare InsertIntoParent.simps [simp del]

text \<open>
  Lines 128 to 163 of \<open>Insert\<close>: the insertion into the leaf at the back of the write set,
  and the split when the leaf is full afterwards. The key read in front of the slots of a
  leaf is the parameter \<open>front_key\<close> (see \<open>leaf_Insert\<close>).
\<close>

definition insert_into_leaf ::
  "(LeafPage \<Rightarrow> KeyType) \<Rightarrow> BPlusTree \<Rightarrow> KeyType \<Rightarrow> ValueType \<Rightarrow> BasicPageGuard list \<Rightarrow> Context
     \<Rightarrow> BufferPoolManager \<Rightarrow> error + (bool \<times> BufferPoolManager)" where
  "insert_into_leaf front_key t key v ws ctx b3 =
     (case ws of
         [] \<Rightarrow> Inl NullPointer
       | leaf0 # ws1 \<Rightarrow>
           let leaf_page_guard = guard_GetDataMut leaf0 in
           ebind (read_leaf b3 leaf_page_guard) (\<lambda>leaf_page.
           case leaf_Insert front_key leaf_page key v of
             (False, _) \<Rightarrow>
               ebind (destroy_all b3 leaf_page_guard ws1 ctx) (\<lambda>b4. Inr (False, b4))
           | (True, leaf_page1) \<Rightarrow>
               ebind (guard_write b3 leaf_page_guard (Leaf leaf_page1)) (\<lambda>b4.
               ebind (if GetSize leaf_page1 = GetMaxSize leaf_page1 then
                        ebind (NewPage b4) (\<lambda>(np, b5).
                        case np of
                          None \<Rightarrow> Inl OutOfMemory
                        | Some (new_page_id, nf) \<Rightarrow>
                            ebind (frame_WLatch b5 nf) (\<lambda>b6.
                            ebind (guard_frame leaf_page_guard) (\<lambda>lf.
                            ebind (distinct_frames lf nf) (\<lambda>_.
                            ebind (as_leaf (data (pages b6 nf))) (\<lambda>new_page.
                            ebind (guard_PageId b6 leaf_page_guard) (\<lambda>leaf_page_id.
                            ebind (read_leaf b6 leaf_page_guard) (\<lambda>leaf_now.
                            let ctx1 = ctx\<lparr>sibling_id := new_page_id, ctx_page_id := leaf_page_id\<rparr>;
                                (risen_key, leaf_page2, new_leaf_page) =
                                   split_leaf t leaf_now new_page new_page_id;
                                b7 = frame_write (frame_write b6 nf (Leaf new_leaf_page)) lf (Leaf leaf_page2)
                            in ebind (InsertIntoParent t risen_key ws1 ctx1 b7) (\<lambda>(ws2, ctx2, b8).
                               ebind (frame_WUnlatch b8 nf) (\<lambda>b9.
                               ebind (UnpinPage b9 new_page_id True) (\<lambda>(_, b10).
                               Inr (ws2, ctx2, b10)))))))))))
                      else Inr (ws1, ctx, b4)) (\<lambda>(ws2, ctx2, b5).
               ebind (WritePageGuard_Drop b5 leaf_page_guard) (\<lambda>(_, b6).
               ebind (drop_from_back b6 ws2) (\<lambda>b7.
               ebind (drop_header b7 ctx2) (\<lambda>(_, b8).
               Inr (True, b8))))))))"

text \<open>\<open>Insert\<close> takes also the bound \<open>n\<close> on the depth of the descent.\<close>

definition Insert ::
  "nat \<Rightarrow> (LeafPage \<Rightarrow> KeyType) \<Rightarrow> BPlusTree \<Rightarrow> BufferPoolManager \<Rightarrow> KeyType \<Rightarrow> ValueType
     \<Rightarrow> error + (bool \<times> BufferPoolManager)" where
  "Insert n front_key t b key v =
     ebind (FetchPageWrite b (header_page_id t)) (\<lambda>(header0, b1).
     let header_page_guard = guard_GetDataMut header0 in
     ebind (read_header b1 header_page_guard) (\<lambda>root.
     if root = INVALID_PAGE_ID then
       ebind (NewPage b1) (\<lambda>(np, b2).
       case np of
         None \<Rightarrow> Inl OutOfMemory
       | Some (new_page_id, nf) \<Rightarrow>
           ebind (frame_WLatch b2 nf) (\<lambda>b3.
           ebind (as_leaf (data (pages b3 nf))) (\<lambda>root_page0.
           let root_page = SetKeyValueAt (leaf_Init root_page0 (leaf_max_size t)) 0 key v;
               b4 = frame_write b3 nf (Leaf root_page)
           in ebind (set_root b4 header_page_guard new_page_id) (\<lambda>b5.
              ebind (UnpinPage b5 new_page_id True) (\<lambda>(_, b6).
              ebind (frame_WUnlatch b6 nf) (\<lambda>b7.
              ebind (WritePageGuard_Drop b7 header_page_guard) (\<lambda>(_, b8).
              Inr (True, b8))))))))
     else
       ebind (WritePageGuard_Drop b1 header_page_guard) (\<lambda>(_, b2).
       ebind (FindLeafPageWriteInsertOrDelete n t b2 key True) (\<lambda>(ws, ctx, b3).
       insert_into_leaf front_key t key v ws ctx b3))))"

subsection \<open>Deletion\<close>

text \<open>
  \<open>tree_Remove\<close> is \<open>BPlusTree::Remove\<close>.
  \<open>RootAdjust\<close>, \<open>FindSibling\<close> and \<open>MergeOrRedistribute\<close> take the guard of the page by
  pointer and drop it in place; the models return the guard with the other results. The
  messages of the exceptions are not ASCII in the source and are numbered here.
\<close>

definition RootAdjust ::
  "BasicPageGuard \<Rightarrow> Context \<Rightarrow> BufferPoolManager
     \<Rightarrow> error + (bool \<times> BasicPageGuard \<times> Context \<times> BufferPoolManager)" where
  "RootAdjust root0 ctx b =
     (let root_page_guard = guard_GetDataMut root0 in
      ebind (read_tree_page b root_page_guard) (\<lambda>root_page.
      ebind (guard_PageId b root_page_guard) (\<lambda>root_page_id'.
      if IsLeafPage root_page then
        (if GetSize root_page = 0 then
           (case header_page ctx of
              None \<Rightarrow> Inl NullPointer
            | Some hg0 \<Rightarrow>
                let hg = guard_GetDataMut hg0 in
                ebind (set_root b hg INVALID_PAGE_ID) (\<lambda>b1.
                ebind (WritePageGuard_Drop b1 root_page_guard) (\<lambda>(root_dropped, b2).
                ebind (DeletePage b2 root_page_id') (\<lambda>(ok, b3).
                if \<not> ok then Inl (TreeException ''delete page error 3'')
                else
                  ebind (WritePageGuard_Drop b3 hg) (\<lambda>(_, b4).
                  Inr (True, root_dropped, ctx\<lparr>header_page := None\<rparr>, b4))))))
         else Inr (False, root_page_guard, ctx, b))
      else
        (if GetSize root_page = 1 then
           ebind (read_internal b root_page_guard) (\<lambda>internal_page.
           let new_root_id = ValueAt internal_page 0 in
           case header_page ctx of
             None \<Rightarrow> Inl NullPointer
           | Some hg0 \<Rightarrow>
               let hg = guard_GetDataMut hg0 in
               ebind (set_root b hg new_root_id) (\<lambda>b1.
               ebind (WritePageGuard_Drop b1 root_page_guard) (\<lambda>(root_dropped, b2).
               ebind (DeletePage b2 root_page_id') (\<lambda>(ok, b3).
               if \<not> ok then Inl (TreeException ''delete page error 4'')
               else
                 ebind (WritePageGuard_Drop b3 hg) (\<lambda>(_, b4).
                 Inr (False, root_dropped, ctx\<lparr>header_page := None\<rparr>, b4))))))
         else Inr (False, root_page_guard, ctx, b)))))"

text \<open>\<open>FindSibling\<close> returns its result, \<open>index == 0\<close>, and the guard of the sibling.\<close>

definition FindSibling ::
  "BasicPageGuard \<Rightarrow> BasicPageGuard list \<Rightarrow> BufferPoolManager
     \<Rightarrow> error + (bool \<times> BasicPageGuard \<times> BufferPoolManager)" where
  "FindSibling page_guard ws b =
     (case ws of
        [] \<Rightarrow> Inl (TreeException ''error 4'')
      | parent_guard # _ \<Rightarrow>
          ebind (read_internal b parent_guard) (\<lambda>parent_page.
          ebind (guard_PageId b page_guard) (\<lambda>pid.
          let index = ValueIndex parent_page pid in
          if index = -1 then Inl (TreeException ''internal node lookup failed'')
          else
            let sibling_index = (if index = 0 then index + 1 else index - 1);
                sibling_page_id = ValueAt parent_page sibling_index
            in ebind (FetchPageWrite b sibling_page_id) (\<lambda>(sibling_page_guard, b1).
               Inr (index = 0, sibling_page_guard, b1)))))"

text \<open>The leaf branch of \<open>MergeOrRedistribute\<close> when the two pages are merged.\<close>

definition merge_leaves ::
  "bool \<Rightarrow> page_id_t \<Rightarrow> page_id_t \<Rightarrow> BasicPageGuard \<Rightarrow> BasicPageGuard \<Rightarrow> BasicPageGuard
     \<Rightarrow> BufferPoolManager \<Rightarrow> error + (BasicPageGuard \<times> BufferPoolManager)" where
  "merge_leaves page_prev_sibling page_id' sibling_page_id page_guard sibling_page_guard
       parent_page_guard b =
     ebind (read_internal b parent_page_guard) (\<lambda>parent_page.
     ebind (read_leaf b page_guard) (\<lambda>page.
     ebind (read_leaf b sibling_page_guard) (\<lambda>sibling_page.
     ebind (guard_frame page_guard) (\<lambda>pf.
     ebind (guard_frame sibling_page_guard) (\<lambda>sf.
     ebind (distinct_frames pf sf) (\<lambda>_.
     ebind (if page_prev_sibling then
              (let remove_index = ValueIndex parent_page sibling_page_id;
                   (sibling1, page1) = leaf_MoveAll sibling_page page;
                   b1 = frame_write (frame_write b sf (Leaf sibling1)) pf (Leaf page1)
               in ebind (WritePageGuard_Drop b1 sibling_page_guard) (\<lambda>(_, b2).
                  ebind (DeletePage b2 sibling_page_id) (\<lambda>(ok, b3).
                  if \<not> ok then Inl (TreeException ''delete page error 1'')
                  else ebind (WritePageGuard_Drop b3 page_guard) (\<lambda>(page_dropped, b4).
                       Inr (remove_index, page_dropped, b4)))))
            else
              (let remove_index = ValueIndex parent_page page_id';
                   (page1, sibling1) = leaf_MoveAll page sibling_page;
                   b1 = frame_write (frame_write b pf (Leaf page1)) sf (Leaf sibling1)
               in ebind (WritePageGuard_Drop b1 page_guard) (\<lambda>(page_dropped, b2).
                  ebind (DeletePage b2 page_id') (\<lambda>(ok, b3).
                  if \<not> ok then Inl (TreeException ''delete page error 1'')
                  else ebind (WritePageGuard_Drop b3 sibling_page_guard) (\<lambda>(_, b4).
                       Inr (remove_index, page_dropped, b4))))))
       (\<lambda>(remove_index, page_dropped, b4).
     ebind (read_internal b4 parent_page_guard) (\<lambda>parent_now.
     ebind (guard_write b4 parent_page_guard (Internal (internal_Remove parent_now remove_index))) (\<lambda>b5.
     Inr (page_dropped, b5))))))))))"

text \<open>The leaf branch of \<open>MergeOrRedistribute\<close> when an entry is borrowed from the sibling.\<close>

definition redistribute_leaves ::
  "page_id_t \<Rightarrow> BasicPageGuard \<Rightarrow> BasicPageGuard \<Rightarrow> BasicPageGuard
     \<Rightarrow> BufferPoolManager \<Rightarrow> error + (BasicPageGuard \<times> BufferPoolManager)" where
  "redistribute_leaves page_id' page_guard sibling_page_guard parent_page_guard b =
     ebind (read_internal b parent_page_guard) (\<lambda>parent_page.
     ebind (read_leaf b page_guard) (\<lambda>page.
     ebind (read_leaf b sibling_page_guard) (\<lambda>sibling_page.
     ebind (guard_frame page_guard) (\<lambda>pf.
     ebind (guard_frame sibling_page_guard) (\<lambda>sf.
     ebind (distinct_frames pf sf) (\<lambda>_.
     let node_in_parent_index = ValueIndex parent_page page_id';
         (key, sibling1, page1) =
            (if node_in_parent_index = 0 then leaf_MoveFrontTo sibling_page page
             else leaf_MoveEndTo sibling_page page);
         b1 = frame_write (frame_write b sf (Leaf sibling1)) pf (Leaf page1)
     in ebind (read_internal b1 parent_page_guard) (\<lambda>parent_now.
        ebind (guard_write b1 parent_page_guard
                 (Internal (SetKeyAt parent_now
                              (if node_in_parent_index = 0 then 1 else node_in_parent_index) key))) (\<lambda>b2.
        ebind (WritePageGuard_Drop b2 sibling_page_guard) (\<lambda>(_, b3).
        ebind (WritePageGuard_Drop b3 page_guard) (\<lambda>(page_dropped, b4).
        Inr (page_dropped, b4)))))))))))"

text \<open>The internal branch of \<open>MergeOrRedistribute\<close> when the two pages are merged.\<close>

definition merge_internals ::
  "bool \<Rightarrow> page_id_t \<Rightarrow> page_id_t \<Rightarrow> BasicPageGuard \<Rightarrow> BasicPageGuard \<Rightarrow> BasicPageGuard
     \<Rightarrow> BufferPoolManager \<Rightarrow> error + (BasicPageGuard \<times> BufferPoolManager)" where
  "merge_internals page_prev_sibling page_id' sibling_page_id page_guard sibling_page_guard
       parent_page_guard b =
     ebind (read_internal b parent_page_guard) (\<lambda>parent_page.
     ebind (read_internal b page_guard) (\<lambda>page.
     ebind (read_internal b sibling_page_guard) (\<lambda>sibling_page.
     ebind (guard_frame page_guard) (\<lambda>pf.
     ebind (guard_frame sibling_page_guard) (\<lambda>sf.
     ebind (distinct_frames pf sf) (\<lambda>_.
     ebind (if page_prev_sibling then
              (let remove_index = ValueIndex parent_page sibling_page_id in
               ebind (internal_MoveAll sibling_page page remove_index parent_page) (\<lambda>(sibling1, page1).
               let b1 = frame_write (frame_write b sf (Internal sibling1)) pf (Internal page1) in
               ebind (WritePageGuard_Drop b1 sibling_page_guard) (\<lambda>(_, b2).
               ebind (DeletePage b2 sibling_page_id) (\<lambda>(ok, b3).
               if \<not> ok then Inl (TreeException ''delete page error 2'')
               else ebind (WritePageGuard_Drop b3 page_guard) (\<lambda>(page_dropped, b4).
                    Inr (remove_index, page_dropped, b4))))))
            else
              (let remove_index = ValueIndex parent_page page_id' in
               ebind (internal_MoveAll page sibling_page remove_index parent_page) (\<lambda>(page1, sibling1).
               let b1 = frame_write (frame_write b pf (Internal page1)) sf (Internal sibling1) in
               ebind (WritePageGuard_Drop b1 page_guard) (\<lambda>(page_dropped, b2).
               ebind (DeletePage b2 page_id') (\<lambda>(ok, b3).
               if \<not> ok then Inl (TreeException ''delete page error 2'')
               else ebind (WritePageGuard_Drop b3 sibling_page_guard) (\<lambda>(_, b4).
                    Inr (remove_index, page_dropped, b4)))))))
       (\<lambda>(remove_index, page_dropped, b4).
     ebind (read_internal b4 parent_page_guard) (\<lambda>parent_now.
     ebind (guard_write b4 parent_page_guard (Internal (internal_Remove parent_now remove_index))) (\<lambda>b5.
     Inr (page_dropped, b5))))))))))"

text \<open>The internal branch of \<open>MergeOrRedistribute\<close> when an entry is borrowed from the sibling.\<close>

definition redistribute_internals ::
  "page_id_t \<Rightarrow> BasicPageGuard \<Rightarrow> BasicPageGuard \<Rightarrow> BasicPageGuard
     \<Rightarrow> BufferPoolManager \<Rightarrow> error + (BasicPageGuard \<times> BufferPoolManager)" where
  "redistribute_internals page_id' page_guard sibling_page_guard parent_page_guard b =
     ebind (read_internal b parent_page_guard) (\<lambda>parent_page.
     ebind (read_internal b page_guard) (\<lambda>page.
     ebind (read_internal b sibling_page_guard) (\<lambda>sibling_page.
     ebind (guard_frame page_guard) (\<lambda>pf.
     ebind (guard_frame sibling_page_guard) (\<lambda>sf.
     ebind (distinct_frames pf sf) (\<lambda>_.
     let node_in_parent_index = ValueIndex parent_page page_id';
         slot = (if node_in_parent_index = 0 then 1 else node_in_parent_index);
         parent_key = internal_KeyAt parent_page slot;
         (key, sibling1, page1) =
            (if node_in_parent_index = 0 then internal_MoveFrontTo sibling_page page parent_key
             else internal_MoveEndTo sibling_page page parent_key);
         b1 = frame_write (frame_write b sf (Internal sibling1)) pf (Internal page1)
     in ebind (read_internal b1 parent_page_guard) (\<lambda>parent_now.
        ebind (guard_write b1 parent_page_guard (Internal (SetKeyAt parent_now slot key))) (\<lambda>b2.
        ebind (WritePageGuard_Drop b2 sibling_page_guard) (\<lambda>(_, b3).
        ebind (WritePageGuard_Drop b3 page_guard) (\<lambda>(page_dropped, b4).
        Inr (page_dropped, b4)))))))))))"

text \<open>
  \<open>MergeOrRedistribute\<close> returns its result, the guard of the page, the write set and the
  context. The guard of the parent is a local of the call and is dropped at its end.
\<close>

fun MergeOrRedistribute ::
  "BasicPageGuard \<Rightarrow> BasicPageGuard list \<Rightarrow> Context \<Rightarrow> BufferPoolManager
     \<Rightarrow> error + (bool \<times> BasicPageGuard \<times> BasicPageGuard list \<times> Context \<times> BufferPoolManager)" where
  "MergeOrRedistribute page0 ws ctx b =
     (let page_guard = guard_GetDataMut page0 in
      ebind (read_tree_page b page_guard) (\<lambda>page_tmp.
      ebind (guard_PageId b page_guard) (\<lambda>page_id'.
      if IsRootPage ctx page_id' then
        ebind (RootAdjust page_guard ctx b) (\<lambda>(r, g, ctx1, b1). Inr (r, g, ws, ctx1, b1))
      else
        ebind (FindSibling page_guard ws b) (\<lambda>(page_prev_sibling, sibling0, b1).
        ebind (guard_PageId b1 sibling0) (\<lambda>sibling_page_id.
        case ws of
          [] \<Rightarrow> Inl (TreeException ''error 3'')
        | parent0 # rest \<Rightarrow>
            let parent_page_guard = guard_GetDataMut parent0;
                sibling_page_guard = guard_GetDataMut sibling0
            in
            if IsLeafPage page_tmp then
              ebind (read_leaf b1 page_guard) (\<lambda>page.
              ebind (read_leaf b1 sibling_page_guard) (\<lambda>sibling_page.
              if GetSize page + GetSize sibling_page < GetMaxSize page then
                ebind (merge_leaves page_prev_sibling page_id' sibling_page_id page_guard
                         sibling_page_guard parent_page_guard b1) (\<lambda>(page_dropped, b2).
                ebind (read_internal b2 parent_page_guard) (\<lambda>parent_page.
                if GetSize parent_page < GetMinSize parent_page then
                  ebind (MergeOrRedistribute parent_page_guard rest ctx b2) (\<lambda>(r, pg, ws1, ctx1, b3).
                  ebind (WritePageGuard_Drop b3 pg) (\<lambda>(_, b4).
                  Inr (r, page_dropped, ws1, ctx1, b4)))
                else
                  ebind (WritePageGuard_Drop b2 parent_page_guard) (\<lambda>(_, b3).
                  Inr (True, page_dropped, rest, ctx, b3))))
              else
                ebind (redistribute_leaves page_id' page_guard sibling_page_guard
                         parent_page_guard b1) (\<lambda>(page_dropped, b2).
                ebind (WritePageGuard_Drop b2 parent_page_guard) (\<lambda>(_, b3).
                Inr (True, page_dropped, rest, ctx, b3)))))
            else
              ebind (read_internal b1 page_guard) (\<lambda>page.
              ebind (read_internal b1 sibling_page_guard) (\<lambda>sibling_page.
              if GetSize page + GetSize sibling_page \<le> GetMaxSize page then
                ebind (merge_internals page_prev_sibling page_id' sibling_page_id page_guard
                         sibling_page_guard parent_page_guard b1) (\<lambda>(page_dropped, b2).
                ebind (read_internal b2 parent_page_guard) (\<lambda>parent_page.
                if GetSize parent_page < GetMinSize parent_page then
                  ebind (MergeOrRedistribute parent_page_guard rest ctx b2) (\<lambda>(r, pg, ws1, ctx1, b3).
                  ebind (WritePageGuard_Drop b3 pg) (\<lambda>(_, b4).
                  Inr (r, page_dropped, ws1, ctx1, b4)))
                else
                  ebind (WritePageGuard_Drop b2 parent_page_guard) (\<lambda>(_, b3).
                  Inr (True, page_dropped, rest, ctx, b3))))
              else
                ebind (redistribute_internals page_id' page_guard sibling_page_guard
                         parent_page_guard b1) (\<lambda>(page_dropped, b2).
                ebind (WritePageGuard_Drop b2 parent_page_guard) (\<lambda>(_, b3).
                Inr (False, page_dropped, rest, ctx, b3))))))))))"

declare MergeOrRedistribute.simps [simp del]

definition tree_Remove ::
  "nat \<Rightarrow> BPlusTree \<Rightarrow> BufferPoolManager \<Rightarrow> KeyType \<Rightarrow> error + BufferPoolManager" where
  "tree_Remove n t b key =
     ebind (FetchPageWrite b (header_page_id t)) (\<lambda>(header_guard, b1).
     ebind (read_header b1 header_guard) (\<lambda>root.
     ebind (WritePageGuard_Drop b1 header_guard) (\<lambda>(_, b2).
     if root = INVALID_PAGE_ID then Inr b2
     else
       ebind (FindLeafPageWriteInsertOrDelete n t b2 key False) (\<lambda>(ws, ctx, b3).
       case ws of
         [] \<Rightarrow> Inl (TreeException ''error 2'')
       | leaf_page_guard # ws1 \<Rightarrow>
           ebind (read_leaf b3 leaf_page_guard) (\<lambda>leaf_page.
           case RemoveRecord leaf_page key of
             (False, _) \<Rightarrow> destroy_all b3 leaf_page_guard ws1 ctx
           | (True, leaf_page1) \<Rightarrow>
               ebind (guard_write b3 leaf_page_guard (Leaf leaf_page1)) (\<lambda>b4.
               ebind (if GetSize leaf_page1 < GetMinSize leaf_page1
                      then ebind (MergeOrRedistribute leaf_page_guard ws1 ctx b4)
                             (\<lambda>(_, g, ws2, ctx2, b5). Inr (g, ws2, ctx2, b5))
                      else Inr (leaf_page_guard, ws1, ctx, b4)) (\<lambda>(g, ws2, ctx2, b5).
               ebind (drop_from_back b5 ws2) (\<lambda>b6.
               ebind (drop_header b6 ctx2) (\<lambda>(_, b7).
               ebind (WritePageGuard_Drop b7 g) (\<lambda>(_, b8). Inr b8))))))))))"

subsection \<open>Index iterator (src/storage/index/index\_iterator.cpp)\<close>

text \<open>
  The iterator keeps the members \<open>leaf_page_id_\<close>, \<open>leaf_page_\<close> and \<open>index_\<close>. \<open>leaf_page_\<close>
  is a raw pointer into the buffer of a frame and is modelled by the frame id; what the
  iterator reads through it is what the frame holds at that moment. The iterator has no
  guard among its members and its destructor is the default one.
\<close>

record IndexIterator =
  iter_leaf_page_id :: page_id_t
  iter_leaf_page :: frame_id_t
  iter_index :: int

definition iter_leaf :: "BufferPoolManager \<Rightarrow> IndexIterator \<Rightarrow> error + LeafPage" where
  "iter_leaf b it = as_leaf (data (pages b (iter_leaf_page it)))"

definition IsEnd :: "BufferPoolManager \<Rightarrow> IndexIterator \<Rightarrow> error + bool" where
  "IsEnd b it =
     ebind (iter_leaf b it) (\<lambda>leaf_page.
     Inr (GetNextPageId leaf_page = INVALID_PAGE_ID \<and> iter_index it = GetSize leaf_page))"

text \<open>\<open>operator*\<close>\<close>

definition operator_deref :: "BufferPoolManager \<Rightarrow> IndexIterator \<Rightarrow> error + MappingType" where
  "operator_deref b it = ebind (iter_leaf b it) (\<lambda>leaf_page. Inr (ArrayIt leaf_page (iter_index it)))"

text \<open>
  \<open>operator++\<close>. The guard that \<open>FetchPageBasic\<close> returns is a temporary: it is destroyed, and
  so dropped, at the end of the statement that takes the pointer out of it.
\<close>

definition operator_inc ::
  "BufferPoolManager \<Rightarrow> IndexIterator \<Rightarrow> error + (IndexIterator \<times> BufferPoolManager)" where
  "operator_inc b it =
     ebind (IsEnd b it) (\<lambda>at_end.
     if at_end then Inr (it, b)
     else
       let it1 = it\<lparr>iter_index := iter_index it + 1\<rparr> in
       ebind (iter_leaf b it1) (\<lambda>leaf_page.
       if iter_index it1 = GetSize leaf_page \<and> GetNextPageId leaf_page \<noteq> INVALID_PAGE_ID then
         let next_page_id' = GetNextPageId leaf_page in
         ebind (FetchPageBasic b next_page_id') (\<lambda>(next_guard, b1).
         ebind (read_leaf b1 next_guard) (\<lambda>_.
         ebind (guard_frame next_guard) (\<lambda>next_page.
         ebind (BasicPageGuard_Drop b1 next_guard) (\<lambda>(_, b2).
         Inr (it1\<lparr>iter_leaf_page := next_page, iter_index := 0\<rparr>, b2)))))
       else Inr (it1, b)))"

text \<open>\<open>BPlusTree::GetRootPageId\<close>, \<open>IsEmpty\<close> and \<open>Begin()\<close> of b\_plus\_tree.cpp.\<close>

definition GetRootPageId :: "BPlusTree \<Rightarrow> BufferPoolManager \<Rightarrow> error + (page_id_t \<times> BufferPoolManager)" where
  "GetRootPageId t b =
     ebind (FetchPageRead b (header_page_id t)) (\<lambda>(guard, b1).
     ebind (read_header b1 guard) (\<lambda>root.
     ebind (ReadPageGuard_Drop b1 guard) (\<lambda>(_, b2). Inr (root, b2))))"

definition IsEmpty :: "BPlusTree \<Rightarrow> BufferPoolManager \<Rightarrow> error + (bool \<times> BufferPoolManager)" where
  "IsEmpty t b = ebind (GetRootPageId t b) (\<lambda>(root, b1). Inr (root = INVALID_PAGE_ID, b1))"

fun Begin_loop ::
  "nat \<Rightarrow> BufferPoolManager \<Rightarrow> BasicPageGuard \<Rightarrow> error + (BasicPageGuard \<times> BufferPoolManager)" where
  "Begin_loop 0 b tmp = Inl OutOfFuel"
| "Begin_loop (Suc n) b tmp =
     ebind (read_tree_page b tmp) (\<lambda>page.
     if IsLeafPage page then Inr (tmp, b)
     else
       ebind (read_internal b tmp) (\<lambda>internal_page.
       let first_page_id = ValueAt internal_page 0 in
       ebind (FetchPageBasic b first_page_id) (\<lambda>(page_guard, b1).
       ebind (BasicPageGuard_Drop b1 tmp) (\<lambda>(_, b2).
       Begin_loop n b2 page_guard))))"

definition Begin :: "nat \<Rightarrow> BPlusTree \<Rightarrow> BufferPoolManager \<Rightarrow> error + (IndexIterator \<times> BufferPoolManager)" where
  "Begin n t b =
     ebind (IsEmpty t b) (\<lambda>(empty, b0).
     if empty then Inl (TreeException ''std::exception'')
     else
       ebind (FetchPageBasic b0 (header_page_id t)) (\<lambda>(head_page_guard, b1).
       ebind (read_header b1 head_page_guard) (\<lambda>root.
       ebind (FetchPageBasic b1 root) (\<lambda>(root_guard, b2).
       ebind (read_tree_page b2 root_guard) (\<lambda>_.
       ebind (Begin_loop n b2 root_guard) (\<lambda>(tmp, b3).
       ebind (read_leaf b3 tmp) (\<lambda>_.
       ebind (guard_frame tmp) (\<lambda>leaf_page.
       ebind (guard_PageId b3 tmp) (\<lambda>leaf_page_id.
       ebind (BasicPageGuard_Drop b3 tmp) (\<lambda>(_, b4).
       ebind (BasicPageGuard_Drop b4 head_page_guard) (\<lambda>(_, b5).
       Inr (\<lparr>iter_leaf_page_id = leaf_page_id, iter_leaf_page = leaf_page, iter_index = 0\<rparr>,
            b5))))))))))))"

subsection \<open>Runs of the tree\<close>

text \<open>
  A tree whose leaves and internal pages hold at most three entries, on a pool of ten
  frames with \<open>K = 2\<close>: page 0 is allocated for the header, where it stays pinned by the
  caller, and the tree is constructed on it. The descents of the runs get the bound 10 on
  the depth.
\<close>

definition tree33 :: BPlusTree where
  "tree33 = \<lparr>leaf_max_size = 3, internal_max_size = 3, header_page_id = 0\<rparr>"

definition new_tree :: "error + BufferPoolManager" where
  "new_tree =
     ebind (NewPage (BufferPoolManager_init 10 2)) (\<lambda>(_, b). BPlusTree_construct tree33 b)"

fun insert_all ::
  "(LeafPage \<Rightarrow> KeyType) \<Rightarrow> BufferPoolManager \<Rightarrow> (KeyType \<times> ValueType) list \<Rightarrow> error + (bool list \<times> BufferPoolManager)" where
  "insert_all front_key b [] = Inr ([], b)"
| "insert_all front_key b ((k, v) # kvs) =
     ebind (Insert 10 front_key tree33 b k v) (\<lambda>(r, b1).
     ebind (insert_all front_key b1 kvs) (\<lambda>(rs, b2). Inr (r # rs, b2)))"

text \<open>What a caller sees of a run: the results, without the pool.\<close>

definition result_of :: "error + ('a \<times> BufferPoolManager) \<Rightarrow> error + 'a" where
  "result_of m = ebind m (\<lambda>(r, _). Inr r)"

text \<open>\<open>Insert(k, v); GetValue(k)\<close> on the empty tree.\<close>

definition insert_get_run :: "(LeafPage \<Rightarrow> KeyType) \<Rightarrow> KeyType \<Rightarrow> ValueType \<Rightarrow> error + (bool \<times> ValueType option)" where
  "insert_get_run front_key k v =
     ebind new_tree (\<lambda>b.
     ebind (Insert 10 front_key tree33 b k v) (\<lambda>(r, b1).
     ebind (GetValue 10 tree33 b1 k) (\<lambda>(g, _). Inr (r, g))))"

text \<open>\<open>Insert(k, v); Remove(k); GetValue(k)\<close> on the empty tree.\<close>

definition insert_remove_run :: "(LeafPage \<Rightarrow> KeyType) \<Rightarrow> KeyType \<Rightarrow> ValueType \<Rightarrow> error + ValueType option" where
  "insert_remove_run front_key k v =
     ebind new_tree (\<lambda>b.
     ebind (Insert 10 front_key tree33 b k v) (\<lambda>(_, b1).
     ebind (tree_Remove 10 tree33 b1 k) (\<lambda>b2.
     result_of (GetValue 10 tree33 b2 k))))"

text \<open>\<open>Insert(k, v1); Insert(k, v2); GetValue(k)\<close> on the empty tree.\<close>

definition insert_twice_run ::
  "(LeafPage \<Rightarrow> KeyType) \<Rightarrow> KeyType \<Rightarrow> ValueType \<Rightarrow> ValueType \<Rightarrow> error + (bool \<times> ValueType option)" where
  "insert_twice_run front_key k v1 v2 =
     ebind new_tree (\<lambda>b.
     ebind (Insert 10 front_key tree33 b k v1) (\<lambda>(_, b1).
     ebind (Insert 10 front_key tree33 b1 k v2) (\<lambda>(r, b2).
     ebind (GetValue 10 tree33 b2 k) (\<lambda>(g, _). Inr (r, g)))))"

text \<open>
  The keys 1 and 2 in the tree, then \<open>Remove(1)\<close>, which leaves the root leaf with one
  entry, and \<open>GetValue\<close> of both keys.
\<close>

definition remove_one_of_two_run :: "(LeafPage \<Rightarrow> KeyType) \<Rightarrow> error + (ValueType option \<times> ValueType option)" where
  "remove_one_of_two_run front_key =
     ebind new_tree (\<lambda>b.
     ebind (insert_all front_key b [(1, 10), (2, 20)]) (\<lambda>(_, b1).
     ebind (tree_Remove 10 tree33 b1 1) (\<lambda>b2.
     ebind (GetValue 10 tree33 b2 1) (\<lambda>(g1, b3).
     ebind (GetValue 10 tree33 b3 2) (\<lambda>(g2, _). Inr (g1, g2))))))"

text \<open>
  The keys 1, 2 and 3 inserted in this order: the third insertion fills the root leaf,
  which is split. Every key goes behind the entries of its leaf, so that no insertion
  reads in front of the slots. \<open>leaf_of\<close> shows the entries and the next-pointer of a leaf.
\<close>

definition two_leaves :: "(LeafPage \<Rightarrow> KeyType) \<Rightarrow> error + BufferPoolManager" where
  "two_leaves front_key =
     ebind new_tree (\<lambda>b.
     ebind (insert_all front_key b [(1, 10), (2, 20), (3, 30)]) (\<lambda>(_, b1). Inr b1))"

definition pin_of :: "BufferPoolManager \<Rightarrow> page_id_t \<Rightarrow> int option" where
  "pin_of b pid = (case page_table b pid of None \<Rightarrow> None | Some f \<Rightarrow> Some (pin_count (pages b f)))"


text \<open>
  A scan of the two leaves: \<open>Begin()\<close> and \<open>n\<close> steps of \<open>operator++\<close>. \<open>scan_view\<close> shows the
  page id of the frame the iterator points to, its slot index, and the pin counts of the
  pages 1 and 2, which are the two leaves.
\<close>

fun steps :: "nat \<Rightarrow> IndexIterator \<times> BufferPoolManager \<Rightarrow> error + (IndexIterator \<times> BufferPoolManager)" where
  "steps 0 s = Inr s"
| "steps (Suc n) (it, b) = ebind (operator_inc b it) (steps n)"

definition scan :: "(LeafPage \<Rightarrow> KeyType) \<Rightarrow> nat \<Rightarrow> error + (IndexIterator \<times> BufferPoolManager)" where
  "scan front_key n = ebind (two_leaves front_key) (\<lambda>b. ebind (Begin 10 tree33 b) (steps n))"

definition scan_view ::
  "error + (IndexIterator \<times> BufferPoolManager) \<Rightarrow> error + (page_id_t \<times> int \<times> int option \<times> int option)" where
  "scan_view m =
     ebind m (\<lambda>(it, b). Inr (page_id (pages b (iter_leaf_page it)), iter_index it, pin_of b 1, pin_of b 2))"

text \<open>
  The third insertion of \<open>two_leaves\<close> up to its descent: the keys 1 and 2 are in the tree,
  the header page has been looked at and released, and the write set for key 3 is at hand.
\<close>

definition third_descent ::
  "(LeafPage \<Rightarrow> KeyType) \<Rightarrow> error + (BasicPageGuard list \<times> Context \<times> BufferPoolManager)" where
  "third_descent front_key =
     ebind new_tree (\<lambda>b.
     ebind (insert_all front_key b [(1, 10), (2, 20)]) (\<lambda>(_, b1).
     ebind (FetchPageWrite b1 (header_page_id tree33)) (\<lambda>(header0, b2).
     ebind (WritePageGuard_Drop b2 (guard_GetDataMut header0)) (\<lambda>(_, b3).
     FindLeafPageWriteInsertOrDelete 10 tree33 b3 3 True))))"

text \<open>
  A scan that is interrupted: after \<open>Begin()\<close> the caller allocates \<open>n\<close> new pages, which stay
  pinned, and then reads through the iterator. \<open>interrupted_scan\<close> shows what \<open>operator*\<close>
  returns before and after the allocations, and the page id of the frame the iterator
  points to at the end.
\<close>

fun allocate :: "nat \<Rightarrow> BufferPoolManager \<Rightarrow> error + BufferPoolManager" where
  "allocate 0 b = Inr b"
| "allocate (Suc n) b = ebind (NewPage b) (\<lambda>(_, b1). allocate n b1)"

definition interrupted_scan ::
  "(LeafPage \<Rightarrow> KeyType) \<Rightarrow> nat \<Rightarrow> error + (MappingType \<times> MappingType \<times> page_id_t)" where
  "interrupted_scan front_key n =
     ebind (two_leaves front_key) (\<lambda>b.
     ebind (Begin 10 tree33 b) (\<lambda>(it, b1).
     ebind (operator_deref b1 it) (\<lambda>first.
     ebind (allocate n b1) (\<lambda>b2.
     ebind (operator_deref b2 it) (\<lambda>again.
     Inr (first, again, page_id (pages b2 (iter_leaf_page it))))))))"

section \<open>Properties\<close>

subsection \<open>LRU-K replacer\<close>

lemma first_evictable_find:
  "set fs \<subseteq> dom (node_store s) \<Longrightarrow>
   first_evictable (node_store s) fs = Inr (find (frame_evictable s) fs)"
  by (induction fs) (auto simp: GetEvictable_def frame_evictable_def split: option.splits)

lemma find_append2:
  "find P (xs @ ys) = (case find P xs of None \<Rightarrow> find P ys | Some x \<Rightarrow> Some x)"
  by (induction xs) auto

lemma card_word32_le: "card (A :: 32 word set) \<le> 2 ^ 32"
proof -
  have "card A \<le> card (UNIV :: 32 word set)"
    by (rule card_mono) auto
  then show ?thesis by (simp add: card_word)
qed

lemma of_nat_64_zero:
  assumes "n \<le> 2 ^ 32"
  shows "(of_nat n :: 64 word) = 0 \<longleftrightarrow> n = 0"
proof
  assume "(of_nat n :: 64 word) = 0"
  then have "unat (of_nat n :: 64 word) = 0" by simp
  moreover have "n < 2 ^ 64" using assms by (rule le_less_trans) simp
  ultimately show "n = 0" by (simp add: unat_of_nat)
qed simp

lemma counter_zero_iff:
  "inv_counter s \<Longrightarrow> evictable_size s = 0 \<longleftrightarrow> (\<forall>f. \<not> frame_evictable s f)"
proof -
  assume a: "inv_counter s"
  have fin: "finite {f. frame_evictable s f}" by simp
  have "evictable_size s = 0 \<longleftrightarrow> card {f. frame_evictable s f} = 0"
    using a card_word32_le [of "{f. frame_evictable s f}"]
    by (simp add: inv_counter_def of_nat_64_zero)
  also have "\<dots> \<longleftrightarrow> {f. frame_evictable s f} = {}"
    using fin by simp
  finally show ?thesis by auto
qed

lemma cache_erase_notin: "f \<notin> fst ` set ps \<Longrightarrow> cache_erase f ps = ps"
  by (induction ps) auto

lemma cache_erase_filter:
  "distinct (map fst ps) \<Longrightarrow> cache_erase f ps = filter (\<lambda>p. fst p \<noteq> f) ps"
proof (induction ps)
  case Nil
  then show ?case by simp
next
  case (Cons p ps)
  show ?case
  proof (cases "fst p = f")
    case True
    with Cons.prems have "f \<notin> fst ` set ps" by auto
    then have "filter (\<lambda>q. fst q \<noteq> f) ps = ps"
      by (intro filter_True) auto
    with True show ?thesis by simp
  next
    case False
    with Cons show ?thesis by simp
  qed
qed

lemma find_None_all: "find P xs = None \<longleftrightarrow> (\<forall>x\<in>set xs. \<not> P x)"
  by (induction xs) auto

lemma find_Some_in: "find P xs = Some x \<Longrightarrow> x \<in> set xs \<and> P x"
  by (induction xs) (auto split: if_splits)

lemma Evict_under_inv:
  assumes "inv_pools s" "inv_counter s"
  shows "Evict s = Inr (evict_result s)"
proof -
  have d: "distinct (temp_pool s @ map fst (cache_pool s))"
    and dom: "set (temp_pool s) \<union> fst ` set (cache_pool s) = dom (node_store s)"
    using assms(1) by (auto simp: inv_pools_def tracked_def)
  have t: "first_evictable (node_store s) (temp_pool s) = Inr (find (frame_evictable s) (temp_pool s))"
    using dom by (intro first_evictable_find) auto
  have c: "first_evictable (node_store s) (map fst (cache_pool s)) =
           Inr (find (frame_evictable s) (map fst (cache_pool s)))"
    using dom by (intro first_evictable_find) auto
  show ?thesis
  proof (cases "evictable_size s = 0")
    case True
    then have "\<forall>f. \<not> frame_evictable s f"
      using counter_zero_iff [OF assms(2)] by simp
    then have "find (frame_evictable s) (temp_pool s @ map fst (cache_pool s)) = None"
      by (simp add: find_None_all)
    with True show ?thesis by (simp add: Evict_def evict_result_def)
  next
    case False
    show ?thesis
    proof (cases "find (frame_evictable s) (temp_pool s)")
      case (Some f)
      then have "f \<in> set (temp_pool s)" by (auto dest: find_Some_in)
      with d have nc: "f \<notin> fst ` set (cache_pool s)" by auto
      have "distinct (temp_pool s)" using d by simp
      then have r: "remove1 f (temp_pool s) = removeAll f (temp_pool s)"
        by (simp add: distinct_remove1_removeAll)
      have "filter (\<lambda>p. fst p \<noteq> f) (cache_pool s) = cache_pool s"
        using nc by (intro filter_True) auto
      then have "evict_from_temp s f = forget_frame s f"
        by (simp add: evict_from_temp_def forget_frame_def r)
      with False Some t show ?thesis
        by (simp add: Evict_def evict_result_def find_append2)
    next
      case None
      show ?thesis
      proof (cases "find (frame_evictable s) (map fst (cache_pool s))")
        case n2: None
        with False None t c show ?thesis
          by (simp add: Evict_def evict_result_def find_append2)
      next
        case (Some f)
        then have "f \<in> fst ` set (cache_pool s)" by (auto dest: find_Some_in)
        with d have nt: "f \<notin> set (temp_pool s)" by auto
        have "distinct (map fst (cache_pool s))" using d by simp
        then have e: "cache_erase f (cache_pool s) = filter (\<lambda>p. fst p \<noteq> f) (cache_pool s)"
          by (rule cache_erase_filter)
        have "removeAll f (temp_pool s) = temp_pool s" using nt by simp
        then have "evict_from_cache s f = forget_frame s f"
          by (simp add: evict_from_cache_def forget_frame_def e)
        with False None Some t c show ?thesis
          by (simp add: Evict_def evict_result_def find_append2)
      qed
    qed
  qed
qed

lemma set_cache_insert [simp]: "set (cache_insert p ps) = insert p (set ps)"
  by (induction ps) auto

lemma sorted_cache_insert:
  "sorted (map snd ps) \<Longrightarrow> sorted (map snd (cache_insert p ps))"
  by (induction ps) (auto simp: less_imp_le)

lemma distinct_cache_insert:
  "distinct (map fst (cache_insert p ps)) \<longleftrightarrow> fst p \<notin> fst ` set ps \<and> distinct (map fst ps)"
  by (induction ps) auto

lemma inv_init: "2 \<le> k \<Longrightarrow> replacer_inv (LRUKReplacer_init n k)"
  by (simp add: replacer_inv_def LRUKReplacer_init_def inv_pools_def inv_counter_def inv_nodes_def
      inv_young_def inv_mature_def tracked_def frame_evictable_def)

lemma frame_evictable_cong:
  "(\<And>g. map_option is_evictable (node_store s' g) = map_option is_evictable (node_store s g) \<or>
        (node_store s g = None \<and> (\<exists>n. node_store s' g = Some n \<and> \<not> is_evictable n)))
   \<Longrightarrow> frame_evictable s' = frame_evictable s"
proof (rule ext)
  fix g
  assume a: "\<And>g. map_option is_evictable (node_store s' g) = map_option is_evictable (node_store s g) \<or>
        (node_store s g = None \<and> (\<exists>n. node_store s' g = Some n \<and> \<not> is_evictable n))"
  show "frame_evictable s' g = frame_evictable s g"
    using a [of g] by (auto simp: frame_evictable_def split: option.splits)
qed

lemma inv_pools_mem:
  assumes "inv_pools s"
  shows "(g \<in> set (temp_pool s) \<or> g \<in> fst ` set (cache_pool s)) \<longleftrightarrow> node_store s g \<noteq> None"
proof -
  have "g \<in> set (tracked s) \<longleftrightarrow> g \<in> dom (node_store s)"
    using assms by (simp add: inv_pools_def)
  then show ?thesis by (auto simp: tracked_def dom_def)
qed

lemma first_access_le:
  assumes "inv_nodes s" "node_store s g = Some n"
  shows "first_access s g \<le> current_timestamp s"
proof -
  have "history n \<noteq> []" using assms by (auto simp: inv_nodes_def)
  then have "last (history n) \<in> set (history n)" by simp
  then show ?thesis using assms by (auto simp: inv_nodes_def first_access_def)
qed

lemma RecordAccess_new:
  assumes inv: "replacer_inv s" and none: "node_store s f = None"
    and s': "s' = s\<lparr>current_timestamp := current_timestamp s + 1,
                    node_store := (node_store s)(f \<mapsto> PushFront (new_LRUKNode (replacer_k s) f) (current_timestamp s + 1)),
                    temp_pool := temp_pool s @ [f]\<rparr>"
  shows "replacer_inv s'"
proof -
  let ?N = "PushFront (new_LRUKNode (replacer_k s) f) (current_timestamp s + 1)"
  have k: "2 \<le> replacer_k s" and p: "inv_pools s" and c: "inv_counter s" and n: "inv_nodes s"
    and y: "inv_young s" and m: "inv_mature s"
    using inv by (auto simp: replacer_inv_def)
  have hN: "history ?N = [current_timestamp s + 1]" "node_k ?N = replacer_k s" "\<not> is_evictable ?N"
    using k by (auto simp: PushFront_def new_LRUKNode_def)
  have fnot: "f \<notin> set (temp_pool s)" "f \<notin> fst ` set (cache_pool s)"
    using inv_pools_mem [OF p, of f] none by auto
  have 1: "inv_pools s'"
    using p fnot by (auto simp: inv_pools_def tracked_def s')
  have "frame_evictable s' = frame_evictable s"
    by (rule frame_evictable_cong) (use none hN in \<open>auto simp: s'\<close>)
  then have 2: "inv_counter s'"
    using c by (simp add: inv_counter_def s')
  have 3: "inv_nodes s'"
    using n hN by (auto simp: inv_nodes_def s' intro: le_SucI)
  have fa: "\<And>g. g \<noteq> f \<Longrightarrow> first_access s' g = first_access s g"
    by (simp add: first_access_def s')
  have fa_f: "first_access s' f = current_timestamp s + 1"
    using hN by (simp add: first_access_def s')
  have fa_old: "\<And>g. g \<in> set (temp_pool s) \<Longrightarrow> first_access s' g = first_access s g"
  proof -
    fix g assume "g \<in> set (temp_pool s)"
    then have "g \<noteq> f" using fnot by auto
    then show "first_access s' g = first_access s g" by (rule fa)
  qed
  have meq: "map (first_access s') (temp_pool s) = map (first_access s) (temp_pool s)"
    by (rule map_cong [OF refl]) (rule fa_old)
  have lt: "\<And>g. g \<in> set (temp_pool s) \<Longrightarrow> first_access s' g < first_access s' f"
  proof -
    fix g assume g: "g \<in> set (temp_pool s)"
    then obtain ng where "node_store s g = Some ng"
      using inv_pools_mem [OF p, of g] by auto
    from first_access_le [OF n this] show "first_access s' g < first_access s' f"
      using fa_old [OF g] fa_f by simp
  qed
  have "sorted_wrt (<) (map (first_access s') (temp_pool s))"
    using y by (simp only: meq inv_young_def)
  then have so: "sorted_wrt (<) (map (first_access s') (temp_pool s @ [f]))"
    using lt by (simp add: sorted_wrt_append)
  have 4: "inv_young s'"
    using y k hN fnot so by (auto simp: inv_young_def s')
  have 5: "inv_mature s'"
    using m fnot by (auto simp: inv_mature_def s')
  show ?thesis using k 1 2 3 4 5 by (simp add: replacer_inv_def s')
qed

lemma sorted_wrt_remove1_map:
  "sorted_wrt R (map h xs) \<Longrightarrow> sorted_wrt R (map h (remove1 x xs))"
  by (induction xs) auto

lemma set_cache_erase_subset: "set (cache_erase f ps) \<subseteq> set ps"
  by (induction ps) auto

lemma sorted_cache_erase: "sorted (map snd ps) \<Longrightarrow> sorted (map snd (cache_erase f ps))"
  by (induction ps) (use set_cache_erase_subset in \<open>auto 4 3\<close>)

lemma PushFront_young:
  assumes "node_k n = k" "length (history n) < k"
  shows "history (PushFront n ts) = ts # history n" "node_k (PushFront n ts) = k"
    "is_evictable (PushFront n ts) = is_evictable n"
  using assms by (auto simp: PushFront_def)

lemma PushFront_mature:
  assumes "node_k n = k" "length (history n) = k" "0 < k"
  shows "history (PushFront n ts) = ts # butlast (history n)" "node_k (PushFront n ts) = k"
    "is_evictable (PushFront n ts) = is_evictable n" "length (history (PushFront n ts)) = k"
  using assms by (auto simp: PushFront_def butlast_conv_take take_Cons')

lemma RecordAccess_young:
  assumes inv: "replacer_inv s" and some: "node_store s f = Some n" and ft: "f \<in> set (temp_pool s)"
    and n': "n' = PushFront n (current_timestamp s + 1)"
    and s': "s' = (if BackK n' \<noteq> 0
                  then s\<lparr>current_timestamp := current_timestamp s + 1,
                         node_store := (node_store s)(f \<mapsto> n'),
                         temp_pool := remove1 f (temp_pool s),
                         cache_pool := cache_insert (f, BackK n') (cache_pool s)\<rparr>
                  else s\<lparr>current_timestamp := current_timestamp s + 1,
                         node_store := (node_store s)(f \<mapsto> n')\<rparr>)"
  shows "replacer_inv s'"
proof -
  let ?ts = "current_timestamp s + 1"
  have k: "2 \<le> replacer_k s" and p: "inv_pools s" and c: "inv_counter s" and nd: "inv_nodes s"
    and y: "inv_young s" and m: "inv_mature s"
    using inv by (auto simp: replacer_inv_def)
  have nk: "node_k n = replacer_k s" and hne: "history n \<noteq> []"
    and hts: "\<forall>t\<in>set (history n). 0 < t \<and> t \<le> current_timestamp s"
    using nd some by (auto simp: inv_nodes_def)
  have hl: "length (history n) < replacer_k s"
    using y ft some by (auto simp: inv_young_def)
  note pf = PushFront_young [OF nk hl, of ?ts, folded n']
  have d: "distinct (temp_pool s)" "distinct (map fst (cache_pool s))"
    and fc: "f \<notin> fst ` set (cache_pool s)"
    using p ft by (auto simp: inv_pools_def tracked_def)
  have ev: "frame_evictable s' = frame_evictable s"
    by (rule frame_evictable_cong) (use some pf in \<open>auto simp: s'\<close>)
  have cs: "evictable_size s' = evictable_size s" by (simp add: s')
  have 2: "inv_counter s'"
    using c by (simp add: inv_counter_def ev cs)
  have ns': "node_store s' = (node_store s)(f \<mapsto> n')" and ct': "current_timestamp s' = ?ts"
    and k': "replacer_k s' = replacer_k s"
    by (auto simp: s')
  have 3: "inv_nodes s'"
    unfolding inv_nodes_def ns' ct' k'
    using nd pf hts nk by (auto simp: inv_nodes_def intro: le_SucI)
  have fa: "\<And>g. g \<noteq> f \<Longrightarrow> first_access s' g = first_access s g"
    by (simp add: first_access_def ns')
  have fa_f: "first_access s' f = first_access s f"
    using pf hne some by (simp add: first_access_def ns')
  have fa_all: "first_access s' = first_access s"
    by (rule ext) (use fa fa_f in metis)
  have bk: "BackK n' = (if replacer_k s \<le> Suc (length (history n)) then (?ts # history n) ! (replacer_k s - 1) else 0)"
    using k pf by (simp add: BackK_def)
  show ?thesis
  proof (cases "BackK n' \<noteq> 0")
    case True
    then have s'': "s' = s\<lparr>current_timestamp := ?ts, node_store := (node_store s)(f \<mapsto> n'),
                         temp_pool := remove1 f (temp_pool s),
                         cache_pool := cache_insert (f, BackK n') (cache_pool s)\<rparr>"
      by (simp add: s')
    from True bk have len: "length (history n') = replacer_k s"
      using hl pf by (auto split: if_splits)
    have 1: "inv_pools s'"
      unfolding inv_pools_def tracked_def
    proof
      show "distinct (temp_pool s' @ map fst (cache_pool s'))"
        using p d fc ft
        by (auto simp: s'' inv_pools_def tracked_def distinct_cache_insert dest: notin_set_remove1)
      show "set (temp_pool s' @ map fst (cache_pool s')) = dom (node_store s')"
        using p d ft by (auto simp: s'' inv_pools_def tracked_def)
    qed
    have 4: "inv_young s'"
      unfolding inv_young_def
    proof
      show "\<forall>g\<in>set (temp_pool s'). \<forall>n. node_store s' g = Some n \<longrightarrow> length (history n) < replacer_k s'"
        using y d by (auto simp: s'' inv_young_def)
      have "temp_pool s' = remove1 f (temp_pool s)" by (simp add: s'')
      then show "sorted_wrt (<) (map (first_access s') (temp_pool s'))"
        unfolding fa_all using y by (simp add: inv_young_def sorted_wrt_remove1_map)
    qed
    have 5: "inv_mature s'"
      unfolding inv_mature_def
    proof
      show "\<forall>p\<in>set (cache_pool s'). \<forall>n. node_store s' (fst p) = Some n \<longrightarrow>
              length (history n) = replacer_k s' \<and> snd p = BackK n"
        using m fc len by (auto simp: s'' inv_mature_def)
      show "sorted (map snd (cache_pool s'))"
        using m by (simp add: s'' inv_mature_def sorted_cache_insert)
    qed
    show ?thesis using k 1 2 3 4 5 by (simp add: replacer_inv_def k')
  next
    case False
    then have s'': "s' = s\<lparr>current_timestamp := ?ts, node_store := (node_store s)(f \<mapsto> n')\<rparr>"
      by (simp add: s')
    have "0 < (?ts # history n) ! (replacer_k s - 1)" if "replacer_k s \<le> Suc (length (history n))"
    proof -
      have "(?ts # history n) ! (replacer_k s - 1) \<in> set (?ts # history n)"
        using that k by (intro nth_mem) simp
      then show ?thesis using hts by auto
    qed
    with False bk have len: "length (history n') < replacer_k s"
      using pf by (auto split: if_splits)
    have 1: "inv_pools s'"
      using p some by (auto simp: inv_pools_def tracked_def s'')
    have 4: "inv_young s'"
      unfolding inv_young_def
    proof
      show "\<forall>g\<in>set (temp_pool s'). \<forall>n. node_store s' g = Some n \<longrightarrow> length (history n) < replacer_k s'"
        using y len by (auto simp: s'' inv_young_def)
      have "temp_pool s' = temp_pool s" by (simp add: s'')
      then show "sorted_wrt (<) (map (first_access s') (temp_pool s'))"
        unfolding fa_all using y by (simp add: inv_young_def)
    qed
    have 5: "inv_mature s'"
      using m fc by (auto simp: s'' inv_mature_def)
    show ?thesis using k 1 2 3 4 5 by (simp add: replacer_inv_def k')
  qed
qed

lemma RecordAccess_mature:
  assumes inv: "replacer_inv s" and some: "node_store s f = Some n"
    and ft: "f \<notin> set (temp_pool s)" and fc: "f \<in> fst ` set (cache_pool s)"
    and n': "n' = PushFront n (current_timestamp s + 1)"
    and s': "s' = s\<lparr>current_timestamp := current_timestamp s + 1,
                    node_store := (node_store s)(f \<mapsto> n'),
                    cache_pool := cache_insert (f, BackK n') (cache_erase f (cache_pool s))\<rparr>"
  shows "replacer_inv s'"
proof -
  let ?ts = "current_timestamp s + 1"
  have k: "2 \<le> replacer_k s" and p: "inv_pools s" and c: "inv_counter s" and nd: "inv_nodes s"
    and y: "inv_young s" and m: "inv_mature s"
    using inv by (auto simp: replacer_inv_def)
  have nk: "node_k n = replacer_k s" and hne: "history n \<noteq> []"
    and hts: "\<forall>t\<in>set (history n). 0 < t \<and> t \<le> current_timestamp s"
    using nd some by (auto simp: inv_nodes_def)
  have hl: "length (history n) = replacer_k s"
    using m fc some by (auto simp: inv_mature_def)
  have k0: "0 < replacer_k s" using k by simp
  note pf = PushFront_mature [OF nk hl k0, of ?ts, folded n']
  have d: "distinct (temp_pool s)" "distinct (map fst (cache_pool s))"
    "set (temp_pool s) \<inter> fst ` set (cache_pool s) = {}"
    using p by (auto simp: inv_pools_def tracked_def)
  have er: "cache_erase f (cache_pool s) = filter (\<lambda>p. fst p \<noteq> f) (cache_pool s)"
    by (rule cache_erase_filter [OF d(2)])
  have ev: "frame_evictable s' = frame_evictable s"
    by (rule frame_evictable_cong) (use some pf in \<open>auto simp: s'\<close>)
  have cs: "evictable_size s' = evictable_size s" by (simp add: s')
  have 2: "inv_counter s'"
    using c by (simp add: inv_counter_def ev cs)
  have ns': "node_store s' = (node_store s)(f \<mapsto> n')" and ct': "current_timestamp s' = ?ts"
    and k': "replacer_k s' = replacer_k s" and tp': "temp_pool s' = temp_pool s"
    and cp': "cache_pool s' = cache_insert (f, BackK n') (filter (\<lambda>p. fst p \<noteq> f) (cache_pool s))"
    by (auto simp: s' er)
  have "set (butlast (history n)) \<subseteq> set (history n)"
    by (auto dest: in_set_butlastD)
  then have 3: "inv_nodes s'"
    unfolding inv_nodes_def ns' ct' k'
    using nd pf(1,2) hts nk by (auto simp: inv_nodes_def intro: le_SucI)
  have 1: "inv_pools s'"
    unfolding inv_pools_def tracked_def
  proof
    show "distinct (temp_pool s' @ map fst (cache_pool s'))"
      using d ft by (auto simp: tp' cp' distinct_cache_insert distinct_map_filter)
    have "set (temp_pool s) \<union> fst ` set (cache_pool s) = dom (node_store s)"
      using p by (auto simp: inv_pools_def tracked_def)
    then show "set (temp_pool s' @ map fst (cache_pool s')) = dom (node_store s')"
      using fc some by (auto simp: tp' cp' ns' rev_image_eqI)
  qed
  have fa: "\<And>g. g \<in> set (temp_pool s) \<Longrightarrow> first_access s' g = first_access s g"
    using ft by (auto simp: first_access_def ns')
  have meq: "map (first_access s') (temp_pool s) = map (first_access s) (temp_pool s)"
    by (rule map_cong [OF refl]) (rule fa)
  have 4: "inv_young s'"
    unfolding inv_young_def tp' meq
    using y ft by (auto simp: inv_young_def ns' k')
  have 5: "inv_mature s'"
    unfolding inv_mature_def
  proof
    show "\<forall>p\<in>set (cache_pool s'). \<forall>n. node_store s' (fst p) = Some n \<longrightarrow>
            length (history n) = replacer_k s' \<and> snd p = BackK n"
      using m pf(4) by (auto simp: cp' ns' k' inv_mature_def)
    have "sorted (map snd (filter (\<lambda>p. fst p \<noteq> f) (cache_pool s)))"
      using m by (simp add: inv_mature_def sorted_filter)
    then show "sorted (map snd (cache_pool s'))"
      by (simp add: cp' sorted_cache_insert)
  qed
  show ?thesis using k 1 2 3 4 5 by (simp add: replacer_inv_def k')
qed

lemma RecordAccess_inv:
  assumes inv: "replacer_inv s" and ra: "RecordAccess s f = Inr s'"
  shows "replacer_inv s'"
proof (cases "node_store s f")
  case None
  with ra have "s' = s\<lparr>current_timestamp := current_timestamp s + 1,
                    node_store := (node_store s)(f \<mapsto> PushFront (new_LRUKNode (replacer_k s) f) (current_timestamp s + 1)),
                    temp_pool := temp_pool s @ [f]\<rparr>"
    by (auto simp: RecordAccess_def BUSTUB_ENSURE_def Let_def split: if_splits)
  from RecordAccess_new [OF inv None this] show ?thesis .
next
  case (Some n)
  define n' where "n' = PushFront n (current_timestamp s + 1)"
  show ?thesis
  proof (cases "f \<in> set (temp_pool s)")
    case True
    with ra Some have "s' = (if BackK n' \<noteq> 0
                  then s\<lparr>current_timestamp := current_timestamp s + 1,
                         node_store := (node_store s)(f \<mapsto> n'),
                         temp_pool := remove1 f (temp_pool s),
                         cache_pool := cache_insert (f, BackK n') (cache_pool s)\<rparr>
                  else s\<lparr>current_timestamp := current_timestamp s + 1,
                         node_store := (node_store s)(f \<mapsto> n')\<rparr>)"
      by (auto simp: RecordAccess_def BUSTUB_ENSURE_def Let_def n'_def split: if_splits)
    from RecordAccess_young [OF inv Some True n'_def this] show ?thesis .
  next
    case False
    with ra Some have fc: "f \<in> fst ` set (cache_pool s)"
      and "s' = s\<lparr>current_timestamp := current_timestamp s + 1,
                    node_store := (node_store s)(f \<mapsto> n'),
                    cache_pool := cache_insert (f, BackK n') (cache_erase f (cache_pool s))\<rparr>"
      by (auto simp: RecordAccess_def BUSTUB_ENSURE_def Let_def n'_def split: if_splits)
    from RecordAccess_mature [OF inv Some False fc n'_def this(2)] show ?thesis .
  qed
qed

lemma finite_evictable: "finite {f. frame_evictable s f}"
  by simp

lemma flag_update_inv:
  assumes inv: "replacer_inv s" and some: "node_store s f = Some n" and ne: "is_evictable n \<noteq> b"
    and ns: "node_store s' = (node_store s)(f \<mapsto> n\<lparr>is_evictable := b\<rparr>)"
    and es: "evictable_size s' = (if b then evictable_size s + 1 else evictable_size s - 1)"
    and same: "temp_pool s' = temp_pool s" "cache_pool s' = cache_pool s"
      "current_timestamp s' = current_timestamp s" "replacer_k s' = replacer_k s"
  shows "replacer_inv s'"
proof -
  have k: "2 \<le> replacer_k s" and p: "inv_pools s" and c: "inv_counter s" and nd: "inv_nodes s"
    and y: "inv_young s" and m: "inv_mature s"
    using inv by (auto simp: replacer_inv_def)
  have "dom (node_store s') = dom (node_store s)"
    using some by (auto simp: ns)
  then have 1: "inv_pools s'"
    using p by (simp add: inv_pools_def tracked_def same)
  have 3: "inv_nodes s'"
    unfolding inv_nodes_def ns same
    using nd some by (auto simp: inv_nodes_def)
  have "first_access s' = first_access s"
  proof (rule ext)
    fix g show "first_access s' g = first_access s g"
      using some by (cases "g = f") (simp_all add: first_access_def ns)
  qed
  then have 4: "inv_young s'"
    unfolding inv_young_def ns same
    using y some by (auto simp: inv_young_def)
  have 5: "inv_mature s'"
    unfolding inv_mature_def ns same
    using m some by (auto simp: inv_mature_def BackK_def)
  have fe: "\<And>g. frame_evictable s' g = (if g = f then b else frame_evictable s g)"
    by (simp add: frame_evictable_def ns)
  have fs: "frame_evictable s f = (\<not> b)"
    using some ne by (auto simp: frame_evictable_def)
  have 2: "inv_counter s'"
  proof (cases b)
    case True
    have "{g. frame_evictable s' g} = insert f {g. frame_evictable s g}"
      using True by (auto simp: fe)
    moreover have "f \<notin> {g. frame_evictable s g}"
      using True fs by simp
    ultimately have "card {g. frame_evictable s' g} = Suc (card {g. frame_evictable s g})"
      using finite_evictable [of s] by simp
    with True c show ?thesis by (simp add: inv_counter_def es)
  next
    case False
    have eq: "{g. frame_evictable s' g} = {g. frame_evictable s g} - {f}"
      using False by (auto simp: fe)
    have "f \<in> {g. frame_evictable s g}"
      using False fs by simp
    then have "Suc (card ({g. frame_evictable s g} - {f})) = card {g. frame_evictable s g}"
      by (intro card_Suc_Diff1 finite_evictable)
    then have "card {g. frame_evictable s g} = Suc (card {g. frame_evictable s' g})"
      by (simp only: eq)
    with False c show ?thesis by (simp add: inv_counter_def es)
  qed
  show ?thesis using k 1 2 3 4 5 by (simp add: replacer_inv_def same)
qed

lemma SetEvictable_inv:
  assumes inv: "replacer_inv s" and se: "SetEvictable s f b = Inr s'"
  shows "replacer_inv s'"
proof (cases "node_store s f")
  case None
  with se have "s' = s" by (auto simp: SetEvictable_def BUSTUB_ENSURE_def split: if_splits)
  with inv show ?thesis by simp
next
  case (Some n)
  show ?thesis
  proof (cases "is_evictable n = b")
    case True
    with se Some have "s' = s"
      by (auto simp: SetEvictable_def BUSTUB_ENSURE_def GetEvictable_def split: if_splits)
    with inv show ?thesis by simp
  next
    case False
    from False se Some have s': "s' = s\<lparr>node_store := (node_store s)(f \<mapsto> n\<lparr>is_evictable := b\<rparr>),
         evictable_size := (if b then evictable_size s + 1 else evictable_size s - 1)\<rparr>"
      by (auto simp: SetEvictable_def BUSTUB_ENSURE_def GetEvictable_def node_SetEvictable_def split: if_splits)
    show ?thesis
      by (rule flag_update_inv [OF inv Some False]) (simp_all add: s')
  qed
qed

lemma forget_frame_inv:
  assumes inv: "replacer_inv s" and ev: "frame_evictable s f"
  shows "replacer_inv (forget_frame s f)"
proof -
  let ?s = "forget_frame s f"
  have k: "2 \<le> replacer_k s" and p: "inv_pools s" and c: "inv_counter s" and nd: "inv_nodes s"
    and y: "inv_young s" and m: "inv_mature s"
    using inv by (auto simp: replacer_inv_def)
  have 1: "inv_pools ?s"
    unfolding inv_pools_def tracked_def
  proof
    show "distinct (temp_pool ?s @ map fst (cache_pool ?s))"
      using p by (auto simp: forget_frame_def inv_pools_def tracked_def distinct_map_filter distinct_removeAll)
    have "set (temp_pool s) \<union> fst ` set (cache_pool s) = dom (node_store s)"
      using p by (auto simp: inv_pools_def tracked_def)
    then show "set (temp_pool ?s @ map fst (cache_pool ?s)) = dom (node_store ?s)"
      by (auto simp: forget_frame_def)
  qed
  have eq: "{g. frame_evictable ?s g} = {g. frame_evictable s g} - {f}"
    by (auto simp: frame_evictable_def forget_frame_def split: option.splits if_splits)
  have "f \<in> {g. frame_evictable s g}"
    using ev by simp
  then have "Suc (card ({g. frame_evictable s g} - {f})) = card {g. frame_evictable s g}"
    by (intro card_Suc_Diff1 finite_evictable)
  then have "card {g. frame_evictable s g} = Suc (card {g. frame_evictable ?s g})"
    by (simp only: eq)
  moreover define N where "N = card {g. frame_evictable ?s g}"
  ultimately have "evictable_size s = of_nat (Suc N)"
    using c by (simp add: inv_counter_def)
  then have "evictable_size s - 1 = of_nat N" by simp
  moreover have "evictable_size ?s = evictable_size s - 1" by (simp add: forget_frame_def)
  ultimately have 2: "inv_counter ?s"
    unfolding inv_counter_def N_def by simp
  have 3: "inv_nodes ?s"
    using nd by (auto simp: inv_nodes_def forget_frame_def split: if_splits)
  have fa: "\<And>g. g \<in> set (removeAll f (temp_pool s)) \<Longrightarrow> first_access ?s g = first_access s g"
    by (auto simp: first_access_def forget_frame_def)
  have meq: "map (first_access ?s) (removeAll f (temp_pool s)) = map (first_access s) (removeAll f (temp_pool s))"
    by (rule map_cong [OF refl]) (rule fa)
  have "sorted_wrt (<) (map (first_access s) (removeAll f (temp_pool s)))"
    using y by (simp add: inv_young_def removeAll_filter_not_eq sorted_wrt_map sorted_wrt_filter)
  then have so: "sorted_wrt (<) (map (first_access ?s) (removeAll f (temp_pool s)))"
    by (simp only: meq)
  have tp: "temp_pool ?s = removeAll f (temp_pool s)" by (simp add: forget_frame_def)
  have 4: "inv_young ?s"
    unfolding inv_young_def tp
  proof
    show "\<forall>g\<in>set (removeAll f (temp_pool s)). \<forall>n. node_store ?s g = Some n \<longrightarrow>
            length (history n) < replacer_k ?s"
      using y by (auto simp: forget_frame_def inv_young_def)
    show "sorted_wrt (<) (map (first_access ?s) (removeAll f (temp_pool s)))" by (rule so)
  qed
  have 5: "inv_mature ?s"
    using m by (auto simp: inv_mature_def forget_frame_def sorted_filter split: if_splits)
  show ?thesis using k 1 2 3 4 5 by (simp add: replacer_inv_def forget_frame_def)
qed

lemma Evict_inv:
  assumes inv: "replacer_inv s" and ev: "Evict s = Inr (r, s')"
  shows "replacer_inv s'"
proof -
  have "inv_pools s" "inv_counter s" using inv by (auto simp: replacer_inv_def)
  then have "Evict s = Inr (evict_result s)" by (rule Evict_under_inv)
  with ev have e: "(r, s') = evict_result s" by simp
  show ?thesis
  proof (cases "find (frame_evictable s) (temp_pool s @ map fst (cache_pool s))")
    case None
    with e inv show ?thesis by (simp add: evict_result_def)
  next
    case (Some f)
    then have "frame_evictable s f" by (auto dest: find_Some_in)
    from forget_frame_inv [OF inv this] e Some show ?thesis by (simp add: evict_result_def)
  qed
qed

lemma reachable_inv:
  assumes "2 \<le> k" "replacer_reachable n k s"
  shows "replacer_inv s"
  using assms(2)
proof (induction rule: replacer_reachable.induct)
  case reach_init
  show ?case using assms(1) by (rule inv_init)
next
  case (reach_access s f s')
  then show ?case by (auto intro: RecordAccess_inv)
next
  case (reach_set s f b s')
  then show ?case by (auto intro: SetEvictable_inv)
next
  case (reach_evict s r s')
  then show ?case by (auto intro: Evict_inv)
qed

lemma reachable_k: "replacer_reachable n k s \<Longrightarrow> replacer_k s = k"
proof (induction rule: replacer_reachable.induct)
  case reach_init
  show ?case by (simp add: LRUKReplacer_init_def)
next
  case (reach_access s f s')
  then show ?case
    by (auto simp: RecordAccess_def BUSTUB_ENSURE_def Let_def split: if_splits option.splits)
next
  case (reach_set s f b s')
  then show ?case
    by (auto simp: SetEvictable_def BUSTUB_ENSURE_def split: if_splits option.splits)
next
  case (reach_evict s r s')
  then show ?case
    by (auto simp: Evict_def evict_from_temp_def evict_from_cache_def split: if_splits option.splits sum.splits)
qed

lemma reachable_record_all:
  "replacer_reachable n k s \<Longrightarrow> record_all s fs = Inr s' \<Longrightarrow> replacer_reachable n k s'"
  by (induction fs arbitrary: s) (auto simp: ebind_def split: sum.splits intro: reach_access)

lemma reachable_mark_all:
  "replacer_reachable n k s \<Longrightarrow> mark_all s fs = Inr s' \<Longrightarrow> replacer_reachable n k s'"
  by (induction fs arbitrary: s) (auto simp: ebind_def split: sum.splits intro: reach_set)

lemmas replacer_eval =
  LRUKReplacer_init_def ebind_def RecordAccess_def SetEvictable_def Evict_def Remove_def
  BUSTUB_ENSURE_def frame_as_size_t_def PushFront_def BackK_def new_LRUKNode_def GetEvictable_def
  node_SetEvictable_def evict_from_temp_def evict_from_cache_def Let_def

lemma lru2_victims: "victims_of (Suc (Suc (Suc 0))) lru2_scenario = Inr [Some 1, Some 2, Some 3]"
  by (simp add: victims_of_def lru2_scenario_def replacer_eval)

text \<open>
  What holds where the two defects below do not reach. In every state that a replacer with
  \<open>K \<ge> 2\<close> reaches from its initial state by \<open>RecordAccess\<close>, \<open>SetEvictable\<close> and \<open>Evict\<close>
  calls, \<open>Evict\<close> returns the first evictable frame of the young pool followed by the mature
  pool and deletes that frame's node, pool cell and count (\<open>evict_result\<close>); it returns none
  exactly when no frame is evictable; the young pool holds the frames with fewer than \<open>K\<close>
  recorded accesses and the mature pool the others, in ascending order of the timestamp
  paired with them.
\<close>

lemma Evict_scan_order:
  assumes "2 \<le> k" and "replacer_reachable n k s"
  shows "Evict s = Inr (evict_result s) \<and>
         (fst (evict_result s) = None \<longleftrightarrow> (\<forall>f. \<not> frame_evictable s f)) \<and>
         set (temp_pool s) \<union> fst ` set (cache_pool s) = dom (node_store s) \<and>
         distinct (temp_pool s @ map fst (cache_pool s)) \<and>
         (\<forall>f\<in>set (temp_pool s). \<forall>nd. node_store s f = Some nd \<longrightarrow> length (history nd) < k) \<and>
         sorted_wrt (<) (map (first_access s) (temp_pool s)) \<and>
         (\<forall>p\<in>set (cache_pool s). \<forall>nd. node_store s (fst p) = Some nd \<longrightarrow>
              length (history nd) = k \<and> snd p = BackK nd) \<and>
         sorted (map snd (cache_pool s)) \<and>
         victims_of (Suc (Suc (Suc 0))) lru2_scenario = Inr [Some 1, Some 2, Some 3]"
proof -
  have inv: "replacer_inv s" using assms by (rule reachable_inv)
  have k: "replacer_k s = k" using assms(2) by (rule reachable_k)
  have p: "inv_pools s" and c: "inv_counter s" and y: "inv_young s" and m: "inv_mature s"
    using inv by (auto simp: replacer_inv_def)
  have 1: "Evict s = Inr (evict_result s)" using p c by (rule Evict_under_inv)
  have dom: "set (temp_pool s) \<union> fst ` set (cache_pool s) = dom (node_store s)"
    and d: "distinct (temp_pool s @ map fst (cache_pool s))"
    using p by (auto simp: inv_pools_def tracked_def)
  have 2: "fst (evict_result s) = None \<longleftrightarrow> (\<forall>f. \<not> frame_evictable s f)"
  proof -
    have "fst (evict_result s) = None \<longleftrightarrow>
          find (frame_evictable s) (temp_pool s @ map fst (cache_pool s)) = None"
      by (simp add: evict_result_def split: option.splits)
    also have "\<dots> \<longleftrightarrow> (\<forall>f\<in>dom (node_store s). \<not> frame_evictable s f)"
      unfolding find_None_all using dom by (metis set_append set_map)
    also have "\<dots> \<longleftrightarrow> (\<forall>f. \<not> frame_evictable s f)"
      by (auto simp: frame_evictable_def split: option.splits)
    finally show ?thesis .
  qed
  show ?thesis
    using 1 2 dom d y m lru2_victims by (simp add: inv_young_def inv_mature_def k)
qed

text \<open>The lemma applied to the state of the spec's scenario.\<close>

lemma Evict_scan_order_witness:
  "case lru2_scenario of
     Inl e \<Rightarrow> False
   | Inr s \<Rightarrow> Evict s = Inr (evict_result s) \<and> fst (evict_result s) = Some 1"
proof -
  obtain s0 where s0: "record_all (LRUKReplacer_init 3 2) [1, 2, 3, 1, 2, 3] = Inr s0"
    by (simp add: replacer_eval)
  obtain s where s: "mark_all s0 [1, 2, 3] = Inr s"
    using s0 by (auto simp: replacer_eval)
  have sc: "lru2_scenario = Inr s"
    using s0 s by (simp add: lru2_scenario_def ebind_def)
  have "replacer_reachable 3 2 s0"
    using reachable_record_all [OF reach_init s0] .
  then have r: "replacer_reachable 3 2 s"
    using s by (rule reachable_mark_all)
  have "Evict s = Inr (evict_result s)"
    using Evict_scan_order [of 2 3 s] r by simp
  moreover have "map_sum id fst (Evict s) = Inr (Some 1)"
    using s0 s by (auto simp: replacer_eval)
  ultimately show ?thesis by (simp add: sc)
qed

text \<open>
  C3. With \<open>N = 3\<close>, \<open>K = 2\<close>, accesses \<open>A, B, C, A, B, C\<close> and all frames evictable, three
  \<open>Evict\<close> calls return \<open>A\<close>, \<open>B\<close>, \<open>C\<close>, as the claim says. The claim fails on two other runs.
  With \<open>K = 1\<close> and accesses \<open>1, 2, 1, 2, 3\<close>, every frame has \<open>K\<close> recorded accesses, all are
  evictable and frame 1 has the smallest \<open>K\<close>-th timestamp (3 against 5 for frame 3), yet
  \<open>Evict\<close> returns frame 3: the first access of a frame puts it into the young pool without
  the test on \<open>BackK\<close> that every later access makes, so that frame 3 is scanned before the
  mature pool. And after \<open>Remove\<close> of a frame that is not evictable, which the inverted
  assertion of \<open>Remove\<close> lets through, the count of evictable frames is 0 while frame 1 is
  evictable, and \<open>Evict\<close> returns none.
\<close>

theorem Evict_order_defects:
  "victims_of (Suc (Suc (Suc 0))) lru2_scenario = Inr [Some 1, Some 2, Some 3] \<and>
   victim_of lru1_scenario = Inr (Some 3) \<and>
   accesses_kept lru1_scenario 1 = Inr 1 \<and>
   accesses_kept lru1_scenario 3 = Inr 1 \<and>
   kth_timestamp_of lru1_scenario 1 = Inr 3 \<and>
   kth_timestamp_of lru1_scenario 3 = Inr 5 \<and>
   evictable_in lru1_scenario 1 = Inr True \<and>
   evictable_in removed_scenario 1 = Inr True \<and>
   victim_of removed_scenario = Inr None"
  by (simp add: victims_of_def lru2_scenario_def victim_of_def accesses_kept_def
      kth_timestamp_of_def evictable_in_def lru1_scenario_def removed_scenario_def
      frame_evictable_def replacer_eval)

text \<open>
  C8. \<open>Remove\<close> on a tracked frame that is evictable stops with the failed
  \<open>BUSTUB_ENSURE\<close>, and \<open>Remove\<close> on a tracked frame that is not evictable deletes the frame
  and decrements the counter of evictable frames, here from 0 to \<open>2^64 - 1\<close>: the test of
  the assertion is the negation of what its message and the precondition say.
\<close>

theorem Remove_assertion_inverted:
  "remove_evictable_run = Inl (EnsureFailed ''Remove is called on a non-evictable frame'') \<and>
   map_sum id (\<lambda>s. (node_store s 1, temp_pool s, cache_pool s, evictable_size s)) remove_unevictable_run
     = Inr (None, [], [], - 1)"
  by (simp add: remove_evictable_run_def remove_unevictable_run_def replacer_eval)

lemma Remove_evictable_fails:
  "node_store s f = Some n \<Longrightarrow> is_evictable n \<Longrightarrow>
   Remove s f = Inl (EnsureFailed ''Remove is called on a non-evictable frame'')"
  by (simp add: Remove_def BUSTUB_ENSURE_def GetEvictable_def)

lemma Remove_unevictable_deletes:
  "node_store s f = Some n \<Longrightarrow> \<not> is_evictable n \<Longrightarrow>
   Remove s f = Inr (s\<lparr>temp_pool := remove1 f (temp_pool s),
                         cache_pool := cache_erase f (cache_pool s),
                         node_store := (node_store s)(f := None),
                         evictable_size := evictable_size s - 1\<rparr>)"
  by (simp add: Remove_def BUSTUB_ENSURE_def GetEvictable_def)

subsection \<open>Buffer pool manager\<close>

lemmas bpm_eval =
  BufferPoolManager_init_def NewPage_def FetchPage_def UnpinPage_def DeletePage_def take_frame_def
  pin_new_def AllocatePage_def update_page_def new_Page_def ResetMemory_def Size_def
  INVALID_PAGE_ID_def

lemma UnpinPage_effect:
  assumes "page_table b pid = Some f" and "0 < pin_count (pages b f)"
    and "UnpinPage b pid dirty = Inr (r, b')"
  shows "r \<and> pin_count (pages b' f) = pin_count (pages b f) - 1 \<and>
         is_dirty (pages b' f) = dirty \<and>
         (if pin_count (pages b f) = 1
          then SetEvictable (replacer b) f True = Inr (replacer b')
          else replacer b' = replacer b)"
  using assms
  by (auto simp: UnpinPage_def update_page_def ebind_def split: if_splits sum.splits)

text \<open>
  C4. On a resident page that is dirty and pinned, \<open>UnpinPage(page_id, false)\<close> clears the
  dirty flag: page 0 is dirty with pin count 1 after \<open>unpin_run1\<close> and clean with pin count
  0 after the unpin of \<open>unpin_run2\<close>. The write is then lost: once page 0 has been evicted
  and fetched back, its buffer is the zeroed one of the disk, not what was written.
\<close>

theorem UnpinPage_clears_dirty:
  "page_of unpin_run1 0 = Inr (Some (Header 42, 1, True)) \<and>
   page_of unpin_run2 0 = Inr (Some (Header 42, 0, False)) \<and>
   page_of unpin_run3 0 = Inr (Some (Blank, 1, False))"
  by (simp add: page_of_def unpin_run3_def unpin_run2_def unpin_run1_def write_data_def
      bpm_eval replacer_eval)


subsection \<open>Lock manager\<close>

lemmas lock_eval =
  LockTable_def LockRow_def LockTable_check_def LockRow_check_def abort_with_def GetState_def
  SetState_def GetIsolationLevel_def GetTransactionId_def enqueue_request_def new_LockRequest_def
  INVALID_TXN_ID_def CheckAppropriateLockOnTable_def TxnTableLockInsert_def TxnTableLockDelete_def
  TxnRowLockInsert_def TxnRowLockDelete_def

lemma table_map_put_back:
  "table_lock_map lm oid = Some q \<Longrightarrow> lm\<lparr>table_lock_map := (table_lock_map lm)(oid \<mapsto> q)\<rparr> = lm"
  by (simp add: map_upd_triv)

lemma row_map_put_back:
  "row_lock_map lm rid = Some q \<Longrightarrow> lm\<lparr>row_lock_map := (row_lock_map lm)(rid \<mapsto> q)\<rparr> = lm"
  by (simp add: map_upd_triv)

lemma LockTable_abort_state:
  "LockTable lm txn m oid = (Aborted r, txn', lm') \<Longrightarrow> txn_state txn' = ABORTED \<and> lm' = lm"
  by (auto simp: LockTable_def abort_with_def SetState_def enqueue_request_def table_map_put_back
      split: option.splits if_splits prod.splits)

lemma LockRow_abort_state:
  "LockRow lm txn m oid rid = (Aborted r, txn', lm') \<Longrightarrow> txn_state txn' = ABORTED \<and> lm' = lm"
  by (auto simp: LockRow_def abort_with_def SetState_def enqueue_request_def row_map_put_back
      split: option.splits if_splits prod.splits)

text \<open>
  C5 (as amended). For a transaction in the \<open>SHRINKING\<close> state: under \<open>REPEATABLE_READ\<close> every
  \<open>LockTable\<close> call and every \<open>LockRow\<close> call for \<open>S\<close> or \<open>X\<close> aborts with \<open>LOCK_ON_SHRINKING\<close>;
  a \<open>LockRow\<close> call for an intention mode aborts with \<open>ATTEMPTED_INTENTION_LOCK_ON_ROW\<close>
  whatever the isolation level; under \<open>READ_COMMITTED\<close>, \<open>LockTable\<close> aborts \<open>X\<close>, \<open>IX\<close> and \<open>SIX\<close>
  and \<open>LockRow\<close> aborts \<open>X\<close> with \<open>LOCK_ON_SHRINKING\<close>, while \<open>LockTable\<close> for \<open>S\<close> or \<open>IS\<close> and
  \<open>LockRow\<close> for \<open>S\<close> pass the isolation-level check; under \<open>READ_UNCOMMITTED\<close> every request
  aborts, with \<open>LOCK_ON_SHRINKING\<close> for \<open>X\<close> and \<open>IX\<close> and \<open>LOCK_SHARED_ON_READ_UNCOMMITTED\<close>
  otherwise. Whenever a call aborts, the transaction is in the \<open>ABORTED\<close> state.
\<close>

theorem shrinking_lock_requests:
  assumes "txn_state txn = SHRINKING"
  shows
    "(isolation_level txn = REPEATABLE_READ \<longrightarrow>
        LockTable lm txn m oid = (Aborted LOCK_ON_SHRINKING, txn\<lparr>txn_state := ABORTED\<rparr>, lm)) \<and>
     (isolation_level txn = REPEATABLE_READ \<and> (m = SHARED \<or> m = EXCLUSIVE) \<longrightarrow>
        LockRow lm txn m oid rid = (Aborted LOCK_ON_SHRINKING, txn\<lparr>txn_state := ABORTED\<rparr>, lm)) \<and>
     (m = INTENTION_SHARED \<or> m = INTENTION_EXCLUSIVE \<or> m = SHARED_INTENTION_EXCLUSIVE \<longrightarrow>
        LockRow lm txn m oid rid =
          (Aborted ATTEMPTED_INTENTION_LOCK_ON_ROW, txn\<lparr>txn_state := ABORTED\<rparr>, lm)) \<and>
     (isolation_level txn = READ_COMMITTED \<and>
      (m = EXCLUSIVE \<or> m = INTENTION_EXCLUSIVE \<or> m = SHARED_INTENTION_EXCLUSIVE) \<longrightarrow>
        LockTable lm txn m oid = (Aborted LOCK_ON_SHRINKING, txn\<lparr>txn_state := ABORTED\<rparr>, lm)) \<and>
     (isolation_level txn = READ_COMMITTED \<and> m = EXCLUSIVE \<longrightarrow>
        LockRow lm txn m oid rid = (Aborted LOCK_ON_SHRINKING, txn\<lparr>txn_state := ABORTED\<rparr>, lm)) \<and>
     (isolation_level txn = READ_COMMITTED \<and> (m = SHARED \<or> m = INTENTION_SHARED) \<longrightarrow>
        LockTable_check txn m = None \<and>
        fst (LockTable lm txn m oid) \<noteq> Aborted LOCK_ON_SHRINKING \<and>
        fst (LockTable lm txn m oid) \<noteq> Aborted LOCK_SHARED_ON_READ_UNCOMMITTED) \<and>
     (isolation_level txn = READ_COMMITTED \<and> m = SHARED \<longrightarrow>
        fst (LockRow lm txn m oid rid) \<noteq> Aborted LOCK_ON_SHRINKING \<and>
        fst (LockRow lm txn m oid rid) \<noteq> Aborted LOCK_SHARED_ON_READ_UNCOMMITTED) \<and>
     (isolation_level txn = READ_UNCOMMITTED \<longrightarrow>
        LockTable lm txn m oid =
          (Aborted (if m = EXCLUSIVE \<or> m = INTENTION_EXCLUSIVE then LOCK_ON_SHRINKING
                    else LOCK_SHARED_ON_READ_UNCOMMITTED), txn\<lparr>txn_state := ABORTED\<rparr>, lm)) \<and>
     (isolation_level txn = READ_UNCOMMITTED \<and> (m = SHARED \<or> m = EXCLUSIVE) \<longrightarrow>
        LockRow lm txn m oid rid =
          (Aborted (if m = EXCLUSIVE then LOCK_ON_SHRINKING
                    else LOCK_SHARED_ON_READ_UNCOMMITTED), txn\<lparr>txn_state := ABORTED\<rparr>, lm)) \<and>
     (\<forall>r txn' lm'. LockTable lm txn m oid = (Aborted r, txn', lm') \<or>
                   LockRow lm txn m oid rid = (Aborted r, txn', lm') \<longrightarrow> txn_state txn' = ABORTED)"
proof -
  have 1: "isolation_level txn = REPEATABLE_READ \<longrightarrow>
        LockTable lm txn m oid = (Aborted LOCK_ON_SHRINKING, txn\<lparr>txn_state := ABORTED\<rparr>, lm)"
    using assms by (simp add: LockTable_def LockTable_check_def abort_with_def GetState_def
        SetState_def GetIsolationLevel_def)
  have 2: "isolation_level txn = REPEATABLE_READ \<and> (m = SHARED \<or> m = EXCLUSIVE) \<longrightarrow>
        LockRow lm txn m oid rid = (Aborted LOCK_ON_SHRINKING, txn\<lparr>txn_state := ABORTED\<rparr>, lm)"
    using assms by (auto simp: LockRow_def LockRow_check_def abort_with_def GetState_def
        SetState_def GetIsolationLevel_def)
  have 3: "m = INTENTION_SHARED \<or> m = INTENTION_EXCLUSIVE \<or> m = SHARED_INTENTION_EXCLUSIVE \<longrightarrow>
        LockRow lm txn m oid rid =
          (Aborted ATTEMPTED_INTENTION_LOCK_ON_ROW, txn\<lparr>txn_state := ABORTED\<rparr>, lm)"
    by (auto simp: LockRow_def LockRow_check_def abort_with_def SetState_def)
  have 4: "isolation_level txn = READ_COMMITTED \<and>
      (m = EXCLUSIVE \<or> m = INTENTION_EXCLUSIVE \<or> m = SHARED_INTENTION_EXCLUSIVE) \<longrightarrow>
        LockTable lm txn m oid = (Aborted LOCK_ON_SHRINKING, txn\<lparr>txn_state := ABORTED\<rparr>, lm)"
    using assms by (auto simp: LockTable_def LockTable_check_def abort_with_def GetState_def
        SetState_def GetIsolationLevel_def)
  have 5: "isolation_level txn = READ_COMMITTED \<and> m = EXCLUSIVE \<longrightarrow>
        LockRow lm txn m oid rid = (Aborted LOCK_ON_SHRINKING, txn\<lparr>txn_state := ABORTED\<rparr>, lm)"
    using assms by (auto simp: LockRow_def LockRow_check_def abort_with_def GetState_def
        SetState_def GetIsolationLevel_def)
  have 6: "isolation_level txn = READ_COMMITTED \<and> (m = SHARED \<or> m = INTENTION_SHARED) \<longrightarrow>
        LockTable_check txn m = None \<and>
        fst (LockTable lm txn m oid) \<noteq> Aborted LOCK_ON_SHRINKING \<and>
        fst (LockTable lm txn m oid) \<noteq> Aborted LOCK_SHARED_ON_READ_UNCOMMITTED"
    using assms by (auto simp: LockTable_def LockTable_check_def GetState_def
        GetIsolationLevel_def enqueue_request_def split: option.splits if_splits)
  have 7: "isolation_level txn = READ_COMMITTED \<and> m = SHARED \<longrightarrow>
        fst (LockRow lm txn m oid rid) \<noteq> Aborted LOCK_ON_SHRINKING \<and>
        fst (LockRow lm txn m oid rid) \<noteq> Aborted LOCK_SHARED_ON_READ_UNCOMMITTED"
    using assms by (auto simp: LockRow_def LockRow_check_def GetState_def abort_with_def
        GetIsolationLevel_def enqueue_request_def split: option.splits if_splits)
  have 8: "isolation_level txn = READ_UNCOMMITTED \<longrightarrow>
        LockTable lm txn m oid =
          (Aborted (if m = EXCLUSIVE \<or> m = INTENTION_EXCLUSIVE then LOCK_ON_SHRINKING
                    else LOCK_SHARED_ON_READ_UNCOMMITTED), txn\<lparr>txn_state := ABORTED\<rparr>, lm)"
    using assms by (auto simp: LockTable_def LockTable_check_def abort_with_def GetState_def
        SetState_def GetIsolationLevel_def)
  have 9: "isolation_level txn = READ_UNCOMMITTED \<and> (m = SHARED \<or> m = EXCLUSIVE) \<longrightarrow>
        LockRow lm txn m oid rid =
          (Aborted (if m = EXCLUSIVE then LOCK_ON_SHRINKING
                    else LOCK_SHARED_ON_READ_UNCOMMITTED), txn\<lparr>txn_state := ABORTED\<rparr>, lm)"
    using assms by (auto simp: LockRow_def LockRow_check_def abort_with_def GetState_def
        SetState_def GetIsolationLevel_def)
  have 10: "\<forall>r txn' lm'. LockTable lm txn m oid = (Aborted r, txn', lm') \<or>
                   LockRow lm txn m oid rid = (Aborted r, txn', lm') \<longrightarrow> txn_state txn' = ABORTED"
    using LockTable_abort_state LockRow_abort_state by blast
  show ?thesis using 1 2 3 4 5 6 7 8 9 10 by blast
qed

text \<open>The theorem applied to a \<open>REPEATABLE_READ\<close> transaction that is shrinking.\<close>

theorem shrinking_lock_requests_witness:
  "LockTable empty_LockManager (txn_of 1 REPEATABLE_READ SHRINKING) SHARED 0 =
     (Aborted LOCK_ON_SHRINKING, (txn_of 1 REPEATABLE_READ SHRINKING)\<lparr>txn_state := ABORTED\<rparr>,
      empty_LockManager)"
  using shrinking_lock_requests [of "txn_of 1 REPEATABLE_READ SHRINKING" empty_LockManager SHARED 0 0]
  by (simp add: txn_of_def)

text \<open>
  C5 as stated fails for \<open>LockRow\<close> with an intention mode: the test for intention locks on
  rows comes first, so the abort reason is \<open>ATTEMPTED_INTENTION_LOCK_ON_ROW\<close> and not
  \<open>LOCK_ON_SHRINKING\<close>, and \<open>IS\<close> is not admitted under \<open>READ_COMMITTED\<close>.
\<close>

theorem shrinking_lock_requests_counterexample:
  "fst (LockRow empty_LockManager (txn_of 1 REPEATABLE_READ SHRINKING) INTENTION_SHARED 0 0)
     = Aborted ATTEMPTED_INTENTION_LOCK_ON_ROW \<and>
   fst (LockRow empty_LockManager (txn_of 1 READ_COMMITTED SHRINKING) INTENTION_SHARED 0 0)
     = Aborted ATTEMPTED_INTENTION_LOCK_ON_ROW \<and>
   fst (LockRow empty_LockManager (txn_of 1 READ_COMMITTED SHRINKING) INTENTION_EXCLUSIVE 0 0)
     = Aborted ATTEMPTED_INTENTION_LOCK_ON_ROW"
  by (simp add: LockRow_def LockRow_check_def abort_with_def txn_of_def)

lemma enqueue_same_mode:
  assumes "own_request (txn_id txn) (request_queue q) = Some r" "granted r"
    "lr_lock_mode r = lr_lock_mode n"
  shows "enqueue_request del txn n q = (Returned False, txn, q)"
  using assms by (simp add: enqueue_request_def GetTransactionId_def)

text \<open>
  C7. When the first request of the transaction in the queue of the resource is granted and
  has the requested mode, and the call passes the checks at the head of the function,
  \<open>LockTable\<close> and \<open>LockRow\<close> change neither the lock manager nor the transaction, and they
  return false, the value that the functions otherwise return for a request that was
  aborted, where the claim has them report success.
\<close>

theorem identical_mode_request:
  assumes "own_request (txn_id txn) (request_queue q) = Some r" and "granted r"
    and "lr_lock_mode r = m"
  shows "(table_lock_map lm oid = Some q \<and> LockTable_check txn m = None \<longrightarrow>
            LockTable lm txn m oid = (Returned False, txn, lm)) \<and>
         (row_lock_map lm rid = Some q \<and> LockRow_check txn m oid = None \<longrightarrow>
            LockRow lm txn m oid rid = (Returned False, txn, lm))"
  using assms
  by (auto simp: LockTable_def LockRow_def enqueue_same_mode new_LockRequest_def
      GetTransactionId_def table_map_put_back row_map_put_back)

text \<open>The theorem applied to a transaction that holds the only \<open>S\<close> lock on table 0.\<close>

theorem identical_mode_request_witness:
  "LockTable (held_LockManager 1 SHARED INVALID_TXN_ID) (txn_of 1 REPEATABLE_READ GROWING) SHARED 0 =
     (Returned False, txn_of 1 REPEATABLE_READ GROWING, held_LockManager 1 SHARED INVALID_TXN_ID)"
  using identical_mode_request [of "txn_of 1 REPEATABLE_READ GROWING"
      "\<lparr>request_queue = [(new_LockRequest 1 SHARED 0 None)\<lparr>granted := True\<rparr>], upgrading = INVALID_TXN_ID\<rparr>"
      "(new_LockRequest 1 SHARED 0 None)\<lparr>granted := True\<rparr>" SHARED
      "held_LockManager 1 SHARED INVALID_TXN_ID" 0 0]
  by (simp add: txn_of_def held_LockManager_def new_LockRequest_def LockTable_check_def
      GetState_def GetIsolationLevel_def)

text \<open>
  The runs for C7. The first \<open>LockTable(S)\<close> of a transaction on a table without a queue is
  granted and returns true; the same call again returns false, for the lock it holds. The
  same request of a transaction that holds the lock and is shrinking under
  \<open>REPEATABLE_READ\<close> does not reach the queue: the check at the head of the function aborts
  the transaction.
\<close>

theorem identical_mode_request_counterexample:
  "(case LockTable empty_LockManager (txn_of 1 REPEATABLE_READ GROWING) SHARED 0 of
      (r1, txn1, lm1) \<Rightarrow>
        r1 = Returned True \<and> LockTable lm1 txn1 SHARED 0 = (Returned False, txn1, lm1)) \<and>
   fst (LockRow ((held_LockManager 1 SHARED INVALID_TXN_ID))
          ((txn_of 1 REPEATABLE_READ GROWING)\<lparr>table_lock_set := (\<lambda>_. {0})\<rparr>) SHARED 0 0)
     = Returned False \<and>
   LockTable (held_LockManager 1 SHARED INVALID_TXN_ID) (txn_of 1 REPEATABLE_READ SHRINKING) SHARED 0
     = (Aborted LOCK_ON_SHRINKING, txn_of 1 REPEATABLE_READ ABORTED,
        held_LockManager 1 SHARED INVALID_TXN_ID)"
  by (simp add: txn_of_def held_LockManager_def empty_LockManager_def lock_eval)

lemma insert_upgrade_takeWhile:
  "insert_upgrade n rs = takeWhile granted rs @ n # dropWhile granted rs"
  by (induction rs) auto

lemma erase_own_split:
  "own_request t rs = Some r \<Longrightarrow>
   \<exists>xs ys. rs = xs @ r # ys \<and> (\<forall>x\<in>set xs. lr_txn_id x \<noteq> t) \<and> lr_txn_id r = t \<and>
           erase_own t rs = xs @ ys"
proof (induction rs)
  case Nil
  then show ?case by simp
next
  case (Cons a rs)
  show ?case
  proof (cases "lr_txn_id a = t")
    case True
    with Cons.prems have "a = r" by simp
    with True show ?thesis by (intro exI [of _ "[]"] exI [of _ rs]) simp
  next
    case False
    with Cons obtain xs ys where "rs = xs @ r # ys" "\<forall>x\<in>set xs. lr_txn_id x \<noteq> t"
      "lr_txn_id r = t" "erase_own t rs = xs @ ys"
      by auto
    with False show ?thesis by (intro exI [of _ "a # xs"] exI [of _ ys]) simp
  qed
qed

lemma CanLockUpgrade_lattice:
  "CanLockUpgrade a b \<longleftrightarrow>
     (a = INTENTION_SHARED \<and> b \<in> {SHARED, EXCLUSIVE, INTENTION_EXCLUSIVE, SHARED_INTENTION_EXCLUSIVE}) \<or>
     (a = SHARED \<and> b \<in> {EXCLUSIVE, SHARED_INTENTION_EXCLUSIVE}) \<or>
     (a = INTENTION_EXCLUSIVE \<and> b \<in> {EXCLUSIVE, SHARED_INTENTION_EXCLUSIVE}) \<or>
     (a = SHARED_INTENTION_EXCLUSIVE \<and> b = EXCLUSIVE)"
  by (cases a) auto

text \<open>
  C6 (as amended). A transaction whose first request in the queue of a table is granted
  asks for a different mode, and the call passes the checks on isolation level and state
  at the head of \<open>LockTable\<close>. If the queue records an upgrading transaction, whichever it is,
  the call aborts with \<open>UPGRADE_CONFLICT\<close>; otherwise, if the transition is not in the
  upgrade lattice, it aborts with \<open>INCOMPATIBLE_UPGRADE\<close>; otherwise the old request is erased
  from the queue, the new request is inserted immediately before the first request that is
  not granted (at the end when there is none), the queue's upgrading id becomes the
  transaction's id, and the old lock leaves the transaction's held set. The lattice is
  \<open>IS \<rightarrow> {S, X, IX, SIX}\<close>, \<open>S \<rightarrow> {X, SIX}\<close>, \<open>IX \<rightarrow> {X, SIX}\<close>, \<open>SIX \<rightarrow> X\<close>.
\<close>

theorem lock_upgrade:
  assumes "table_lock_map lm oid = Some q"
    and "own_request (txn_id txn) (request_queue q) = Some r" and "granted r"
    and "lr_lock_mode r \<noteq> m" and "LockTable_check txn m = None"
  shows "(upgrading q \<noteq> INVALID_TXN_ID \<longrightarrow>
            LockTable lm txn m oid = (Aborted UPGRADE_CONFLICT, txn\<lparr>txn_state := ABORTED\<rparr>, lm)) \<and>
         (upgrading q = INVALID_TXN_ID \<and> \<not> CanLockUpgrade (lr_lock_mode r) m \<longrightarrow>
            LockTable lm txn m oid = (Aborted INCOMPATIBLE_UPGRADE, txn\<lparr>txn_state := ABORTED\<rparr>, lm)) \<and>
         (upgrading q = INVALID_TXN_ID \<and> CanLockUpgrade (lr_lock_mode r) m \<longrightarrow>
            (\<exists>xs ys. request_queue q = xs @ r # ys \<and> (\<forall>x\<in>set xs. lr_txn_id x \<noteq> txn_id txn) \<and>
               LockTable lm txn m oid =
                 (Enqueued, TxnTableLockDelete txn (lr_lock_mode r) oid,
                  lm\<lparr>table_lock_map := (table_lock_map lm)(oid \<mapsto>
                        q\<lparr>request_queue :=
                            takeWhile granted (xs @ ys) @
                            new_LockRequest (txn_id txn) m oid None # dropWhile granted (xs @ ys),
                          upgrading := txn_id txn\<rparr>)\<rparr>))) \<and>
         (CanLockUpgrade (lr_lock_mode r) m \<longleftrightarrow>
            (lr_lock_mode r = INTENTION_SHARED \<and>
               m \<in> {SHARED, EXCLUSIVE, INTENTION_EXCLUSIVE, SHARED_INTENTION_EXCLUSIVE}) \<or>
            (lr_lock_mode r = SHARED \<and> m \<in> {EXCLUSIVE, SHARED_INTENTION_EXCLUSIVE}) \<or>
            (lr_lock_mode r = INTENTION_EXCLUSIVE \<and> m \<in> {EXCLUSIVE, SHARED_INTENTION_EXCLUSIVE}) \<or>
            (lr_lock_mode r = SHARED_INTENTION_EXCLUSIVE \<and> m = EXCLUSIVE))"
proof -
  let ?n = "new_LockRequest (txn_id txn) m oid None"
  have mode: "lr_lock_mode ?n = m" by (simp add: new_LockRequest_def)
  have 1: "upgrading q \<noteq> INVALID_TXN_ID \<longrightarrow>
            LockTable lm txn m oid = (Aborted UPGRADE_CONFLICT, txn\<lparr>txn_state := ABORTED\<rparr>, lm)"
    using assms
    by (simp add: LockTable_def enqueue_request_def GetTransactionId_def mode SetState_def
        table_map_put_back)
  have 2: "upgrading q = INVALID_TXN_ID \<and> \<not> CanLockUpgrade (lr_lock_mode r) m \<longrightarrow>
            LockTable lm txn m oid = (Aborted INCOMPATIBLE_UPGRADE, txn\<lparr>txn_state := ABORTED\<rparr>, lm)"
    using assms
    by (simp add: LockTable_def enqueue_request_def GetTransactionId_def mode SetState_def
        table_map_put_back)
  obtain xs ys where sp: "request_queue q = xs @ r # ys" "\<forall>x\<in>set xs. lr_txn_id x \<noteq> txn_id txn"
    "erase_own (txn_id txn) (request_queue q) = xs @ ys"
    using erase_own_split [OF assms(2)] by blast
  have 3: "upgrading q = INVALID_TXN_ID \<and> CanLockUpgrade (lr_lock_mode r) m \<longrightarrow>
            LockTable lm txn m oid =
                 (Enqueued, TxnTableLockDelete txn (lr_lock_mode r) oid,
                  lm\<lparr>table_lock_map := (table_lock_map lm)(oid \<mapsto>
                        q\<lparr>request_queue :=
                            takeWhile granted (xs @ ys) @ ?n # dropWhile granted (xs @ ys),
                          upgrading := txn_id txn\<rparr>)\<rparr>)"
    using assms sp(3)
    by (simp add: LockTable_def enqueue_request_def GetTransactionId_def mode
        insert_upgrade_takeWhile)
  show ?thesis
    using 1 2 3 sp(1,2) CanLockUpgrade_lattice [of "lr_lock_mode r" m] by blast
qed

text \<open>The theorem applied to the upgrade \<open>S \<rightarrow> X\<close> of transaction 1 in a queue with a waiting request.\<close>

theorem lock_upgrade_witness:
  "LockTable waiting_LockManager
     ((txn_of 1 REPEATABLE_READ GROWING)\<lparr>table_lock_set := (\<lambda>_. {})(SHARED := {0})\<rparr>) EXCLUSIVE 0 =
     (Enqueued,
      (txn_of 1 REPEATABLE_READ GROWING)\<lparr>table_lock_set := (\<lambda>_. {})\<rparr>,
      \<lparr>table_lock_map = [0 \<mapsto>
         \<lparr>request_queue =
            [(new_LockRequest 2 SHARED 0 None)\<lparr>granted := True\<rparr>,
             new_LockRequest 1 EXCLUSIVE 0 None,
             new_LockRequest 3 EXCLUSIVE 0 None],
          upgrading = 1\<rparr>],
       row_lock_map = Map.empty\<rparr>)"
proof -
  let ?txn = "(txn_of 1 REPEATABLE_READ GROWING)\<lparr>table_lock_set := (\<lambda>_. {})(SHARED := {0})\<rparr>"
  let ?r = "(new_LockRequest 1 SHARED 0 None)\<lparr>granted := True\<rparr>"
  have h: "table_lock_map waiting_LockManager 0 = Some waiting_queue"
    "own_request (txn_id ?txn) (request_queue waiting_queue) = Some ?r" "granted ?r"
    "lr_lock_mode ?r \<noteq> EXCLUSIVE" "LockTable_check ?txn EXCLUSIVE = None"
    by (simp_all add: waiting_LockManager_def waiting_queue_def txn_of_def new_LockRequest_def
        LockTable_check_def GetState_def GetIsolationLevel_def INVALID_TXN_ID_def)
  have "(\<lambda>_. {})(SHARED := {0::nat}, SHARED := {}) = (\<lambda>_. {})" by auto
  then show ?thesis
    using lock_upgrade [OF h]
    by (auto simp: waiting_LockManager_def waiting_queue_def txn_of_def new_LockRequest_def
        TxnTableLockDelete_def INVALID_TXN_ID_def Cons_eq_append_conv)
qed

text \<open>
  C6 as stated fails for a holder that does not pass the checks at the head of the
  function: a transaction that holds \<open>S\<close> and is shrinking under \<open>READ_COMMITTED\<close> asks for
  \<open>X\<close>, no transaction is upgrading and \<open>S \<rightarrow> X\<close> is in the lattice, yet the call aborts with
  \<open>LOCK_ON_SHRINKING\<close> and the queue stays as it was; a holder of \<open>IX\<close> under
  \<open>READ_UNCOMMITTED\<close> that asks for \<open>SIX\<close> is aborted with
  \<open>LOCK_SHARED_ON_READ_UNCOMMITTED\<close>. And \<open>UPGRADE_CONFLICT\<close> does not need another
  transaction: with the requester's own id recorded as upgrading the call aborts as well.
\<close>

theorem lock_upgrade_counterexample:
  "LockTable (held_LockManager 1 SHARED INVALID_TXN_ID) (txn_of 1 READ_COMMITTED SHRINKING) EXCLUSIVE 0
     = (Aborted LOCK_ON_SHRINKING, txn_of 1 READ_COMMITTED ABORTED,
        held_LockManager 1 SHARED INVALID_TXN_ID) \<and>
   CanLockUpgrade SHARED EXCLUSIVE \<and>
   LockTable (held_LockManager 1 INTENTION_EXCLUSIVE INVALID_TXN_ID)
       (txn_of 1 READ_UNCOMMITTED GROWING) SHARED_INTENTION_EXCLUSIVE 0
     = (Aborted LOCK_SHARED_ON_READ_UNCOMMITTED, txn_of 1 READ_UNCOMMITTED ABORTED,
        held_LockManager 1 INTENTION_EXCLUSIVE INVALID_TXN_ID) \<and>
   CanLockUpgrade INTENTION_EXCLUSIVE SHARED_INTENTION_EXCLUSIVE \<and>
   LockTable (held_LockManager 1 SHARED 1) (txn_of 1 REPEATABLE_READ GROWING) EXCLUSIVE 0
     = (Aborted UPGRADE_CONFLICT, txn_of 1 REPEATABLE_READ ABORTED, held_LockManager 1 SHARED 1)"
  by (simp add: txn_of_def held_LockManager_def lock_eval)

lemma upgrade_conflict_any:
  assumes "table_lock_map lm oid = Some q"
    and "own_request (txn_id txn) (request_queue q) = Some r" and "granted r"
    and "lr_lock_mode r \<noteq> m" and "LockTable_check txn m = None"
    and "upgrading q \<noteq> INVALID_TXN_ID"
  shows "LockTable lm txn m oid = (Aborted UPGRADE_CONFLICT, txn\<lparr>txn_state := ABORTED\<rparr>, lm)"
  using assms
  by (simp add: LockTable_def enqueue_request_def GetTransactionId_def new_LockRequest_def
      SetState_def table_map_put_back)

lemma lock_upgrade_row:
  assumes "row_lock_map lm rid = Some q"
    and "own_request (txn_id txn) (request_queue q) = Some r" and "granted r"
    and "lr_lock_mode r \<noteq> m" and "LockRow_check txn m oid = None"
  shows "LockRow lm txn m oid rid =
           (if upgrading q \<noteq> INVALID_TXN_ID
              then (Aborted UPGRADE_CONFLICT, txn\<lparr>txn_state := ABORTED\<rparr>, lm)
            else if \<not> CanLockUpgrade (lr_lock_mode r) m
              then (Aborted INCOMPATIBLE_UPGRADE, txn\<lparr>txn_state := ABORTED\<rparr>, lm)
            else (Enqueued, TxnRowLockDelete txn (lr_lock_mode r) oid rid,
                  lm\<lparr>row_lock_map := (row_lock_map lm)(rid \<mapsto>
                        q\<lparr>request_queue :=
                            insert_upgrade (new_LockRequest (txn_id txn) m oid (Some rid))
                              (erase_own (txn_id txn) (request_queue q)),
                          upgrading := txn_id txn\<rparr>)\<rparr>))"
  using assms
  by (simp add: LockRow_def enqueue_request_def GetTransactionId_def new_LockRequest_def
      SetState_def row_map_put_back)

subsection \<open>B+Tree\<close>


lemma ebind_Inr: "ebind (Inr x) f = f x"
  by (simp add: ebind_def)

lemma ebind_Inl: "ebind (Inl e) f = Inl e"
  by (simp add: ebind_def)

lemma ebind_weak_cong: "m = m' \<Longrightarrow> ebind m f = ebind m' f"
  by simp

lemma frames10: "map of_nat [0..<10] = [0, 1, 2, 3, 4, 5, 6, 7, 8, 9 :: frame_id_t]"
  by code_simp

lemmas fuel_numeral =
  FindLeafPage_loop.simps(2) [of "pred_numeral j" for j, folded numeral_eq_Suc]
  descend_write.simps(2) [of "pred_numeral j" for j, folded numeral_eq_Suc]
  Begin_loop.simps(2) [of "pred_numeral j" for j, folded numeral_eq_Suc]
  steps.simps(2) [of "pred_numeral j" for j, folded numeral_eq_Suc]

text \<open>
  The rewrite rules that run the model on a concrete pool. They are used with
  \<open>ebind_weak_cong\<close>, so that a step is unfolded once the steps before it have returned.
\<close>

lemmas run_eval =
  ebind_Inr ebind_Inl Let_def frames10 fuel_numeral
  LRUKReplacer_init_def RecordAccess_def SetEvictable_def Evict_def Remove_def
  BUSTUB_ENSURE_def frame_as_size_t_def PushFront_def BackK_def new_LRUKNode_def GetEvictable_def
  node_SetEvictable_def evict_from_temp_def evict_from_cache_def
  BufferPoolManager_init_def NewPage_def FetchPage_def UnpinPage_def DeletePage_def take_frame_def
  pin_new_def AllocatePage_def update_page_def new_Page_def ResetMemory_def Size_def
  INVALID_PAGE_ID_def RLatch_def RUnlatch_def WLatch_def WUnlatch_def
  mk_guard_def inert_def guard_PageId_def guard_GetData_def guard_GetDataMut_def guard_write_def
  BasicPageGuard_Drop_def ReadPageGuard_Drop_def WritePageGuard_Drop_def FetchPageBasic_def
  FetchPageRead_def FetchPageWrite_def
  as_header_def as_leaf_def as_internal_def as_tree_page_def read_header_def read_leaf_def
  read_internal_def read_tree_page_def set_root_def frame_WLatch_def frame_WUnlatch_def
  frame_write_def guard_frame_def distinct_frames_def IsRootPage_def BPlusTree_construct_def
  drop_header_def destroy_all_def FindLeafPage_def GetValue_def safe_for_def
  FindLeafPageWriteInsertOrDelete_def split_leaf_def copy_back_def InsertIntoParent.simps
  insert_into_leaf_def Insert_def RootAdjust_def FindSibling_def MergeOrRedistribute.simps
  tree_Remove_def
  IsLeafPage_def GetSize_def SetSize_def IncreaseSize_def GetMaxSize_def GetMinSize_def
  zero_LeafPage_def leaf_Init_def GetNextPageId_def SetNextPageId_def SetKeyValueAt_def
  ValueAtKey_def leaf_Insert_def leaf_Split_def RemoveRecord_def comparator_def
  zero_InternalPage_def internal_Init_def GetKeyIndex_def ValueAt_def CreatNewRoot_def
  internal_Insert_def BPlusTreePage.truncate_def
  iter_leaf_def IsEnd_def operator_inc_def GetRootPageId_def IsEmpty_def Begin_def
  tree33_def new_tree_def result_of_def two_leaves_def scan_def scan_view_def pin_of_def
  third_descent_def

text \<open>
  C1. On the empty tree, \<open>Insert(k, v)\<close> returns true and \<open>GetValue(k)\<close> then finds \<open>v\<close>; a
  second \<open>Insert(k, v2)\<close> returns false and \<open>GetValue(k)\<close> still finds the first value; with
  the keys 1 and 2 in the tree, \<open>Remove(1)\<close> returns and \<open>GetValue(1)\<close> finds nothing while key
  2 keeps its value. When \<open>k\<close> is the only key, \<open>Remove(k)\<close> does not return: the emptied
  root leaf is released and handed to \<open>DeletePage\<close>, whose call of the replacer's \<open>Remove\<close>
  stops at the assertion on the evictable flag, so that the \<open>GetValue(k)\<close> after it is never
  reached.
\<close>

theorem Remove_of_last_key_aborts:
  "insert_get_run front_key k v = Inr (True, Some v) \<and>
   insert_twice_run front_key k v1 v2 = Inr (False, Some v1) \<and>
   remove_one_of_two_run front_key = Inr (None, Some 20) \<and>
   insert_remove_run front_key k v =
     Inl (EnsureFailed ''Remove is called on a non-evictable frame'')"
  by (simp add: insert_get_run_def insert_twice_run_def remove_one_of_two_run_def
      insert_remove_run_def run_eval cong: ebind_weak_cong)























text \<open>
  A fetch through a basic guard that is dropped at once, on a resident page: every pin
  count, every buffer and the page table are as before.
\<close>

lemma fetch_drop_resident:
  assumes "page_table b pid = Some nf" and "page_id (pages b nf) = pid"
    and "0 \<le> pin_count (pages b nf)" and "frame_as_size_t nf \<le> replacer_size (replacer b)"
  shows "\<exists>b1 b'. FetchPageBasic b pid = Inr (mk_guard (Some nf), b1) \<and>
           (\<forall>f. data (pages b1 f) = data (pages b f)) \<and>
           BasicPageGuard_Drop b1 (mk_guard (Some nf)) = Inr (inert (mk_guard (Some nf)), b') \<and>
           (\<forall>f. pin_count (pages b' f) = pin_count (pages b f)) \<and>
           (\<forall>f. data (pages b' f) = data (pages b f)) \<and>
           page_table b' = page_table b"
  using assms
  by (auto simp: FetchPageBasic_def FetchPage_def BasicPageGuard_Drop_def UnpinPage_def mk_guard_def
      update_page_def ebind_Inr ebind_Inl SetEvictable_def BUSTUB_ENSURE_def Let_def
      split: option.splits)

text \<open>
  C9. The iterator points into the frame of a leaf. \<open>IsEnd\<close> is true exactly when that
  leaf's next-pointer is \<open>INVALID_PAGE_ID\<close> and the slot index equals its size; at the end
  \<open>operator++\<close> changes nothing. Otherwise \<open>operator++\<close> advances the slot index, and when the
  new index equals the size of the leaf and the leaf has a next-pointer, it fetches the next
  leaf through a guard that lives for that statement only, and points the iterator to the
  frame of the next leaf with slot 0. With the next leaf resident, the step leaves every pin
  count, every buffer and the page table as they were: the next leaf is pinned and unpinned
  again within the step and the old leaf is not unpinned. So the iterator holds a pin on
  neither leaf, where the claim has its current leaf pinned.
\<close>

theorem operator_inc_step:
  assumes "data (pages b (iter_leaf_page it)) = Leaf lp"
  shows "IsEnd b it = Inr (GetNextPageId lp = INVALID_PAGE_ID \<and> iter_index it = GetSize lp) \<and>
         (GetNextPageId lp = INVALID_PAGE_ID \<and> iter_index it = GetSize lp \<longrightarrow>
            operator_inc b it = Inr (it, b)) \<and>
         (\<not> (GetNextPageId lp = INVALID_PAGE_ID \<and> iter_index it = GetSize lp) \<and>
          \<not> (iter_index it + 1 = GetSize lp \<and> GetNextPageId lp \<noteq> INVALID_PAGE_ID) \<longrightarrow>
            operator_inc b it = Inr (it\<lparr>iter_index := iter_index it + 1\<rparr>, b)) \<and>
         (iter_index it + 1 = GetSize lp \<and> GetNextPageId lp \<noteq> INVALID_PAGE_ID \<and>
          page_table b (GetNextPageId lp) = Some nf \<and> page_id (pages b nf) = GetNextPageId lp \<and>
          data (pages b nf) = Leaf lp' \<and> 0 \<le> pin_count (pages b nf) \<and>
          frame_as_size_t nf \<le> replacer_size (replacer b) \<longrightarrow>
            (\<exists>b'. operator_inc b it = Inr (it\<lparr>iter_leaf_page := nf, iter_index := 0\<rparr>, b') \<and>
                  (\<forall>f. pin_count (pages b' f) = pin_count (pages b f)) \<and>
                  (\<forall>f. data (pages b' f) = data (pages b f)) \<and>
                  page_table b' = page_table b))"
proof -
  have e: "IsEnd b it = Inr (GetNextPageId lp = INVALID_PAGE_ID \<and> iter_index it = GetSize lp)"
    using assms by (simp add: IsEnd_def iter_leaf_def as_leaf_def ebind_Inr)
  have l: "iter_leaf b (it\<lparr>iter_index := iter_index it + 1\<rparr>) = Inr lp"
    using assms by (simp add: iter_leaf_def as_leaf_def)
  have 1: "operator_inc b it = Inr (it, b)"
    if "GetNextPageId lp = INVALID_PAGE_ID \<and> iter_index it = GetSize lp"
    using that e by (simp add: operator_inc_def ebind_Inr)
  have 2: "operator_inc b it = Inr (it\<lparr>iter_index := iter_index it + 1\<rparr>, b)"
    if "\<not> (GetNextPageId lp = INVALID_PAGE_ID \<and> iter_index it = GetSize lp)"
      "\<not> (iter_index it + 1 = GetSize lp \<and> GetNextPageId lp \<noteq> INVALID_PAGE_ID)"
    using that e l by (auto simp: operator_inc_def ebind_Inr Let_def)
  have 3: "\<exists>b'. operator_inc b it = Inr (it\<lparr>iter_leaf_page := nf, iter_index := 0\<rparr>, b') \<and>
                  (\<forall>f. pin_count (pages b' f) = pin_count (pages b f)) \<and>
                  (\<forall>f. data (pages b' f) = data (pages b f)) \<and>
                  page_table b' = page_table b"
    if c: "iter_index it + 1 = GetSize lp" "GetNextPageId lp \<noteq> INVALID_PAGE_ID"
      and r: "page_table b (GetNextPageId lp) = Some nf" "page_id (pages b nf) = GetNextPageId lp"
      "0 \<le> pin_count (pages b nf)" "frame_as_size_t nf \<le> replacer_size (replacer b)"
      and d: "data (pages b nf) = Leaf lp'"
  proof -
    from fetch_drop_resident [OF r] obtain b1 b'
      where f: "FetchPageBasic b (GetNextPageId lp) = Inr (mk_guard (Some nf), b1)"
        and d1: "\<forall>f. data (pages b1 f) = data (pages b f)"
        and dr: "BasicPageGuard_Drop b1 (mk_guard (Some nf)) = Inr (inert (mk_guard (Some nf)), b')"
        and k: "\<forall>f. pin_count (pages b' f) = pin_count (pages b f)"
          "\<forall>f. data (pages b' f) = data (pages b f)" "page_table b' = page_table b"
      by blast
    have rl: "read_leaf b1 (mk_guard (Some nf)) = Inr lp'"
      using d d1 by (simp add: read_leaf_def guard_GetData_def mk_guard_def as_leaf_def ebind_Inr)
    have "operator_inc b it = Inr (it\<lparr>iter_leaf_page := nf, iter_index := 0\<rparr>, b')"
      using c e l f rl dr
      by (simp add: operator_inc_def ebind_Inr Let_def guard_frame_def mk_guard_def)
    with k show ?thesis by blast
  qed
  from e 1 2 3 show ?thesis by blast
qed

text \<open>
  The theorem applied to the scan of \<open>two_leaves\<close>: the first step stays in page 1, the second
  step crosses to page 2, and after the third step the iterator is at the end and stays.
\<close>

lemma scan_states:
  "\<exists>it b lp. scan (\<lambda>_. 0) 0 = Inr (it, b) \<and> data (pages b (iter_leaf_page it)) = Leaf lp \<and>
     GetNextPageId lp = 2 \<and> GetSize lp = 2 \<and> iter_index it = 0"
  "\<exists>it b lp lp'. scan (\<lambda>_. 0) 1 = Inr (it, b) \<and> data (pages b (iter_leaf_page it)) = Leaf lp \<and>
     GetNextPageId lp = 2 \<and> GetSize lp = 2 \<and> iter_index it = 1 \<and> page_table b 2 = Some 2 \<and>
     page_id (pages b 2) = 2 \<and> data (pages b 2) = Leaf lp' \<and> pin_count (pages b 2) = 0 \<and>
     replacer_size (replacer b) = 10"
  "\<exists>it b lp. scan (\<lambda>_. 0) 3 = Inr (it, b) \<and> data (pages b (iter_leaf_page it)) = Leaf lp \<and>
     GetNextPageId lp = INVALID_PAGE_ID \<and> GetSize lp = 1 \<and> iter_index it = 1"
  by (simp_all add: run_eval cong: ebind_weak_cong)

theorem operator_inc_step_witness:
  "(\<exists>it b. scan (\<lambda>_. 0) 0 = Inr (it, b) \<and> IsEnd b it = Inr False \<and>
      operator_inc b it = Inr (it\<lparr>iter_index := 1\<rparr>, b)) \<and>
   (\<exists>it b b'. scan (\<lambda>_. 0) 1 = Inr (it, b) \<and> IsEnd b it = Inr False \<and>
      operator_inc b it = Inr (it\<lparr>iter_leaf_page := 2, iter_index := 0\<rparr>, b') \<and>
      (\<forall>f. pin_count (pages b' f) = pin_count (pages b f)) \<and> pin_count (pages b' 2) = 0) \<and>
   (\<exists>it b. scan (\<lambda>_. 0) 3 = Inr (it, b) \<and> IsEnd b it = Inr True \<and>
      operator_inc b it = Inr (it, b))"
proof -
  have i: "INVALID_PAGE_ID \<noteq> 2" "frame_as_size_t 2 \<le> 10"
    by (simp_all add: INVALID_PAGE_ID_def frame_as_size_t_def)
  from scan_states(1) obtain it0 b0 lp0
    where s0: "scan (\<lambda>_. 0) 0 = Inr (it0, b0)" "data (pages b0 (iter_leaf_page it0)) = Leaf lp0"
      "GetNextPageId lp0 = 2" "GetSize lp0 = 2" "iter_index it0 = 0"
    by blast
  from operator_inc_step [OF s0(2), of 0 lp0] s0 i
  have a: "IsEnd b0 it0 = Inr False \<and> operator_inc b0 it0 = Inr (it0\<lparr>iter_index := 1\<rparr>, b0)"
    by simp
  from scan_states(2) obtain it1 b1 lp1 lp1'
    where s1: "scan (\<lambda>_. 0) 1 = Inr (it1, b1)" "data (pages b1 (iter_leaf_page it1)) = Leaf lp1"
      "GetNextPageId lp1 = 2" "GetSize lp1 = 2" "iter_index it1 = 1" "page_table b1 2 = Some 2"
      "page_id (pages b1 2) = 2" "data (pages b1 2) = Leaf lp1'" "pin_count (pages b1 2) = 0"
      "replacer_size (replacer b1) = 10"
    by blast
  from operator_inc_step [OF s1(2), of 2 lp1'] s1 i
  obtain b1' where c: "IsEnd b1 it1 = Inr False"
    "operator_inc b1 it1 = Inr (it1\<lparr>iter_leaf_page := 2, iter_index := 0\<rparr>, b1')"
    "\<forall>f. pin_count (pages b1' f) = pin_count (pages b1 f)"
    by auto
  from c(3) s1(9) have c4: "pin_count (pages b1' 2) = 0" by simp
  from scan_states(3) obtain it3 b3 lp3
    where s3: "scan (\<lambda>_. 0) 3 = Inr (it3, b3)" "data (pages b3 (iter_leaf_page it3)) = Leaf lp3"
      "GetNextPageId lp3 = INVALID_PAGE_ID" "GetSize lp3 = 1" "iter_index it3 = 1"
    by blast
  from operator_inc_step [OF s3(2), of 0 lp3] s3
  have e: "IsEnd b3 it3 = Inr True \<and> operator_inc b3 it3 = Inr (it3, b3)"
    by simp
  from s0(1) a s1(1) c c4 s3(1) e show ?thesis by blast
qed

text \<open>
  The runs for C9. In the scan of \<open>two_leaves\<close> the iterator stands on slot 1 of page 1 after
  one step, and neither leaf is pinned; the next step takes it to slot 0 of page 2, and
  still neither leaf is pinned. Without a pin the frame under the iterator can be given
  away: when the caller allocates seven pages after \<open>Begin()\<close>, the seventh takes the frame of
  page 1 for page 10, and \<open>operator*\<close>, which returned the entry \<open>(1, 10)\<close> before, returns the
  zeroed slot of the new page.
\<close>

theorem operator_inc_step_counterexample:
  "scan_view (scan (\<lambda>_. 0) 1) = Inr (1, 1, Some 0, Some 0) \<and>
   scan_view (scan (\<lambda>_. 0) 2) = Inr (2, 0, Some 0, Some 0) \<and>
   interrupted_scan (\<lambda>_. 0) 7 = Inr ((1, 10), (0, 0), 10)"
  by (simp add: interrupted_scan_def operator_deref_def ArrayIt_def
      allocate.simps(2) [of "pred_numeral j" for j, folded numeral_eq_Suc]
      run_eval cong: ebind_weak_cong)

end
